(* ===== verification/Prelude.thy ===== *)
theory Prelude
  imports Main "HOL-Library.Multiset"
begin

text \<open>
  Shared vocabulary of the development: the named collections the component
  proofs are carried by, and the generic facts on association lists and lists that
  the components share.  A JavaScript object built by \<open>JSON.parse\<close> or by an
  object literal is an association list of its own properties in insertion order;
  \<open>JSON.parse\<close> keeps the last of duplicated keys, so a property read is
  \<open>lookup_last\<close>.
\<close>

named_theorems js_simps "evaluation equations of the JavaScript value model"
named_theorems server_simps "effect equations of the server operations on its state"

definition lookup_last :: "('k \<times> 'v) list \<Rightarrow> 'k \<Rightarrow> 'v option" where
  "lookup_last kvs k = map_of (rev kvs) k"

lemma lookup_last_Nil [simp, js_simps]: "lookup_last [] k = None"
  by (simp add: lookup_last_def)

lemma lookup_last_Cons [simp, js_simps]:
  "lookup_last ((k', v) # kvs) k =
     (case lookup_last kvs k of None \<Rightarrow> (if k = k' then Some v else None) | Some w \<Rightarrow> Some w)"
  by (auto simp: lookup_last_def map_add_def split: option.split)

lemma lookup_last_None_iff: "lookup_last kvs k = None \<longleftrightarrow> k \<notin> fst ` set kvs"
  by (simp add: lookup_last_def map_of_eq_None_iff)

lemma lookup_last_Some_in: "lookup_last kvs k = Some v \<Longrightarrow> (k, v) \<in> set kvs"
  unfolding lookup_last_def by (auto dest: map_of_SomeD)

lemma lookup_last_distinct: "distinct (map fst kvs) \<Longrightarrow> lookup_last kvs k = map_of kvs k"
  by (induction kvs) (force simp: lookup_last_None_iff dest: lookup_last_Some_in split: option.split)+

lemma lookup_last_append: "lookup_last (xs @ ys) = lookup_last xs ++ lookup_last ys"
  by (simp add: lookup_last_def [abs_def])

text \<open>Counting the elements of a list that satisfy a test, as the run lemmas do.\<close>

lemma length_filter_append_single [simp]:
  "length (filter P (xs @ [x])) = length (filter P xs) + (if P x then 1 else 0)"
  by simp


text \<open>Cancelling a balance of multiset sums.\<close>

lemma mset_balance_trans:
  fixes a b c d e f :: "'a multiset"
  assumes "a + b = c + d" and "d + e = b + f"
  shows "a + e = c + f"
proof -
  have "(a + e) + (b + d) = (a + b) + (d + e)" by (simp add: ac_simps)
  also have "\<dots> = (c + d) + (b + f)" using assms by simp
  also have "\<dots> = (c + f) + (b + d)" by (simp add: ac_simps)
  finally show ?thesis by simp
qed

end
