(* ===== verification/Json.thy ===== *)
theory Json
  imports Prelude
begin

text \<open>
  The JavaScript values the server handles and the parts of the language's
  semantics that the source relies on.  A value produced by \<open>JSON.parse\<close> (or
  written as a literal in the source) is a \<open>json\<close>; \<open>undefined\<close> is \<open>None\<close> of a
  \<open>jsval\<close>.  Numbers are the integers (the values the protocol carries: ids, error
  codes, counts, periods); strings are lists of code units of at most 8 bits.
  An exception is a value of \<open>exn\<close> and a computation that may throw returns
  \<open>exn + 'a\<close>.  The messages of \<open>TypeError\<close>s are the ones V8 (Node.js) prints.
\<close>

datatype json =
    JNull
  | JBool bool
  | JNum int
  | JStr string
  | JArr "json list"
  | JObj "(string \<times> json) list"

type_synonym jsval = "json option"

datatype exn =
    TypeError string
  | Error string
  | SyntaxError string

fun exn_message :: "exn \<Rightarrow> string" where
  "exn_message (TypeError m) = m"
| "exn_message (Error m) = m"
| "exn_message (SyntaxError m) = m"

definition apos :: string where
  "apos = [CHR 0x27]"

definition read_error :: "string \<Rightarrow> string \<Rightarrow> exn" where
  "read_error what p =
     TypeError (''Cannot read properties of '' @ what @ '' (reading '' @ apos @ p @ apos @ '')'')"

subsection \<open>Sequencing computations that may throw\<close>

text \<open>
  \<open>js_bind m f\<close> runs \<open>f\<close> on the value of \<open>m\<close> unless \<open>m\<close> threw;
  \<open>js_catch h m\<close> is \<open>try { m } catch (e) { throw h(e) }\<close>.
\<close>

definition js_bind :: "exn + 'a \<Rightarrow> ('a \<Rightarrow> exn + 'b) \<Rightarrow> exn + 'b" where
  "js_bind m f = (case m of Inl e \<Rightarrow> Inl e | Inr a \<Rightarrow> f a)"

definition js_catch :: "(exn \<Rightarrow> exn) \<Rightarrow> exn + 'a \<Rightarrow> exn + 'a" where
  "js_catch h m = (case m of Inl e \<Rightarrow> Inl (h e) | Inr a \<Rightarrow> Inr a)"

subsection \<open>Property reads\<close>

text \<open>
  \<open>v.p\<close> for a data property \<open>p\<close> that no built-in prototype defines (every key the
  server reads is one): reading from \<open>undefined\<close> or \<open>null\<close> throws, an object
  yields its own property, a string or an array its \<open>length\<close>, anything else
  \<open>undefined\<close>.  \<open>v?.p\<close> yields \<open>undefined\<close> on a nullish \<open>v\<close> instead.
\<close>

fun js_get :: "jsval \<Rightarrow> string \<Rightarrow> exn + jsval" where
  "js_get None p = Inl (read_error ''undefined'' p)"
| "js_get (Some JNull) p = Inl (read_error ''null'' p)"
| "js_get (Some (JObj kvs)) p = Inr (lookup_last kvs p)"
| "js_get (Some (JArr xs)) p = Inr (if p = ''length'' then Some (JNum (int (length xs))) else None)"
| "js_get (Some (JStr s)) p = Inr (if p = ''length'' then Some (JNum (int (length s))) else None)"
| "js_get (Some (JBool b)) p = Inr None"
| "js_get (Some (JNum n)) p = Inr None"

fun js_get_opt :: "jsval \<Rightarrow> string \<Rightarrow> exn + jsval" where
  "js_get_opt None p = Inr None"
| "js_get_opt (Some JNull) p = Inr None"
| "js_get_opt v p = js_get v p"

text \<open>Reading a value as an object or as an array.\<close>

fun as_obj :: "jsval \<Rightarrow> (string \<times> json) list option" where
  "as_obj (Some (JObj kvs)) = Some kvs"
| "as_obj _ = None"

fun as_arr :: "jsval \<Rightarrow> json list option" where
  "as_arr (Some (JArr xs)) = Some xs"
| "as_arr _ = None"

subsection \<open>Truthiness and the \<open>||\<close> operator\<close>

fun truthy :: "jsval \<Rightarrow> bool" where
  "truthy None = False"
| "truthy (Some JNull) = False"
| "truthy (Some (JBool b)) = b"
| "truthy (Some (JNum n)) = (n \<noteq> 0)"
| "truthy (Some (JStr s)) = (s \<noteq> [])"
| "truthy (Some (JArr xs)) = True"
| "truthy (Some (JObj kvs)) = True"

text \<open>\<open>a || d\<close> with a literal \<open>d\<close>: the result is always defined.\<close>

fun js_or :: "jsval \<Rightarrow> json \<Rightarrow> json" where
  "js_or (Some v) d = (if truthy (Some v) then v else d)"
| "js_or None d = d"

subsection \<open>Number to string and ToString\<close>

fun nat_decimal :: "nat \<Rightarrow> string" where
  "nat_decimal n =
     (if n < 10 then [char_of (48 + n)]
      else nat_decimal (n div 10) @ [char_of (48 + n mod 10)])"

declare nat_decimal.simps [simp del]

definition int_decimal :: "int \<Rightarrow> string" where
  "int_decimal i = (if i < 0 then CHR ''-'' # nat_decimal (nat (- i)) else nat_decimal (nat i))"

text \<open>
  ToString of a value (also ToPropertyKey, and the conversion in a template literal):
  an array is joined with commas, \<open>null\<close> elements giving the empty string; an
  object is \<open>[object Object]\<close> unless an own \<open>toString\<close> property shadows the
  inherited method, in which case no conversion method is callable and a TypeError
  is thrown.
\<close>

fun js_to_string :: "json \<Rightarrow> exn + string"
  and js_join :: "json list \<Rightarrow> exn + string" where
  "js_to_string JNull = Inr ''null''"
| "js_to_string (JBool b) = Inr (if b then ''true'' else ''false'')"
| "js_to_string (JNum n) = Inr (int_decimal n)"
| "js_to_string (JStr s) = Inr s"
| "js_to_string (JArr xs) = js_join xs"
| "js_to_string (JObj kvs) =
     (if ''toString'' \<in> set (map fst kvs)
      then Inl (TypeError ''Cannot convert object to primitive value'')
      else Inr ''[object Object]'')"
| "js_join [] = Inr []"
| "js_join (x # xs) =
     (case (if x = JNull then Inr [] else js_to_string x) of
        Inl e \<Rightarrow> Inl e
      | Inr a \<Rightarrow>
          (if xs = [] then Inr a
           else (case js_join xs of Inl e \<Rightarrow> Inl e | Inr b \<Rightarrow> Inr (a @ '','' @ b))))"

fun js_to_string_opt :: "jsval \<Rightarrow> exn + string" where
  "js_to_string_opt None = Inr ''undefined''"
| "js_to_string_opt (Some v) = js_to_string v"

subsection \<open>Array.prototype.map with a callback that may throw\<close>

fun js_map :: "('a \<Rightarrow> exn + 'b) \<Rightarrow> 'a list \<Rightarrow> exn + 'b list" where
  "js_map f [] = Inr []"
| "js_map f (x # xs) =
     (case f x of Inl e \<Rightarrow> Inl e | Inr y \<Rightarrow> (case js_map f xs of Inl e \<Rightarrow> Inl e | Inr ys \<Rightarrow> Inr (y # ys)))"

subsection \<open>\<open>parseInt\<close> with no radix\<close>

text \<open>
  \<open>parseInt(s)\<close>: leading white space (the Latin-1 ones) is skipped, one sign is
  taken, a \<open>0x\<close>/\<open>0X\<close> prefix selects radix 16, and the longest prefix of digits
  of the radix is read; no digit gives \<open>NaN\<close>, here \<open>None\<close>.
\<close>

definition js_space :: "char \<Rightarrow> bool" where
  "js_space c \<longleftrightarrow> of_char c \<in> {9, 10, 11, 12, 13, 32, 160 :: nat}"

definition digit_value :: "nat \<Rightarrow> char \<Rightarrow> nat option" where
  "digit_value r c =
     (let n = (of_char c :: nat);
          d = (if 48 \<le> n \<and> n \<le> 57 then Some (n - 48)
               else if 97 \<le> n \<and> n \<le> 122 then Some (n - 87)
               else if 65 \<le> n \<and> n \<le> 90 then Some (n - 55) else None)
      in case d of Some v \<Rightarrow> (if v < r then Some v else None) | None \<Rightarrow> None)"

fun digit_prefix :: "nat \<Rightarrow> string \<Rightarrow> nat list" where
  "digit_prefix r [] = []"
| "digit_prefix r (c # cs) = (case digit_value r c of Some d \<Rightarrow> d # digit_prefix r cs | None \<Rightarrow> [])"

definition digits_value :: "nat \<Rightarrow> nat list \<Rightarrow> nat" where
  "digits_value r ds = foldl (\<lambda>a d. a * r + d) 0 ds"

fun strip_sign :: "string \<Rightarrow> bool \<times> string" where
  "strip_sign [] = (False, [])"
| "strip_sign (c # cs) =
     (if c = CHR ''-'' then (True, cs) else if c = CHR ''+'' then (False, cs) else (False, c # cs))"

fun strip_radix :: "string \<Rightarrow> nat \<times> string" where
  "strip_radix (c0 # c1 # cs) =
     (if c0 = CHR ''0'' \<and> (c1 = CHR ''x'' \<or> c1 = CHR ''X'') then (16, cs) else (10, c0 # c1 # cs))"
| "strip_radix cs = (10, cs)"

definition js_parse_int :: "string \<Rightarrow> int option" where
  "js_parse_int str =
     (let (neg, s) = strip_sign (dropWhile js_space str);
          (r, s') = strip_radix s;
          ds = digit_prefix r s'
      in if ds = [] then None
         else Some ((if neg then -1 else 1) * int (digits_value r ds)))"

subsection \<open>Objects and their JSON text\<close>

text \<open>
  An object literal whose fields may hold \<open>undefined\<close>; \<open>JSON.stringify\<close> omits
  those fields, so the JSON value that is printed keeps only the defined ones.
\<close>

fun defined_fields :: "(string \<times> jsval) list \<Rightarrow> (string \<times> json) list" where
  "defined_fields [] = []"
| "defined_fields ((k, None) # fs) = defined_fields fs"
| "defined_fields ((k, Some v) # fs) = (k, v) # defined_fields fs"

definition js_object :: "(string \<times> jsval) list \<Rightarrow> json" where
  "js_object fs = JObj (defined_fields fs)"

subsection \<open>\<open>parseInt\<close> reads back the decimal form of an integer\<close>

definition decimal_digits :: "nat \<Rightarrow> nat list" where
  "decimal_digits n = map (\<lambda>c. of_char c - 48) (nat_decimal n)"

subsection \<open>Sequencing computations that may throw\<close>

lemma js_bind_Inl [simp, js_simps]: "js_bind (Inl e) f = Inl e"
  and js_bind_Inr [simp, js_simps]: "js_bind (Inr a) f = f a"
  by (simp_all add: js_bind_def)

lemma js_catch_Inl [simp, js_simps]: "js_catch h (Inl e) = Inl (h e)"
  and js_catch_Inr [simp, js_simps]: "js_catch h (Inr a) = Inr a"
  by (simp_all add: js_catch_def)

subsection \<open>Property reads\<close>

text \<open>Whether a read throws depends on the value read from, not on the key.\<close>

lemma js_get_other_key: "js_get v p = Inr x \<Longrightarrow> \<exists>y. js_get v q = Inr y"
  by (cases "(v, p)" rule: js_get.cases) auto

lemma js_get_opt_other_key:
  "js_get_opt v p = Inr x \<Longrightarrow> \<exists>y. js_get_opt v q = Inr y"
  by (cases "(v, p)" rule: js_get_opt.cases) (auto dest: js_get_other_key [where q = q])

lemma as_obj_Some_iff [simp]: "as_obj v = Some kvs \<longleftrightarrow> v = Some (JObj kvs)"
  by (cases v rule: as_obj.cases) auto

lemma as_arr_Some_iff [simp]: "as_arr v = Some xs \<longleftrightarrow> v = Some (JArr xs)"
  by (cases v rule: as_arr.cases) auto

subsection \<open>Array.prototype.map with a callback that may throw\<close>

lemma js_map_Inr [js_simps]:
  "(\<And>x. x \<in> set xs \<Longrightarrow> f x = Inr (g x)) \<Longrightarrow> js_map f xs = Inr (map g xs)"
  by (induction xs) auto

subsection \<open>\<open>parseInt\<close> reads back the decimal form of an integer\<close>

lemma of_char_digit: "k < 10 \<Longrightarrow> of_char (char_of (48 + k) :: char) = (48 + k :: nat)"
  by (simp add: of_char_of)

lemma digit_char_zero: "(k::nat) < 10 \<Longrightarrow> (char_of (48 + k) = CHR ''0'') = (k = 0)"
proof
  assume "k < 10" and "char_of (48 + k) = CHR ''0''"
  then have "of_char (char_of (48 + k) :: char) = (of_char CHR ''0'' :: nat)" by simp
  with \<open>k < 10\<close> show "k = 0" by (simp add: of_char_digit)
next
  assume "k = 0"
  have "char_of (48 :: nat) = CHR ''0''" by code_simp
  with \<open>k = 0\<close> show "char_of (48 + k) = CHR ''0''" by simp
qed

lemma nat_decimal_digit_chars: "c \<in> set (nat_decimal n) \<Longrightarrow> \<exists>k<(10::nat). c = char_of (48 + k)"
proof (induction n rule: nat_decimal.induct)
  case (1 n)
  show ?case
  proof (cases "n < 10")
    case True
    with "1.prems" have "c = char_of (48 + n)" by (simp add: nat_decimal.simps [of n])
    with True show ?thesis by blast
  next
    case False
    with "1.prems" have "c \<in> set (nat_decimal (n div 10)) \<or> c = char_of (48 + n mod 10)"
      by (auto simp: nat_decimal.simps [of n])
    then show ?thesis
    proof
      assume "c \<in> set (nat_decimal (n div 10))"
      with False "1.IH" show ?thesis by blast
    next
      assume "c = char_of (48 + n mod 10)"
      moreover have "n mod 10 < (10::nat)" by simp
      ultimately show ?thesis by blast
    qed
  qed
qed

lemma digits_value_snoc: "digits_value r (ds @ [d]) = digits_value r ds * r + d"
  by (simp add: digits_value_def)

lemma digit_prefix_decimal: "digit_prefix 10 (nat_decimal n) = decimal_digits n"
proof -
  have "\<forall>c \<in> set s. \<exists>k<(10::nat). c = char_of (48 + k) \<Longrightarrow> digit_prefix 10 s = map (\<lambda>c. of_char c - 48) s" for s
    by (induction s) (auto simp: digit_value_def of_char_digit Let_def)
  then show ?thesis using nat_decimal_digit_chars by (simp add: decimal_digits_def)
qed

lemma digits_value_decimal: "digits_value 10 (decimal_digits n) = n"
proof (induction n rule: nat_decimal.induct)
  case (1 n)
  show ?case
  proof (cases "n < 10")
    case True
    then show ?thesis
      by (simp add: decimal_digits_def nat_decimal.simps [of n] digits_value_def of_char_digit)
  next
    case False
    then have "decimal_digits n = decimal_digits (n div 10) @ [n mod 10]"
      by (simp add: decimal_digits_def nat_decimal.simps [of n] of_char_digit)
    with False "1.IH" show ?thesis by (simp add: digits_value_snoc)
  qed
qed

lemma nat_decimal_not_empty: "nat_decimal n \<noteq> []"
  by (subst nat_decimal.simps) simp

lemma nat_decimal_head: "nat_decimal n = c # cs \<Longrightarrow> c = CHR ''0'' \<Longrightarrow> cs = []"
proof (induction n arbitrary: c cs rule: nat_decimal.induct)
  case (1 n)
  show ?case
  proof (cases "n < 10")
    case True
    with "1.prems" show ?thesis by (simp add: nat_decimal.simps [of n])
  next
    case False
    then have "n div 10 \<noteq> 0" by simp
    obtain d ds where dd: "nat_decimal (n div 10) = d # ds"
      using nat_decimal_not_empty by (cases "nat_decimal (n div 10)") auto
    with "1.prems" False have "d = CHR ''0''" by (simp add: nat_decimal.simps [of n])
    with "1.IH" [OF False dd] have "nat_decimal (n div 10) = [CHR ''0'']" using dd by simp
    then have "n div 10 < 10 \<and> n div 10 = 0"
      by (subst (asm) nat_decimal.simps) (auto split: if_splits simp: digit_char_zero nat_decimal_not_empty)
    with \<open>n div 10 \<noteq> 0\<close> show ?thesis by simp
  qed
qed

lemma nat_decimal_cases: "\<exists>k<(10::nat). \<exists>cs. nat_decimal n = char_of (48 + k) # cs"
proof -
  obtain c cs where "nat_decimal n = c # cs"
    using nat_decimal_not_empty by (cases "nat_decimal n") auto
  moreover from this obtain k where "k < (10::nat)" "c = char_of (48 + k)"
    using nat_decimal_digit_chars [of c n] by auto
  ultimately show ?thesis by blast
qed

lemma nat_decimal_prefixes:
  "dropWhile js_space (nat_decimal n) = nat_decimal n"
  "strip_sign (nat_decimal n) = (False, nat_decimal n)"
  "strip_radix (nat_decimal n) = (10, nat_decimal n)"
proof -
  obtain k cs where k: "k < (10::nat)" and nd: "nat_decimal n = char_of (48 + k) # cs"
    using nat_decimal_cases by blast
  then have oc: "of_char (char_of (48 + k) :: char) = (48 + k :: nat)" by (simp add: of_char_digit)
  then have "\<not> js_space (char_of (48 + k))" using k by (auto simp: js_space_def)
  then show "dropWhile js_space (nat_decimal n) = nat_decimal n" by (simp add: nd)
  have "char_of (48 + k) \<noteq> CHR ''-''" and "char_of (48 + k) \<noteq> CHR ''+''"
    using oc k by (auto dest: arg_cong [where f = "of_char :: char \<Rightarrow> nat"])
  then show "strip_sign (nat_decimal n) = (False, nat_decimal n)" by (simp add: nd)
  show "strip_radix (nat_decimal n) = (10, nat_decimal n)"
  proof (cases cs)
    case Nil
    then show ?thesis by (simp add: nd)
  next
    case (Cons c1 cs')
    have "char_of (48 + k) \<noteq> CHR ''0''"
      using nat_decimal_head [OF nd] Cons by auto
    with Cons show ?thesis by (simp add: nd)
  qed
qed

lemma parse_int_nat_decimal: "js_parse_int (nat_decimal n) = Some (int n)"
proof -
  have "decimal_digits n \<noteq> []"
    using nat_decimal_not_empty by (simp add: decimal_digits_def)
  then show ?thesis
    by (simp add: js_parse_int_def nat_decimal_prefixes digit_prefix_decimal digits_value_decimal)
qed

text \<open>
  \<open>parseInt\<close> reads back what ToString writes for an integer: for every
  integer \<open>i\<close>, \<open>parseInt(String(i)) = i\<close>.
\<close>

lemma parse_int_decimal: "js_parse_int (int_decimal i) = Some i"
proof (cases "i < 0")
  case True
  have "\<not> js_space CHR ''-''" by (simp add: js_space_def)
  with True nat_decimal_not_empty [of "nat (- i)"] show ?thesis
    using digit_prefix_decimal [of "nat (- i)"] digits_value_decimal [of "nat (- i)"]
    by (simp add: int_decimal_def js_parse_int_def nat_decimal_prefixes decimal_digits_def)
next
  case False
  then show ?thesis by (simp add: int_decimal_def parse_int_nat_decimal)
qed

end
