(* ===== verification/Registry.thy ===== *)
theory Registry
  imports Json
begin

text \<open>
  The tool registry of \<open>src/mcp-server-aws.js\<close>: the static catalog \<open>tools\<close>
  (lines 54--495), its re-shaping for the \<open>tools/list\<close> answer (lines 714--727),
  and the handler table \<open>toolHandlers\<close> (lines 530--684) with the way the
  dispatcher looks a name up in it (line 736).  The table is an object literal, so
  a lookup also finds the members it inherits from \<open>Object.prototype\<close>.
\<close>

subsection \<open>Tool descriptors\<close>

record tool =
  tool_name :: string
  tool_description :: string
  tool_parameters :: json

text \<open>Property schemas that the catalog repeats verbatim.\<close>

definition string_prop :: "string \<Rightarrow> string \<Rightarrow> string \<times> json" where
  "string_prop n d = (n, JObj [(''type'', JStr ''string''), (''description'', JStr d)])"

definition number_prop :: "string \<Rightarrow> string \<Rightarrow> string \<times> json" where
  "number_prop n d = (n, JObj [(''type'', JStr ''number''), (''description'', JStr d)])"

definition string_array_prop :: "string \<Rightarrow> string \<Rightarrow> string \<times> json" where
  "string_array_prop n d =
     (n, JObj [(''type'', JStr ''array''), (''description'', JStr d),
               (''items'', JObj [(''type'', JStr ''string'')])])"

definition region_prop :: "string \<times> json" where
  "region_prop = string_prop ''region'' ''AWS region (e.g., us-west-2)''"

definition object_schema :: "(string \<times> json) list \<Rightarrow> string list \<Rightarrow> json" where
  "object_schema ps req =
     JObj [(''type'', JStr ''object''), (''properties'', JObj ps), (''required'', JArr (map JStr req))]"

subsection \<open>The catalog, group by group as in the source\<close>

definition ec2_tools :: "tool list" where
  "ec2_tools =
    [tool.make ''aws.ec2.describeInstances'' ''List EC2 instances and their details''
       (object_schema
         [region_prop,
          (''filters'', JObj [(''type'', JStr ''array''), (''description'', JStr ''Optional filters to apply''),
             (''items'', JObj [(''type'', JStr ''object''),
                (''properties'', JObj [(''Name'', JObj [(''type'', JStr ''string'')]),
                   (''Values'', JObj [(''type'', JStr ''array''), (''items'', JObj [(''type'', JStr ''string'')])])])])])]
         []),
     tool.make ''aws.ec2.describeVpcs'' ''List VPCs and their details''
       (object_schema [region_prop, string_array_prop ''vpcIds'' ''Optional VPC IDs to filter''] []),
     tool.make ''aws.ec2.describeSecurityGroups'' ''List security groups and their details''
       (object_schema [region_prop, string_array_prop ''groupIds'' ''Optional security group IDs to filter''] [])]"

definition s3_tools :: "tool list" where
  "s3_tools =
    [tool.make ''aws.s3.listBuckets'' ''List all S3 buckets'' (object_schema [region_prop] []),
     tool.make ''aws.s3.listObjects'' ''List objects in an S3 bucket''
       (object_schema [region_prop, string_prop ''bucket'' ''S3 bucket name'',
          string_prop ''prefix'' ''Optional prefix to filter objects''] [''bucket''])]"

definition lambda_tools :: "tool list" where
  "lambda_tools =
    [tool.make ''aws.lambda.listFunctions'' ''List Lambda functions'' (object_schema [region_prop] []),
     tool.make ''aws.lambda.getFunctionConfiguration'' ''Get detailed configuration for a Lambda function''
       (object_schema [region_prop, string_prop ''functionName'' ''Name or ARN of the Lambda function'']
          [''functionName''])]"

definition dynamodb_tools :: "tool list" where
  "dynamodb_tools =
    [tool.make ''aws.dynamodb.listTables'' ''List DynamoDB tables'' (object_schema [region_prop] []),
     tool.make ''aws.dynamodb.describeTable'' ''Get detailed information about a DynamoDB table''
       (object_schema [region_prop, string_prop ''tableName'' ''Name of the DynamoDB table''] [''tableName''])]"

definition cloudwatch_tools :: "tool list" where
  "cloudwatch_tools =
    [tool.make ''aws.cloudwatch.getMetricStatistics'' ''Get CloudWatch metrics for a resource''
       (object_schema
         [region_prop,
          string_prop ''namespace'' ''Metric namespace (e.g., AWS/EC2)'',
          string_prop ''metricName'' ''Name of the metric'',
          (''dimensions'', JObj [(''type'', JStr ''array''), (''description'', JStr ''Dimensions for the metric''),
             (''items'', JObj [(''type'', JStr ''object''),
                (''properties'', JObj [(''Name'', JObj [(''type'', JStr ''string'')]),
                                       (''Value'', JObj [(''type'', JStr ''string'')])])])]),
          string_prop ''startTime'' ''Start time for metrics (ISO format or relative time like -3h)'',
          string_prop ''endTime'' ''End time for metrics (ISO format or current time by default)'',
          number_prop ''period'' ''Period in seconds (60, 300, 3600, etc.)'',
          string_array_prop ''statistics'' ''Statistics to retrieve (Average, Maximum, Minimum, SampleCount, Sum)'']
         [''namespace'', ''metricName'']),
     tool.make ''aws.cloudwatch.describeAlarms'' ''List CloudWatch alarms''
       (object_schema
         [region_prop,
          string_array_prop ''alarmNames'' ''Optional alarm names to filter'',
          (''alarmTypes'', JObj [(''type'', JStr ''array''), (''description'', JStr ''Optional alarm types to filter''),
             (''items'', JObj [(''type'', JStr ''string''),
                (''enum'', JArr [JStr ''MetricAlarm'', JStr ''CompositeAlarm''])])]),
          (''stateValue'', JObj [(''type'', JStr ''string''),
             (''description'', JStr ''Optional state to filter by (OK, ALARM, INSUFFICIENT_DATA)''),
             (''enum'', JArr [JStr ''OK'', JStr ''ALARM'', JStr ''INSUFFICIENT_DATA''])])]
         [])]"

definition iam_tools :: "tool list" where
  "iam_tools =
    [tool.make ''aws.iam.listUsers'' ''List IAM users''
       (object_schema [string_prop ''pathPrefix'' ''Optional path prefix to filter users'',
          number_prop ''maxItems'' ''Maximum number of items to return''] []),
     tool.make ''aws.iam.listRoles'' ''List IAM roles''
       (object_schema [string_prop ''pathPrefix'' ''Optional path prefix to filter roles'',
          number_prop ''maxItems'' ''Maximum number of items to return''] [])]"

definition rds_tools :: "tool list" where
  "rds_tools =
    [tool.make ''aws.rds.describeDBInstances'' ''List RDS database instances''
       (object_schema [region_prop,
          string_prop ''dbInstanceIdentifier'' ''Optional database instance identifier''] [])]"

definition messaging_tools :: "tool list" where
  "messaging_tools =
    [tool.make ''aws.sns.listTopics'' ''List SNS topics'' (object_schema [region_prop] []),
     tool.make ''aws.sqs.listQueues'' ''List SQS queues''
       (object_schema [region_prop, string_prop ''queueNamePrefix'' ''Optional prefix to filter queue names''] [])]"

definition cloudformation_tools :: "tool list" where
  "cloudformation_tools =
    [tool.make ''aws.cloudformation.listStacks'' ''List CloudFormation stacks''
       (object_schema [region_prop, string_array_prop ''stackStatusFilter'' ''Optional status filters''] [])]"

definition edge_tools :: "tool list" where
  "edge_tools =
    [tool.make ''aws.route53.listHostedZones'' ''List Route53 hosted zones''
       (object_schema [number_prop ''maxItems'' ''Maximum number of items to return''] []),
     tool.make ''aws.cloudfront.listDistributions'' ''List CloudFront distributions''
       (object_schema [number_prop ''maxItems'' ''Maximum number of items to return''] [])]"

definition container_tools :: "tool list" where
  "container_tools =
    [tool.make ''aws.ecs.listClusters'' ''List ECS clusters'' (object_schema [region_prop] []),
     tool.make ''aws.eks.listClusters'' ''List EKS clusters'' (object_schema [region_prop] [])]"

definition utility_tools :: "tool list" where
  "utility_tools = [tool.make ''ping'' ''Responds with pong'' (object_schema [] [])]"

definition tools :: "tool list" where
  "tools = ec2_tools @ s3_tools @ lambda_tools @ dynamodb_tools @ cloudwatch_tools @ iam_tools @
     rds_tools @ messaging_tools @ cloudformation_tools @ edge_tools @ container_tools @ utility_tools"

subsection \<open>The \<open>tools/list\<close> answer\<close>

text \<open>
  Each descriptor is re-shaped into \<open>{name, description, inputSchema}\<close>; the
  schema's \<open>properties\<close> and \<open>required\<close> default to \<open>{}\<close> and \<open>[]\<close> through
  \<open>||\<close>, and \<open>additionalProperties\<close> is always \<open>false\<close>.
\<close>

definition tool_entry :: "tool \<Rightarrow> exn + json" where
  "tool_entry t =
     (case js_get (Some (tool_parameters t)) ''properties'' of
        Inl e \<Rightarrow> Inl e
      | Inr ps \<Rightarrow>
          (case js_get (Some (tool_parameters t)) ''required'' of
             Inl e \<Rightarrow> Inl e
           | Inr rq \<Rightarrow>
               Inr (JObj [(''name'', JStr (tool_name t)), (''description'', JStr (tool_description t)),
                          (''inputSchema'', JObj [(''type'', JStr ''object''),
                             (''properties'', js_or ps (JObj [])), (''required'', js_or rq (JArr [])),
                             (''additionalProperties'', JBool False)])])))"

definition tools_list_result :: "exn + json" where
  "tools_list_result =
     (case js_map tool_entry tools of Inl e \<Rightarrow> Inl e | Inr es \<Rightarrow> Inr (JObj [(''tools'', JArr es)]))"

subsection \<open>Well-formed schemas\<close>

text \<open>
  A parameter schema is well formed when it is an object schema whose
  \<open>properties\<close> is an object with distinct keys and whose \<open>required\<close> lists only
  names among those keys.  The same test reads an \<open>inputSchema\<close> of the
  \<open>tools/list\<close> answer.
\<close>

fun required_declared :: "(string \<times> json) list \<Rightarrow> json list \<Rightarrow> bool" where
  "required_declared ps [] = True"
| "required_declared ps (JStr n # rs) = (n \<in> set (map fst ps) \<and> required_declared ps rs)"
| "required_declared ps (r # rs) = False"

fun schema_ok :: "json \<Rightarrow> bool" where
  "schema_ok (JObj fs) =
     (lookup_last fs ''type'' = Some (JStr ''object'') \<and>
      (case (as_obj (lookup_last fs ''properties''), as_arr (lookup_last fs ''required'')) of
         (Some ps, Some rs) \<Rightarrow> distinct (map fst ps) \<and> required_declared ps rs
       | _ \<Rightarrow> False))"
| "schema_ok _ = False"

definition catalog_ok :: "tool list \<Rightarrow> bool" where
  "catalog_ok ts \<longleftrightarrow> distinct (map tool_name ts) \<and> list_all (\<lambda>t. schema_ok (tool_parameters t)) ts"

fun entry_name :: "json \<Rightarrow> string option" where
  "entry_name (JObj fs) = (case lookup_last fs ''name'' of Some (JStr n) \<Rightarrow> Some n | _ \<Rightarrow> None)"
| "entry_name _ = None"

fun entry_schema :: "json \<Rightarrow> json" where
  "entry_schema (JObj fs) = (case lookup_last fs ''inputSchema'' of Some v \<Rightarrow> v | None \<Rightarrow> JNull)"
| "entry_schema _ = JNull"

fun listed_schema_ok :: "json \<Rightarrow> bool" where
  "listed_schema_ok (JObj fs) =
     (schema_ok (JObj fs) \<and> lookup_last fs ''additionalProperties'' = Some (JBool False))"
| "listed_schema_ok _ = False"

fun obj_fields :: "json \<Rightarrow> (string \<times> json) list" where
  "obj_fields (JObj fs) = fs"
| "obj_fields _ = []"

text \<open>The entry \<open>tool_entry\<close> computes for a descriptor whose parameters are an object.\<close>

definition listed_entry :: "tool \<Rightarrow> (string \<times> json) list \<Rightarrow> json" where
  "listed_entry t fs =
     JObj [(''name'', JStr (tool_name t)), (''description'', JStr (tool_description t)),
           (''inputSchema'', JObj [(''type'', JStr ''object''),
              (''properties'', js_or (lookup_last fs ''properties'') (JObj [])),
              (''required'', js_or (lookup_last fs ''required'') (JArr [])),
              (''additionalProperties'', JBool False)])]"

subsection \<open>The handler table\<close>

text \<open>
  The own properties of \<open>toolHandlers\<close>, in the order of the object literal, name
  the seven implemented handlers; \<open>Object.prototype\<close> contributes the members that
  \<open>toolHandlers[name]\<close> also finds (V8's list).
\<close>

datatype handler =
    HPing
  | HEc2DescribeInstances
  | HS3ListBuckets
  | HS3ListObjects
  | HLambdaListFunctions
  | HDynamoDbListTables
  | HCloudWatchGetMetricStatistics

definition tool_handlers :: "(string \<times> handler) list" where
  "tool_handlers =
    [(''ping'', HPing),
     (''aws.ec2.describeInstances'', HEc2DescribeInstances),
     (''aws.s3.listBuckets'', HS3ListBuckets),
     (''aws.s3.listObjects'', HS3ListObjects),
     (''aws.lambda.listFunctions'', HLambdaListFunctions),
     (''aws.dynamodb.listTables'', HDynamoDbListTables),
     (''aws.cloudwatch.getMetricStatistics'', HCloudWatchGetMetricStatistics)]"

datatype proto_member =
    PConstructor
  | PDefineGetter
  | PDefineSetter
  | PHasOwnProperty
  | PLookupGetter
  | PLookupSetter
  | PIsPrototypeOf
  | PPropertyIsEnumerable
  | PToString
  | PValueOf
  | PProto
  | PToLocaleString

definition object_prototype :: "(string \<times> proto_member) list" where
  "object_prototype =
    [(''constructor'', PConstructor), (''__defineGetter__'', PDefineGetter),
     (''__defineSetter__'', PDefineSetter), (''hasOwnProperty'', PHasOwnProperty),
     (''__lookupGetter__'', PLookupGetter), (''__lookupSetter__'', PLookupSetter),
     (''isPrototypeOf'', PIsPrototypeOf), (''propertyIsEnumerable'', PPropertyIsEnumerable),
     (''toString'', PToString), (''valueOf'', PValueOf), (''__proto__'', PProto),
     (''toLocaleString'', PToLocaleString)]"

datatype handler_ref = Own handler | Inherited proto_member

text \<open>\<open>toolHandlers[key]\<close>: an own property first, then the prototype chain.\<close>

definition lookup_handler :: "string \<Rightarrow> handler_ref option" where
  "lookup_handler k =
     (case map_of tool_handlers k of
        Some h \<Rightarrow> Some (Own h)
      | None \<Rightarrow> map_option Inherited (map_of object_prototype k))"

subsection \<open>The catalog, group by group as in the source\<close>

lemmas catalog_defs = tools_def ec2_tools_def s3_tools_def lambda_tools_def dynamodb_tools_def
  cloudwatch_tools_def iam_tools_def rds_tools_def messaging_tools_def cloudformation_tools_def
  edge_tools_def container_tools_def utility_tools_def object_schema_def region_prop_def
  string_prop_def number_prop_def string_array_prop_def tool.make_def

subsection \<open>Well-formed schemas\<close>

lemma schema_okE:
  assumes "schema_ok (JObj fs)"
  obtains ps rs where "lookup_last fs ''type'' = Some (JStr ''object'')"
    and "lookup_last fs ''properties'' = Some (JObj ps)"
    and "lookup_last fs ''required'' = Some (JArr rs)"
    and "distinct (map fst ps)" and "required_declared ps rs"
  using assms by (auto split: option.split_asm)

subsection \<open>Properties of the catalog and its listing\<close>

lemma schema_ok_obj: "schema_ok p \<Longrightarrow> p = JObj (obj_fields p)"
  by (cases p) auto

lemma tool_entry_listed:
  "schema_ok (tool_parameters t) \<Longrightarrow> tool_entry t = Inr (listed_entry t (obj_fields (tool_parameters t)))"
  by (cases "tool_parameters t") (simp_all add: tool_entry_def listed_entry_def)

lemma listed_entry_schema_ok:
  assumes "schema_ok (JObj fs)"
  shows "listed_schema_ok (entry_schema (listed_entry t fs))"
  using assms by (elim schema_okE) (simp add: listed_entry_def)

lemma listed_entry_name [simp]: "entry_name (listed_entry t fs) = Some (tool_name t)"
  by (simp add: listed_entry_def)

text \<open>
  Listing a well-formed catalog never throws, keeps the catalog's order and names,
  and every listed \<open>inputSchema\<close> is well formed and closed.
\<close>

lemma listing_of_catalog:
  assumes "catalog_ok ts"
  shows "\<exists>es. js_map tool_entry ts = Inr es \<and> map entry_name es = map (\<lambda>t. Some (tool_name t)) ts
           \<and> list_all (\<lambda>e. listed_schema_ok (entry_schema e)) es"
proof -
  let ?g = "\<lambda>t. listed_entry t (obj_fields (tool_parameters t))"
  from assms have ok: "\<And>t. t \<in> set ts \<Longrightarrow> schema_ok (tool_parameters t)"
    by (simp add: catalog_ok_def list_all_iff)
  then have "js_map tool_entry ts = Inr (map ?g ts)"
    by (intro js_map_Inr) (rule tool_entry_listed)
  moreover have "list_all (\<lambda>e. listed_schema_ok (entry_schema e)) (map ?g ts)"
    using ok schema_ok_obj by (fastforce simp: list_all_iff intro: listed_entry_schema_ok)
  ultimately show ?thesis by auto
qed

lemma catalog_ok_tools: "catalog_ok tools"
  unfolding catalog_ok_def catalog_defs by code_simp

text \<open>
  The fields of an entry as \<open>tool_entry\<close> computes it for a descriptor whose
  parameters are an object.
\<close>

lemma listed_entry_fields:
  "js_get (Some (listed_entry t fs)) ''name'' = Inr (Some (JStr (tool_name t)))"
  "js_get (Some (listed_entry t fs)) ''description'' = Inr (Some (JStr (tool_description t)))"
  "js_bind (js_get (Some (listed_entry t fs)) ''inputSchema'') (\<lambda>v. js_get v ''properties'')
     = Inr (Some (js_or (lookup_last fs ''properties'') (JObj [])))"
  "js_bind (js_get (Some (listed_entry t fs)) ''inputSchema'') (\<lambda>v. js_get v ''required'')
     = Inr (Some (js_or (lookup_last fs ''required'') (JArr [])))"
  by (simp_all add: listed_entry_def js_bind_def)

text \<open>
  C3: \<open>tools/list\<close> answers \<open>{tools: [...]}\<close> with one entry per catalog
  descriptor, in catalog order.  Each entry republishes its descriptor's name,
  description, and parameter \<open>properties\<close> and \<open>required\<close> unchanged, as the
  \<open>inputSchema\<close> of an object schema whose required names are among its
  properties, with \<open>additionalProperties: false\<close>.  No two entries share a name.
\<close>

theorem tools_list_answer:
  "\<exists>es. tools_list_result = Inr (JObj [(''tools'', JArr es)]) \<and>
        list_all2 (\<lambda>t e.
           js_get (Some e) ''name'' = Inr (Some (JStr (tool_name t))) \<and>
           js_get (Some e) ''description'' = Inr (Some (JStr (tool_description t))) \<and>
           js_bind (js_get (Some e) ''inputSchema'') (\<lambda>v. js_get v ''properties'')
             = js_get (Some (tool_parameters t)) ''properties'' \<and>
           js_bind (js_get (Some e) ''inputSchema'') (\<lambda>v. js_get v ''required'')
             = js_get (Some (tool_parameters t)) ''required'' \<and>
           listed_schema_ok (entry_schema e)) tools es \<and>
        distinct (map entry_name es)"
proof -
  let ?g = "\<lambda>t. listed_entry t (obj_fields (tool_parameters t))"
  have ok: "\<And>t. t \<in> set tools \<Longrightarrow> schema_ok (tool_parameters t)" and dist: "distinct (map tool_name tools)"
    using catalog_ok_tools by (simp_all add: catalog_ok_def list_all_iff)
  have "js_map tool_entry tools = Inr (map ?g tools)"
    using ok by (intro js_map_Inr) (rule tool_entry_listed)
  moreover have "list_all2 (\<lambda>t e.
           js_get (Some e) ''name'' = Inr (Some (JStr (tool_name t))) \<and>
           js_get (Some e) ''description'' = Inr (Some (JStr (tool_description t))) \<and>
           js_bind (js_get (Some e) ''inputSchema'') (\<lambda>v. js_get v ''properties'')
             = js_get (Some (tool_parameters t)) ''properties'' \<and>
           js_bind (js_get (Some e) ''inputSchema'') (\<lambda>v. js_get v ''required'')
             = js_get (Some (tool_parameters t)) ''required'' \<and>
           listed_schema_ok (entry_schema e)) tools (map ?g tools)"
  proof (rule list_all2_all_nthI)
    fix i assume i: "i < length tools"
    let ?t = "tools ! i"
    have sc: "schema_ok (tool_parameters ?t)" using ok i by simp
    then obtain fs ps rs where p: "tool_parameters ?t = JObj fs"
      and "lookup_last fs ''properties'' = Some (JObj ps)" "lookup_last fs ''required'' = Some (JArr rs)"
      by (metis schema_ok_obj schema_okE)
    then show "js_get (Some (map ?g tools ! i)) ''name'' = Inr (Some (JStr (tool_name ?t))) \<and>
           js_get (Some (map ?g tools ! i)) ''description'' = Inr (Some (JStr (tool_description ?t))) \<and>
           js_bind (js_get (Some (map ?g tools ! i)) ''inputSchema'') (\<lambda>v. js_get v ''properties'')
             = js_get (Some (tool_parameters ?t)) ''properties'' \<and>
           js_bind (js_get (Some (map ?g tools ! i)) ''inputSchema'') (\<lambda>v. js_get v ''required'')
             = js_get (Some (tool_parameters ?t)) ''required'' \<and>
           listed_schema_ok (entry_schema (map ?g tools ! i))"
      using i sc listed_entry_schema_ok [of fs ?t] by (simp add: listed_entry_fields)
  qed simp
  moreover have "distinct (map entry_name (map ?g tools))"
    using dist by (simp add: o_def distinct_map inj_on_def)
  ultimately show ?thesis by (auto simp: tools_list_result_def)
qed

text \<open>
  The catalog has 22 descriptors and is well formed: no two share a name, and every
  parameter schema is an object schema with distinct property keys whose
  \<open>required\<close> list names only declared properties.
\<close>

lemma catalog_well_formed: "catalog_ok tools \<and> length tools = 22"
  unfolding catalog_ok_def catalog_defs by code_simp

text \<open>
  Fifteen of the twenty-two advertised tools have no handler: invoking any of them
  finds no entry in the handler table, so \<open>tools/invoke\<close> answers -32601.  The seven
  handlers all belong to advertised tools.
\<close>

lemma advertised_without_handler:
  "map tool_name (filter (\<lambda>t. lookup_handler (tool_name t) = None) tools) =
     [''aws.ec2.describeVpcs'', ''aws.ec2.describeSecurityGroups'', ''aws.lambda.getFunctionConfiguration'',
      ''aws.dynamodb.describeTable'', ''aws.cloudwatch.describeAlarms'', ''aws.iam.listUsers'',
      ''aws.iam.listRoles'', ''aws.rds.describeDBInstances'', ''aws.sns.listTopics'', ''aws.sqs.listQueues'',
      ''aws.cloudformation.listStacks'', ''aws.route53.listHostedZones'', ''aws.cloudfront.listDistributions'',
      ''aws.ecs.listClusters'', ''aws.eks.listClusters'']
   \<and> list_all (\<lambda>(n, h). n \<in> set (map tool_name tools)) tool_handlers"
  unfolding lookup_handler_def tool_handlers_def object_prototype_def catalog_defs by code_simp

lemma lookup_handler_ping: "lookup_handler ''ping'' = Some (Own HPing)"
  by code_simp

end
