(* ===== verification/Handlers.thy ===== *)
theory Handlers
  imports Registry
begin

text \<open>
  The tool handlers of \<open>src/mcp-server-aws.js\<close> (lines 497--684) and what a call
  \<open>toolHandlers[name](params)\<close> does when \<open>name\<close> is a member inherited from
  \<open>Object.prototype\<close>.  Every handler is an \<open>async\<close> function: it runs
  synchronously up to its \<open>await\<close> on the AWS SDK, so a call yields a promise that
  is either already settled (a thrown exception is a rejection) or waits for one SDK
  request.  The SDK is the boundary: a request is a value of \<open>sdk_request\<close>, and its
  outcome, chosen by the environment, is an error message or the response object.
  The only state the handlers change is \<open>AWS.config.region\<close>.
\<close>

subsection \<open>The AWS configuration and \<open>handleRegion\<close>\<close>

record aws_config =
  cfg_region :: jsval

definition default_region :: json where
  "default_region = JStr ''us-west-2''"

text \<open>\<open>params && params.region\<close>.\<close>

definition js_and_get :: "jsval \<Rightarrow> string \<Rightarrow> exn + jsval" where
  "js_and_get v p = (if truthy v then js_get v p else Inr v)"

definition handle_region :: "json \<Rightarrow> aws_config \<Rightarrow> exn + json \<times> aws_config" where
  "handle_region params cfg =
     (case js_and_get (Some params) ''region'' of
        Inl e \<Rightarrow> Inl e
      | Inr r \<Rightarrow>
          (if truthy r then Inr (js_or r default_region, cfg\<lparr>cfg_region := r\<rparr>)
           else Inr (js_or (cfg_region cfg) default_region, cfg)))"

subsection \<open>Dates and \<open>parseRelativeTime\<close>\<close>

text \<open>
  A \<open>Date\<close> handed to the SDK: \<open>null\<close>, a time value in milliseconds (\<open>None\<close> is an
  invalid date: \<open>NaN\<close> or beyond the range TimeClip allows), or a date the
  \<open>Date\<close> constructor parses from a string, which is left uninterpreted.
\<close>

datatype date_arg = DateNull | DateTime "int option" | DateParsed string

definition date_of_ms :: "int \<Rightarrow> int option" where
  "date_of_ms t = (if \<bar>t\<bar> \<le> 8640000000000000 then Some t else None)"

definition time_before :: "int \<Rightarrow> int option \<Rightarrow> int \<Rightarrow> int option" where
  "time_before now v unit_ms = (case v of None \<Rightarrow> None | Some n \<Rightarrow> date_of_ms (now - n * unit_ms))"

definition parse_relative_time :: "string \<Rightarrow> int \<Rightarrow> date_arg" where
  "parse_relative_time s now =
     (if s = [] \<or> take 1 s \<noteq> ''-'' then DateNull
      else
        (let unit = drop (length s - 1) s;
             value = js_parse_int (drop 1 (butlast s))
         in if unit = ''h'' then DateTime (time_before now value 3600000)
            else if unit = ''d'' then DateTime (time_before now value 86400000)
            else if unit = ''m'' then DateTime (time_before now value 60000)
            else DateNull))"

text \<open>\<open>new Date(v)\<close> for a value \<open>v\<close> of the request.\<close>

fun new_date :: "json \<Rightarrow> exn + date_arg" where
  "new_date (JNum n) = Inr (DateTime (date_of_ms n))"
| "new_date (JStr s) = Inr (DateParsed s)"
| "new_date (JBool b) = Inr (DateTime (Some (if b then 1 else 0)))"
| "new_date JNull = Inr (DateTime (Some 0))"
| "new_date v = (case js_to_string v of Inl e \<Rightarrow> Inl e | Inr s \<Rightarrow> Inr (DateParsed s))"

subsection \<open>The SDK boundary and the promises a handler returns\<close>

text \<open>
  The request objects the handlers pass to the SDK clients; a field read straight
  from the parameters keeps \<open>undefined\<close> as \<open>None\<close>.
\<close>

datatype sdk_request =
    Ec2DescribeInstances json
  | S3ListBuckets
  | S3ListObjectsV2 jsval jsval
  | LambdaListFunctions
  | DynamoDbListTables
  | CloudWatchGetMetricStatistics jsval jsval json date_arg date_arg json json

type_synonym sdk_outcome = "string + (string \<times> json) list"

text \<open>
  A handler waiting for the SDK: which handler, its parameters, the region it
  resolved, and the request in flight.
\<close>

datatype pending = Pending handler json json sdk_request

datatype promise = Settled "exn + jsval" | Awaiting pending

definition suspend :: "handler \<Rightarrow> json \<Rightarrow> json \<Rightarrow> exn + sdk_request \<Rightarrow> promise" where
  "suspend h params region r =
     (case r of Inl e \<Rightarrow> Settled (Inl e) | Inr req \<Rightarrow> Awaiting (Pending h params region req))"

text \<open>
  The common frame of an AWS handler: \<open>handleRegion\<close> first (its update of
  \<open>AWS.config\<close> stays even when the rest throws), then the body up to the SDK call.
\<close>

definition aws_call ::
  "handler \<Rightarrow> (json \<Rightarrow> exn + sdk_request) \<Rightarrow> json \<Rightarrow> aws_config \<Rightarrow> promise \<times> aws_config" where
  "aws_call h body params cfg =
     (case handle_region params cfg of
        Inl e \<Rightarrow> (Settled (Inl e), cfg)
      | Inr (region, cfg') \<Rightarrow> (suspend h params region (body params), cfg'))"

definition sdk_error :: "string \<Rightarrow> string \<Rightarrow> exn" where
  "sdk_error service m = Error (service @ '' Error: '' @ m)"

definition rethrow :: "string \<Rightarrow> exn \<Rightarrow> exn" where
  "rethrow service e = sdk_error service (exn_message e)"

definition answer :: "(string \<times> jsval) list \<Rightarrow> exn + jsval" where
  "answer fs = Inr (Some (JObj [(''result'', js_object fs)]))"

subsection \<open>\<open>ping\<close>\<close>

definition pong :: json where
  "pong = JObj [(''result'', JStr ''pong'')]"

definition ping_handler :: promise where
  "ping_handler = Settled (Inr (Some pong))"

subsection \<open>\<open>aws.ec2.describeInstances\<close>\<close>

text \<open>
  The instance count is \<open>Reservations.reduce((count, r) => count + r.Instances.length, 0)\<close>
  with JavaScript's \<open>+\<close>: the accumulator is a number (\<open>None\<close> is \<open>NaN\<close>) until a
  string or an object meets it, and a string from then on.
\<close>

datatype jsprim = PNum "int option" | PStr string

fun prim_string :: "jsprim \<Rightarrow> string" where
  "prim_string (PNum None) = ''NaN''"
| "prim_string (PNum (Some n)) = int_decimal n"
| "prim_string (PStr s) = s"

fun js_add :: "jsprim \<Rightarrow> jsval \<Rightarrow> exn + jsprim" where
  "js_add (PStr s) v = js_bind (js_to_string_opt v) (\<lambda>t. Inr (PStr (s @ t)))"
| "js_add (PNum x) None = Inr (PNum None)"
| "js_add (PNum x) (Some JNull) = Inr (PNum x)"
| "js_add (PNum x) (Some (JBool b)) = Inr (PNum (map_option (\<lambda>m. m + (if b then 1 else 0)) x))"
| "js_add (PNum x) (Some (JNum n)) = Inr (PNum (map_option (\<lambda>m. m + n) x))"
| "js_add (PNum x) (Some v) = js_bind (js_to_string v) (\<lambda>t. Inr (PStr (prim_string (PNum x) @ t)))"

fun count_reservations :: "jsprim \<Rightarrow> json list \<Rightarrow> exn + jsprim" where
  "count_reservations acc [] = Inr acc"
| "count_reservations acc (r # rs) =
     js_bind (js_get (Some r) ''Instances'') (\<lambda>inst.
     js_bind (js_get inst ''length'') (\<lambda>len.
     js_bind (js_add acc len) (\<lambda>acc'. count_reservations acc' rs)))"

fun prim_json :: "jsprim \<Rightarrow> json" where
  "prim_json (PNum (Some n)) = JNum n"
| "prim_json (PNum None) = JNull"
| "prim_json (PStr s) = JStr s"

fun instance_count :: "jsval \<Rightarrow> exn + json" where
  "instance_count None = Inl (read_error ''undefined'' ''reduce'')"
| "instance_count (Some JNull) = Inl (read_error ''null'' ''reduce'')"
| "instance_count (Some (JArr rs)) = js_bind (count_reservations (PNum (Some 0)) rs) (\<lambda>c. Inr (prim_json c))"
| "instance_count (Some v) = Inl (TypeError ''result.Reservations.reduce is not a function'')"

definition ec2_describe_instances :: "json \<Rightarrow> aws_config \<Rightarrow> promise \<times> aws_config" where
  "ec2_describe_instances =
     aws_call HEc2DescribeInstances (\<lambda>params.
       js_catch (rethrow ''EC2'')
         (js_bind (js_get (Some params) ''filters'') (\<lambda>f. Inr (Ec2DescribeInstances (js_or f (JArr []))))))"

definition ec2_describe_instances_done :: "json \<Rightarrow> sdk_outcome \<Rightarrow> exn + jsval" where
  "ec2_describe_instances_done region out =
     (case out of
        Inl m \<Rightarrow> Inl (sdk_error ''EC2'' m)
      | Inr data \<Rightarrow>
          (let rs = lookup_last data ''Reservations'' in
           js_catch (rethrow ''EC2'') (js_bind (instance_count rs) (\<lambda>c.
             answer [(''region'', Some region), (''reservations'', rs), (''instanceCount'', Some c)]))))"

subsection \<open>The listing handlers of S3, Lambda and DynamoDB\<close>

text \<open>
  \<open>aws.s3.listBuckets\<close>, \<open>aws.lambda.listFunctions\<close> and
  \<open>aws.dynamodb.listTables\<close> share one shape: resolve the region, send one
  request, answer \<open>{result: {region, <field>: data.<Key>}}\<close>.
\<close>

definition list_done :: "string \<Rightarrow> string \<Rightarrow> string \<Rightarrow> json \<Rightarrow> sdk_outcome \<Rightarrow> exn + jsval" where
  "list_done service field key region out =
     (case out of
        Inl m \<Rightarrow> Inl (sdk_error service m)
      | Inr data \<Rightarrow> answer [(''region'', Some region), (field, lookup_last data key)])"

definition s3_list_buckets :: "json \<Rightarrow> aws_config \<Rightarrow> promise \<times> aws_config" where
  "s3_list_buckets = aws_call HS3ListBuckets (\<lambda>params. Inr S3ListBuckets)"

definition s3_list_buckets_done :: "json \<Rightarrow> sdk_outcome \<Rightarrow> exn + jsval" where
  "s3_list_buckets_done = list_done ''S3'' ''buckets'' ''Buckets''"

definition lambda_list_functions :: "json \<Rightarrow> aws_config \<Rightarrow> promise \<times> aws_config" where
  "lambda_list_functions = aws_call HLambdaListFunctions (\<lambda>params. Inr LambdaListFunctions)"

definition lambda_list_functions_done :: "json \<Rightarrow> sdk_outcome \<Rightarrow> exn + jsval" where
  "lambda_list_functions_done = list_done ''Lambda'' ''functions'' ''Functions''"

definition dynamodb_list_tables :: "json \<Rightarrow> aws_config \<Rightarrow> promise \<times> aws_config" where
  "dynamodb_list_tables = aws_call HDynamoDbListTables (\<lambda>params. Inr DynamoDbListTables)"

definition dynamodb_list_tables_done :: "json \<Rightarrow> sdk_outcome \<Rightarrow> exn + jsval" where
  "dynamodb_list_tables_done = list_done ''DynamoDB'' ''tables'' ''TableNames''"

subsection \<open>\<open>aws.s3.listObjects\<close>\<close>

text \<open>
  The bucket check comes after \<open>handleRegion\<close>, so a call that fails it still
  switches the region.
\<close>

definition s3_list_objects :: "json \<Rightarrow> aws_config \<Rightarrow> promise \<times> aws_config" where
  "s3_list_objects =
     aws_call HS3ListObjects (\<lambda>params.
       js_bind (js_get (Some params) ''bucket'') (\<lambda>b.
       if \<not> truthy b then Inl (Error ''Bucket name is required'')
       else js_catch (rethrow ''S3'')
         (js_bind (js_get (Some params) ''bucket'') (\<lambda>b'.
          js_bind (js_get (Some params) ''prefix'') (\<lambda>p.
          Inr (S3ListObjectsV2 b' (if truthy p then p else None)))))))"

definition s3_list_objects_done :: "json \<Rightarrow> json \<Rightarrow> sdk_outcome \<Rightarrow> exn + jsval" where
  "s3_list_objects_done params region out =
     (case out of
        Inl m \<Rightarrow> Inl (sdk_error ''S3'' m)
      | Inr data \<Rightarrow>
          js_catch (rethrow ''S3'')
            (js_bind (js_get (Some params) ''bucket'') (\<lambda>b.
             js_bind (js_get (Some params) ''prefix'') (\<lambda>p.
             answer [(''region'', Some region), (''bucket'', b), (''prefix'', Some (js_or p (JStr []))),
                     (''objects'', lookup_last data ''Contents''), (''count'', lookup_last data ''KeyCount'')]))))"

subsection \<open>\<open>aws.cloudwatch.getMetricStatistics\<close>\<close>

definition start_time :: "jsval \<Rightarrow> int \<Rightarrow> exn + date_arg" where
  "start_time v now =
     (if \<not> truthy v then Inr (DateTime (date_of_ms (now - 3600 * 1000)))
      else (case v of
              Some (JStr s) \<Rightarrow> Inr (if take 1 s = ''-'' then parse_relative_time s now else DateParsed s)
            | _ \<Rightarrow> Inl (TypeError ''params.startTime.startsWith is not a function'')))"

definition end_time :: "jsval \<Rightarrow> int \<Rightarrow> exn + date_arg" where
  "end_time v now =
     (case v of
        Some w \<Rightarrow> (if truthy v then new_date w else Inr (DateTime (Some now)))
      | None \<Rightarrow> Inr (DateTime (Some now)))"

definition cloudwatch_get_metric_statistics :: "json \<Rightarrow> int \<Rightarrow> aws_config \<Rightarrow> promise \<times> aws_config" where
  "cloudwatch_get_metric_statistics params now =
     aws_call HCloudWatchGetMetricStatistics (\<lambda>p.
       let get = (\<lambda>k. js_get (Some p) k) in
       js_bind (get ''namespace'') (\<lambda>ns.
       if \<not> truthy ns then Inl (Error ''Namespace is required'') else
       js_bind (get ''metricName'') (\<lambda>mn.
       if \<not> truthy mn then Inl (Error ''Metric name is required'') else
       js_catch (rethrow ''CloudWatch'')
         (js_bind (get ''startTime'') (\<lambda>st. js_bind (start_time st now) (\<lambda>sd.
          js_bind (get ''endTime'') (\<lambda>et. js_bind (end_time et now) (\<lambda>ed.
          js_bind (get ''namespace'') (\<lambda>ns'. js_bind (get ''metricName'') (\<lambda>mn'.
          js_bind (get ''dimensions'') (\<lambda>dims. js_bind (get ''period'') (\<lambda>per.
          js_bind (get ''statistics'') (\<lambda>stats.
          Inr (CloudWatchGetMetricStatistics ns' mn' (js_or dims (JArr [])) sd ed
                 (js_or per (JNum 300)) (js_or stats (JArr [JStr ''Average''])))))))))))))))) params"

definition cloudwatch_get_metric_statistics_done :: "json \<Rightarrow> json \<Rightarrow> sdk_outcome \<Rightarrow> exn + jsval" where
  "cloudwatch_get_metric_statistics_done params region out =
     (case out of
        Inl m \<Rightarrow> Inl (sdk_error ''CloudWatch'' m)
      | Inr data \<Rightarrow>
          js_catch (rethrow ''CloudWatch'')
            (js_bind (js_get (Some params) ''namespace'') (\<lambda>ns.
             js_bind (js_get (Some params) ''metricName'') (\<lambda>mn.
             answer [(''region'', Some region), (''namespace'', ns), (''metricName'', mn),
                     (''datapoints'', lookup_last data ''Datapoints''), (''label'', lookup_last data ''Label'')]))))"

subsection \<open>Calling an entry of the handler table\<close>

text \<open>\<open>toolHandlers[name](params)\<close> for an own handler, at clock reading \<open>now\<close>.\<close>

fun handler_start :: "handler \<Rightarrow> json \<Rightarrow> int \<Rightarrow> aws_config \<Rightarrow> promise \<times> aws_config" where
  "handler_start HPing params now cfg = (ping_handler, cfg)"
| "handler_start HEc2DescribeInstances params now cfg = ec2_describe_instances params cfg"
| "handler_start HS3ListBuckets params now cfg = s3_list_buckets params cfg"
| "handler_start HS3ListObjects params now cfg = s3_list_objects params cfg"
| "handler_start HLambdaListFunctions params now cfg = lambda_list_functions params cfg"
| "handler_start HDynamoDbListTables params now cfg = dynamodb_list_tables params cfg"
| "handler_start HCloudWatchGetMetricStatistics params now cfg =
     cloudwatch_get_metric_statistics params now cfg"

text \<open>
  The rest of a handler once its SDK request has an outcome.  \<open>ping\<close> never waits
  for the SDK; its equation only completes the function.
\<close>

fun handler_done :: "pending \<Rightarrow> sdk_outcome \<Rightarrow> exn + jsval" where
  "handler_done (Pending HPing params region req) out = Inr (Some pong)"
| "handler_done (Pending HEc2DescribeInstances params region req) out = ec2_describe_instances_done region out"
| "handler_done (Pending HS3ListBuckets params region req) out = s3_list_buckets_done region out"
| "handler_done (Pending HS3ListObjects params region req) out = s3_list_objects_done params region out"
| "handler_done (Pending HLambdaListFunctions params region req) out = lambda_list_functions_done region out"
| "handler_done (Pending HDynamoDbListTables params region req) out = dynamodb_list_tables_done region out"
| "handler_done (Pending HCloudWatchGetMetricStatistics params region req) out =
     cloudwatch_get_metric_statistics_done params region out"

text \<open>
  \<open>toolHandlers[name](params)\<close> for a member inherited from \<open>Object.prototype\<close>,
  called with \<open>this = toolHandlers\<close>.  These are ordinary functions: they return or
  throw synchronously.  \<open>__proto__\<close> is the prototype object itself and is not
  callable.  A result that \<open>JSON.stringify\<close> cannot show (a function) is
  \<open>undefined\<close>; \<open>valueOf\<close> returns \<open>toolHandlers\<close>, whose function-valued
  members \<open>JSON.stringify\<close> drops.
\<close>

definition own_key :: "json \<Rightarrow> exn + jsval" where
  "own_key v = js_bind (js_to_string v) (\<lambda>k. Inr (Some (JBool (k \<in> set (map fst tool_handlers)))))"

fun call_inherited :: "proto_member \<Rightarrow> json \<Rightarrow> exn + jsval" where
  "call_inherited PConstructor params = Inr (Some params)"
| "call_inherited PDefineGetter params = Inl (TypeError ''Object.prototype.__defineGetter__: Expecting function'')"
| "call_inherited PDefineSetter params = Inl (TypeError ''Object.prototype.__defineSetter__: Expecting function'')"
| "call_inherited PHasOwnProperty params = own_key params"
| "call_inherited PLookupGetter params = js_bind (js_to_string params) (\<lambda>k. Inr None)"
| "call_inherited PLookupSetter params = js_bind (js_to_string params) (\<lambda>k. Inr None)"
| "call_inherited PIsPrototypeOf params = Inr (Some (JBool False))"
| "call_inherited PPropertyIsEnumerable params = own_key params"
| "call_inherited PToString params = Inr (Some (JStr ''[object Object]''))"
| "call_inherited PValueOf params = Inr (Some (JObj []))"
| "call_inherited PProto params = Inl (TypeError ''toolHandlers[toolName] is not a function'')"
| "call_inherited PToLocaleString params = Inr (Some (JStr ''[object Object]''))"

subsection \<open>Facts about the handlers\<close>

text \<open>A reservation as the EC2 API returns it: its fields, its \<open>Instances\<close> last.\<close>

definition reservation :: "(string \<times> json) list \<Rightarrow> json list \<Rightarrow> json" where
  "reservation fs insts = JObj (fs @ [(''Instances'', JArr insts)])"

subsection \<open>Facts about the handlers\<close>

text \<open>\<open>handleRegion\<close> never throws: \<open>params && params.region\<close> reads only from a truthy value.\<close>

lemma handle_region_total: "\<exists>r cfg'. handle_region params cfg = Inr (r, cfg')"
  by (cases "(Some params, ''region'')" rule: js_get.cases)
     (auto simp: handle_region_def js_and_get_def)

lemma aws_call_region:
  "handle_region params cfg = Inr (r, cfg') \<Longrightarrow>
   aws_call h body params cfg = (suspend h params r (body params), cfg')"
  by (simp add: aws_call_def)

lemma handle_region_given:
  "lookup_last p ''region'' = Some r \<Longrightarrow> truthy (Some r) \<Longrightarrow>
   handle_region (JObj p) cfg = Inr (r, cfg\<lparr>cfg_region := Some r\<rparr>)"
  by (simp add: handle_region_def js_and_get_def)

lemma handle_region_absent:
  "\<not> truthy (lookup_last p ''region'') \<Longrightarrow>
   handle_region (JObj p) cfg = Inr (js_or (cfg_region cfg) default_region, cfg)"
  by (simp add: handle_region_def js_and_get_def)

text \<open>
  C11: the region is sticky: a call that names a region switches
  \<open>AWS.config.region\<close>, and a later call of another tool that names none is sent to
  that region, not to the default.
\<close>

theorem region_sticky:
  assumes "lookup_last p ''region'' = Some r" and "truthy (Some r)"
    and "\<not> truthy (lookup_last q ''region'')"
  shows "\<exists>cfg'. s3_list_buckets (JObj p) cfg = (Awaiting (Pending HS3ListBuckets (JObj p) r S3ListBuckets), cfg')
           \<and> lambda_list_functions (JObj q) cfg' =
               (Awaiting (Pending HLambdaListFunctions (JObj q) r LambdaListFunctions), cfg')"
proof -
  have "js_or (Some r) default_region = r" using assms(2) by (cases r) auto
  with assms show ?thesis
    by (simp add: s3_list_buckets_def lambda_list_functions_def aws_call_def suspend_def
        handle_region_given handle_region_absent)
qed

text \<open>
  C12: \<open>aws.s3.listObjects\<close> without a bucket fails with
  \<open>Bucket name is required\<close> before any SDK request; a region it names is
  nevertheless made the configured region.
\<close>

theorem list_objects_requires_bucket:
  assumes "\<not> truthy (lookup_last p ''bucket'')"
  shows "s3_list_objects (JObj p) cfg =
           (Settled (Inl (Error ''Bucket name is required'')),
            if truthy (lookup_last p ''region'') then cfg\<lparr>cfg_region := lookup_last p ''region''\<rparr> else cfg)"
  using assms
  by (auto simp: s3_list_objects_def aws_call_def suspend_def handle_region_def js_and_get_def)

text \<open>
  C18: \<open>aws.cloudwatch.getMetricStatistics\<close> without a namespace or without a
  metric name fails before any SDK request, naming the namespace first.
\<close>

theorem cloudwatch_required_checked:
  assumes "\<not> truthy (lookup_last p ''namespace'') \<or> \<not> truthy (lookup_last p ''metricName'')"
  shows "fst (cloudwatch_get_metric_statistics (JObj p) now cfg) =
           Settled (Inl (Error (if truthy (lookup_last p ''namespace'') then ''Metric name is required''
                                else ''Namespace is required'')))"
proof -
  obtain r cfg' where "handle_region (JObj p) cfg = Inr (r, cfg')" using handle_region_total by blast
  with assms show ?thesis
    by (auto simp: cloudwatch_get_metric_statistics_def aws_call_def suspend_def)
qed

lemma count_reservations_sum:
  "count_reservations (PNum (Some a)) (map (\<lambda>(fs, insts). reservation fs insts) rs) =
     Inr (PNum (Some (a + int (sum_list (map (\<lambda>(fs, insts). length insts) rs)))))"
proof (induction rs arbitrary: a)
  case Nil
  then show ?case by simp
next
  case (Cons r rs)
  obtain fs insts where "r = (fs, insts)" by (cases r)
  with Cons.IH [of "a + int (length insts)"] show ?case
    by (simp add: reservation_def lookup_last_def algebra_simps)
qed

text \<open>
  C17: for a well-shaped \<open>DescribeInstances\<close> response the reported
  \<open>instanceCount\<close> is the number of instances over all reservations.
\<close>

theorem instance_count_sum:
  "instance_count (Some (JArr (map (\<lambda>(fs, insts). reservation fs insts) rs))) =
     Inr (JNum (int (sum_list (map (\<lambda>(fs, insts). length insts) rs))))"
  by (simp add: count_reservations_sum)

lemma nat_decimal_not_minus: "take 1 (nat_decimal n @ cs) \<noteq> ''-''"
proof -
  obtain c ds where nd: "nat_decimal n = c # ds" using nat_decimal_not_empty by (cases "nat_decimal n") auto
  then obtain k where "k < (10::nat)" "c = char_of (48 + k)" using nat_decimal_digit_chars [of c n] by auto
  then have "of_char c = (48 + k :: nat)" by simp
  then have "c \<noteq> CHR ''-''" by auto
  with nd show ?thesis by simp
qed

text \<open>
  C13: \<open>parseRelativeTime\<close> reads \<open>-<n>h\<close>, \<open>-<n>d\<close> and \<open>-<n>m\<close> as the time
  \<open>n\<close> hours, days or minutes before the clock reading (an invalid date when that
  leaves the range of dates), and any other unit as \<open>null\<close>.  Without its leading
  minus sign, the same text is \<open>null\<close>, and so is the empty string.
\<close>

theorem relative_time_parsed:
  "parse_relative_time (CHR ''-'' # nat_decimal n @ [u]) now =
     (if u = CHR ''h'' then DateTime (date_of_ms (now - int n * 3600000))
      else if u = CHR ''d'' then DateTime (date_of_ms (now - int n * 86400000))
      else if u = CHR ''m'' then DateTime (date_of_ms (now - int n * 60000))
      else DateNull)
   \<and> parse_relative_time (nat_decimal n @ [u]) now = DateNull
   \<and> parse_relative_time [] now = DateNull"
  using nat_decimal_not_minus [of n "[u]"]
  by (simp add: parse_relative_time_def parse_int_nat_decimal butlast_append time_before_def)

text \<open>
  C26: \<open>aws.cloudwatch.getMetricStatistics\<close> with only a namespace and a metric
  name asks the SDK for the last hour up to the clock reading, with no dimensions,
  a period of 300 seconds and the statistic \<open>Average\<close>.
\<close>

theorem cloudwatch_defaults:
  assumes "lookup_last p ''namespace'' = Some (JStr ns)" and "ns \<noteq> []"
    and "lookup_last p ''metricName'' = Some (JStr mn)" and "mn \<noteq> []"
    and "\<forall>k \<in> {''startTime'', ''endTime'', ''dimensions'', ''period'', ''statistics''}. lookup_last p k = None"
  shows "\<exists>r cfg'. cloudwatch_get_metric_statistics (JObj p) now cfg =
           (Awaiting (Pending HCloudWatchGetMetricStatistics (JObj p) r
              (CloudWatchGetMetricStatistics (Some (JStr ns)) (Some (JStr mn)) (JArr [])
                 (DateTime (date_of_ms (now - 3600000))) (DateTime (Some now)) (JNum 300) (JArr [JStr ''Average'']))), cfg')"
proof -
  obtain r cfg' where "handle_region (JObj p) cfg = Inr (r, cfg')" using handle_region_total by blast
  then show ?thesis
    using assms
    by (simp add: cloudwatch_get_metric_statistics_def aws_call_region suspend_def start_time_def end_time_def)
qed

text \<open>
  C27: a successful \<open>DescribeInstances\<close> response with a reservation that has no
  \<open>Instances\<close> makes \<open>aws.ec2.describeInstances\<close> fail: counting reads
  \<open>length\<close> of \<open>undefined\<close>, and the TypeError is reported as an EC2 error.
\<close>

theorem ec2_reservation_without_instances:
  assumes "lookup_last data ''Reservations'' = Some (JArr (JObj fs # rs))" and "lookup_last fs ''Instances'' = None"
  shows "ec2_describe_instances_done region (Inr data) =
           Inl (Error (''EC2 Error: '' @ exn_message (read_error ''undefined'' ''length'')))"
  using assms by (simp add: ec2_describe_instances_done_def rethrow_def sdk_error_def)

text \<open>
  C28: \<open>aws.s3.listObjects\<close> with a bucket and no prefix or region sends
  \<open>ListObjectsV2\<close> for that bucket in the configured region and answers with the
  bucket, the prefix \<open>''\<close>, and the response's \<open>Contents\<close> and \<open>KeyCount\<close>.
\<close>

theorem list_objects_answer:
  assumes "lookup_last p ''bucket'' = Some (JStr b)" and "b \<noteq> []"
    and "lookup_last p ''prefix'' = None" and "lookup_last p ''region'' = None"
  shows "s3_list_objects (JObj p) cfg =
           (Awaiting (Pending HS3ListObjects (JObj p) (js_or (cfg_region cfg) default_region)
              (S3ListObjectsV2 (Some (JStr b)) None)), cfg)
         \<and> s3_list_objects_done (JObj p) region (Inr data) =
             answer [(''region'', Some region), (''bucket'', Some (JStr b)), (''prefix'', Some (JStr [])),
                     (''objects'', lookup_last data ''Contents''), (''count'', lookup_last data ''KeyCount'')]"
  using assms
  by (simp add: s3_list_objects_def s3_list_objects_done_def aws_call_def handle_region_absent suspend_def answer_def)

subsection \<open>Witnesses\<close>

theorem region_sticky_witness:
  "lookup_last [(''region'', JStr ''eu-west-1'')] ''region'' = Some (JStr ''eu-west-1'')
   \<and> truthy (Some (JStr ''eu-west-1'')) \<and> \<not> truthy (lookup_last [] ''region'')
   \<and> (\<exists>cfg'. s3_list_buckets (JObj [(''region'', JStr ''eu-west-1'')]) \<lparr>cfg_region = Some default_region\<rparr>
         = (Awaiting (Pending HS3ListBuckets (JObj [(''region'', JStr ''eu-west-1'')]) (JStr ''eu-west-1'')
              S3ListBuckets), cfg')
       \<and> lambda_list_functions (JObj []) cfg' =
           (Awaiting (Pending HLambdaListFunctions (JObj []) (JStr ''eu-west-1'') LambdaListFunctions), cfg'))"
  using region_sticky [of "[(''region'', JStr ''eu-west-1'')]" "JStr ''eu-west-1''" "[]"
      "\<lparr>cfg_region = Some default_region\<rparr>"]
  by simp

theorem list_objects_requires_bucket_witness:
  "\<not> truthy (lookup_last [(''region'', JStr ''eu-west-1'')] ''bucket'')
   \<and> s3_list_objects (JObj [(''region'', JStr ''eu-west-1'')]) \<lparr>cfg_region = Some default_region\<rparr>
       = (Settled (Inl (Error ''Bucket name is required'')), \<lparr>cfg_region = Some (JStr ''eu-west-1'')\<rparr>)"
  using list_objects_requires_bucket [of "[(''region'', JStr ''eu-west-1'')]" "\<lparr>cfg_region = Some default_region\<rparr>"]
  by simp

theorem cloudwatch_required_checked_witness:
  "\<not> truthy (lookup_last [(''namespace'', JStr ''AWS/EC2'')] ''metricName'')
   \<and> fst (cloudwatch_get_metric_statistics (JObj [(''namespace'', JStr ''AWS/EC2'')]) 0
           \<lparr>cfg_region = Some default_region\<rparr>)
       = Settled (Inl (Error ''Metric name is required''))"
  using cloudwatch_required_checked [of "[(''namespace'', JStr ''AWS/EC2'')]" 0 "\<lparr>cfg_region = Some default_region\<rparr>"]
  by simp

theorem cloudwatch_defaults_witness:
  "\<exists>r cfg'. cloudwatch_get_metric_statistics
       (JObj [(''namespace'', JStr ''AWS/EC2''), (''metricName'', JStr ''CPUUtilization'')]) 7200000
       \<lparr>cfg_region = Some default_region\<rparr> =
     (Awaiting (Pending HCloudWatchGetMetricStatistics
        (JObj [(''namespace'', JStr ''AWS/EC2''), (''metricName'', JStr ''CPUUtilization'')]) r
        (CloudWatchGetMetricStatistics (Some (JStr ''AWS/EC2'')) (Some (JStr ''CPUUtilization'')) (JArr [])
           (DateTime (Some 3600000)) (DateTime (Some 7200000)) (JNum 300) (JArr [JStr ''Average'']))), cfg')"
  using cloudwatch_defaults [of "[(''namespace'', JStr ''AWS/EC2''), (''metricName'', JStr ''CPUUtilization'')]"
      "''AWS/EC2''" "''CPUUtilization''" 7200000 "\<lparr>cfg_region = Some default_region\<rparr>"]
  by (simp add: date_of_ms_def)

theorem ec2_reservation_without_instances_witness:
  "ec2_describe_instances_done default_region
      (Inr [(''Reservations'', JArr [JObj [(''ReservationId'', JStr ''r-1'')]])]) =
   Inl (Error (''EC2 Error: Cannot read properties of undefined (reading '' @ apos @ ''length'' @ apos @ '')''))"
  using ec2_reservation_without_instances [of "[(''Reservations'', JArr [JObj [(''ReservationId'', JStr ''r-1'')]])]"
      "[(''ReservationId'', JStr ''r-1'')]" "[]" default_region]
  by (simp add: read_error_def)

theorem list_objects_answer_witness:
  "s3_list_objects (JObj [(''bucket'', JStr ''logs'')]) \<lparr>cfg_region = Some default_region\<rparr> =
     (Awaiting (Pending HS3ListObjects (JObj [(''bucket'', JStr ''logs'')]) default_region
        (S3ListObjectsV2 (Some (JStr ''logs'')) None)), \<lparr>cfg_region = Some default_region\<rparr>)
   \<and> s3_list_objects_done (JObj [(''bucket'', JStr ''logs'')]) default_region (Inr [(''KeyCount'', JNum 0)]) =
     Inr (Some (JObj [(''result'', JObj [(''region'', default_region), (''bucket'', JStr ''logs''),
                                      (''prefix'', JStr []), (''count'', JNum 0)])]))"
  using list_objects_answer [of "[(''bucket'', JStr ''logs'')]" "''logs''" "\<lparr>cfg_region = Some default_region\<rparr>"
      default_region "[(''KeyCount'', JNum 0)]"]
  by (simp add: answer_def js_object_def)

end
