(* ===== verification/Dispatcher.thy ===== *)
theory Dispatcher
  imports Handlers
begin

text \<open>
  The request dispatcher of \<open>src/mcp-server-aws.js\<close>: the \<open>'line'\<close> callback
  (lines 687--765) and the envelope writers \<open>sendResponse\<close> and
  \<open>sendErrorResponse\<close> (lines 767--790).  The server's state is the AWS
  configuration, the lines written to stdout (each the JSON value that
  \<open>JSON.stringify\<close> prints on it), the diagnostic log, and the requests whose
  callback is suspended at the \<open>await\<close> of line 743: those whose promise is already
  settled wait in the microtask queue, the others wait for their SDK request.
  \<open>JSON.parse\<close> is the parameter \<open>parse\<close> of the model.
\<close>

datatype log_entry =
    LogInfo string
  | LogReceived json
  | LogSendingResponse json
  | LogSendingError json
  | LogToolError string
  | LogProcessingError string

record server =
  config :: aws_config
  out :: "json list"
  log :: "log_entry list"
  microtasks :: "(jsval \<times> (exn + jsval)) list"
  inflight :: "(jsval \<times> pending) list"

subsection \<open>Envelopes\<close>

definition response :: "jsval \<Rightarrow> jsval \<Rightarrow> json" where
  "response rid r = js_object [(''jsonrpc'', Some (JStr ''2.0'')), (''id'', rid), (''result'', r)]"

definition error_response :: "jsval \<Rightarrow> int \<Rightarrow> string \<Rightarrow> json" where
  "error_response rid code msg =
     js_object [(''jsonrpc'', Some (JStr ''2.0'')), (''id'', rid),
                (''error'', Some (JObj [(''code'', JNum code), (''message'', JStr msg)]))]"

definition send_response :: "jsval \<Rightarrow> jsval \<Rightarrow> server \<Rightarrow> server" where
  "send_response rid r s =
     (let m = response rid r in s\<lparr>log := log s @ [LogSendingResponse m], out := out s @ [m]\<rparr>)"

definition send_error :: "jsval \<Rightarrow> int \<Rightarrow> string \<Rightarrow> server \<Rightarrow> server" where
  "send_error rid code msg s =
     (let m = error_response rid code msg in s\<lparr>log := log s @ [LogSendingError m], out := out s @ [m]\<rparr>)"

subsection \<open>The invocation adapter\<close>

text \<open>
  Lines 744--748 once the awaited promise has settled: a value is sent as the
  result, a failure is logged and sent with code -32000.
\<close>

definition settle :: "jsval \<Rightarrow> exn + jsval \<Rightarrow> server \<Rightarrow> server" where
  "settle rid r s =
     (case r of
        Inr v \<Rightarrow> send_response rid v s
      | Inl e \<Rightarrow>
          send_error rid (-32000) (''Tool execution error: '' @ exn_message e)
            (s\<lparr>log := log s @ [LogToolError (exn_message e)]\<rparr>))"

text \<open>
  Lines 741--743 up to the \<open>await\<close>: an own handler runs to its first \<open>await\<close>
  (and may switch the region); an inherited member runs to completion, and a
  synchronous throw is caught at once.
\<close>

definition invoke :: "handler_ref \<Rightarrow> json \<Rightarrow> int \<Rightarrow> jsval \<Rightarrow> server \<Rightarrow> server" where
  "invoke h params now rid s =
     (case h of
        Own hdl \<Rightarrow>
          (case handler_start hdl params now (config s) of
             (Settled r, cfg') \<Rightarrow> s\<lparr>config := cfg', microtasks := microtasks s @ [(rid, r)]\<rparr>
           | (Awaiting p, cfg') \<Rightarrow> s\<lparr>config := cfg', inflight := inflight s @ [(rid, p)]\<rparr>)
      | Inherited m \<Rightarrow>
          (case call_inherited m params of
             Inl e \<Rightarrow> settle rid (Inl e) s
           | Inr v \<Rightarrow> s\<lparr>microtasks := microtasks s @ [(rid, Inr v)]\<rparr>))"

subsection \<open>Classifying a request\<close>

definition initialize_result :: "jsval \<Rightarrow> json" where
  "initialize_result pv =
     js_object [(''protocolVersion'', pv), (''capabilities'', Some (JObj [(''tools'', JObj [])])),
                (''serverInfo'', Some (JObj [(''name'', JStr ''aws-mcp-server''), (''version'', JStr ''1.0.0'')]))]"

definition not_found_message :: "string \<Rightarrow> string" where
  "not_found_message n = ''Tool '' @ apos @ n @ apos @ '' not found''"

text \<open>
  Lines 731--751.  The name is converted to a string before the table is indexed
  (a falsy name is never converted by the lookup, but its conversion in the message
  cannot throw).
\<close>

definition invoke_action :: "jsval \<Rightarrow> json \<Rightarrow> int \<Rightarrow> jsval \<Rightarrow> exn + (server \<Rightarrow> server)" where
  "invoke_action name params now rid =
     js_bind (js_to_string_opt name) (\<lambda>k.
       if \<not> truthy name then Inr (send_error rid (-32601) (not_found_message k))
       else (case lookup_handler k of
               None \<Rightarrow> Inr (send_error rid (-32601) (not_found_message k))
             | Some h \<Rightarrow> Inr (invoke h params now rid)))"

text \<open>
  Lines 692--760: what the callback does with a parsed request, or the exception
  that leaves the block.  Nothing throws once the state has been changed, so the
  rest of the callback is a state transformer.  Property reads have no effect, so
  \<open>request.id\<close> is read once, right after \<open>request.jsonrpc\<close>.
\<close>

definition request_action :: "json \<Rightarrow> int \<Rightarrow> exn + (server \<Rightarrow> server)" where
  "request_action request now =
     js_bind (js_get (Some request) ''jsonrpc'') (\<lambda>v.
     js_bind (js_get (Some request) ''id'') (\<lambda>rid.
     if v \<noteq> Some (JStr ''2.0'') then Inr (send_error rid (-32600) ''Invalid Request: Not JSON-RPC 2.0'')
     else js_bind (js_get (Some request) ''method'') (\<lambda>m.
       if m = Some (JStr ''initialize'') then
         js_bind (js_get (Some request) ''params'') (\<lambda>ps.
         js_bind (js_get ps ''protocolVersion'') (\<lambda>pv.
           Inr (send_response rid (Some (initialize_result pv)))))
       else if m = Some (JStr ''tools/list'') then
         js_bind tools_list_result (\<lambda>r. Inr (send_response rid (Some r)))
       else if m = Some (JStr ''tools/invoke'') then
         js_bind (js_get (Some request) ''params'') (\<lambda>ps.
         js_bind (js_get_opt ps ''name'') (\<lambda>name.
         js_bind (js_get_opt ps ''parameters'') (\<lambda>tp.
           invoke_action name (js_or tp (JObj [])) now rid)))
       else if m = Some (JStr ''notifications/initialized'') then Inr (\<lambda>s. s)
       else Inr (send_error rid (-32601) ''Method not found''))))"

text \<open>Lines 761--764: any exception that leaves the block.\<close>

definition processing_error :: "exn \<Rightarrow> server \<Rightarrow> server" where
  "processing_error e s =
     send_error (Some JNull) (-32700) ''Parse error''
       (s\<lparr>log := log s @ [LogProcessingError (exn_message e)]\<rparr>)"

text \<open>Line 690: the parsed request is logged before anything else.\<close>

definition receive :: "json \<Rightarrow> server \<Rightarrow> server" where
  "receive request s = s\<lparr>log := log s @ [LogReceived request]\<rparr>"

text \<open>The synchronous part of the callback for one input line, at clock reading \<open>now\<close>.\<close>

definition on_line :: "(string \<Rightarrow> exn + json) \<Rightarrow> int \<Rightarrow> string \<Rightarrow> server \<Rightarrow> server" where
  "on_line parse now line s =
     (case parse line of
        Inl e \<Rightarrow> processing_error e s
      | Inr request \<Rightarrow>
          (case request_action request now of
             Inl e \<Rightarrow> processing_error e (receive request s)
           | Inr act \<Rightarrow> act (receive request s)))"

subsection \<open>Effects of the writers on the state\<close>

text \<open>A state with nothing written and nothing pending, for the witnesses.\<close>

definition idle_server :: server where
  "idle_server = \<lparr>config = \<lparr>cfg_region = Some default_region\<rparr>, out = [], log = [], microtasks = [], inflight = []\<rparr>"

subsection \<open>Tool invocation\<close>

text \<open>
  A \<open>tools/invoke\<close> request as the dispatcher sees it: a JSON-RPC 2.0 request
  object whose \<open>params\<close> is an object \<open>ps\<close>.
\<close>

definition invoke_request :: "(string \<times> json) list \<Rightarrow> (string \<times> json) list \<Rightarrow> bool" where
  "invoke_request fs ps \<longleftrightarrow>
     lookup_last fs ''jsonrpc'' = Some (JStr ''2.0'') \<and>
     lookup_last fs ''method'' = Some (JStr ''tools/invoke'') \<and>
     lookup_last fs ''params'' = Some (JObj ps)"

definition nope_request :: json where
  "nope_request = JObj [(''jsonrpc'', JStr ''2.0''), (''id'', JNum 3), (''method'', JStr ''tools/invoke''),
                        (''params'', JObj [(''name'', JStr ''nope'')])]"

definition constructor_request :: json where
  "constructor_request = JObj [(''jsonrpc'', JStr ''2.0''), (''id'', JNum 4), (''method'', JStr ''tools/invoke''),
     (''params'', JObj [(''name'', JStr ''constructor''), (''parameters'', JObj [(''x'', JNum 1)])])]"

subsection \<open>Notifications, the handshake, and exceptions in the handlers\<close>

definition cancel_notification :: json where
  "cancel_notification = JObj [(''jsonrpc'', JStr ''2.0''), (''method'', JStr ''notifications/cancelled'')]"

definition initialize_request :: json where
  "initialize_request = JObj [(''jsonrpc'', JStr ''2.0''), (''id'', JNum 1), (''method'', JStr ''initialize''),
     (''params'', JObj [(''protocolVersion'', JStr ''2.0'')])]"

definition bare_initialize :: json where
  "bare_initialize = JObj [(''jsonrpc'', JStr ''2.0''), (''id'', JNum 5), (''method'', JStr ''initialize'')]"

subsection \<open>Effects of the writers on the state\<close>

lemma send_response_effect [server_simps]:
  "out (send_response rid r s) = out s @ [response rid r]"
  "config (send_response rid r s) = config s"
  "microtasks (send_response rid r s) = microtasks s"
  "inflight (send_response rid r s) = inflight s"
  by (simp_all add: send_response_def Let_def)

lemma send_error_effect [server_simps]:
  "out (send_error rid c msg s) = out s @ [error_response rid c msg]"
  "config (send_error rid c msg s) = config s"
  "microtasks (send_error rid c msg s) = microtasks s"
  "inflight (send_error rid c msg s) = inflight s"
  by (simp_all add: send_error_def Let_def)

lemma receive_effect [server_simps]:
  "out (receive req s) = out s" "config (receive req s) = config s"
  "microtasks (receive req s) = microtasks s" "inflight (receive req s) = inflight s"
  by (simp_all add: receive_def)

lemma processing_error_effect [server_simps]:
  "out (processing_error e s) = out s @ [error_response (Some JNull) (-32700) ''Parse error'']"
  "config (processing_error e s) = config s"
  "microtasks (processing_error e s) = microtasks s"
  "inflight (processing_error e s) = inflight s"
  by (simp_all add: processing_error_def server_simps)

lemma settle_effect [server_simps]:
  "out (settle rid r s) =
     out s @ [case r of Inr v \<Rightarrow> response rid v
                      | Inl e \<Rightarrow> error_response rid (-32000) (''Tool execution error: '' @ exn_message e)]"
  "config (settle rid r s) = config s"
  "microtasks (settle rid r s) = microtasks s"
  "inflight (settle rid r s) = inflight s"
  by (simp_all add: settle_def server_simps split: sum.split)

lemma invoke_ping_effect:
  "out (invoke (Own HPing) p now rid s) = out s"
  "microtasks (invoke (Own HPing) p now rid s) = microtasks s @ [(rid, Inr (Some pong))]"
  by (simp_all add: invoke_def ping_handler_def)

lemmas dispatch_defs = on_line_def request_action_def invoke_action_def

subsection \<open>Envelope validation\<close>

text \<open>
  C1: a request object whose \<open>jsonrpc\<close> member is not the string \<open>"2.0"\<close> is
  answered, at once and only, with error -32600 carrying the request's own \<open>id\<close>;
  nothing else of the state changes but the log.
\<close>

theorem invalid_request_rejected:
  assumes "parse line = Inr (JObj fs)" and "lookup_last fs ''jsonrpc'' \<noteq> Some (JStr ''2.0'')"
  shows "on_line parse now line s =
           send_error (lookup_last fs ''id'') (-32600) ''Invalid Request: Not JSON-RPC 2.0'' (receive (JObj fs) s)"
  using assms by (simp add: dispatch_defs)

theorem invalid_request_rejected_witness:
  "(\<lambda>l::string. Inr (JObj [(''jsonrpc'', JStr ''1.0''), (''id'', JNum 7)]) :: exn + json) ''x''
     = Inr (JObj [(''jsonrpc'', JStr ''1.0''), (''id'', JNum 7)])
   \<and> lookup_last [(''jsonrpc'', JStr ''1.0''), (''id'', JNum 7)] ''jsonrpc'' \<noteq> Some (JStr ''2.0'')
   \<and> out (on_line (\<lambda>l. Inr (JObj [(''jsonrpc'', JStr ''1.0''), (''id'', JNum 7)])) 0 ''x'' idle_server)
       = [error_response (Some (JNum 7)) (-32600) ''Invalid Request: Not JSON-RPC 2.0'']"
  using invalid_request_rejected [of "\<lambda>l. Inr (JObj [(''jsonrpc'', JStr ''1.0''), (''id'', JNum 7)])" "''x''"
      "[(''jsonrpc'', JStr ''1.0''), (''id'', JNum 7)]" 0 idle_server]
  by (simp add: server_simps idle_server_def)

subsection \<open>Tool invocation\<close>

text \<open>
  C2: invoking a tool whose name the handler table does not resolve is answered at
  once with error -32601 \<open>Tool '<name>' not found\<close> and the request's id, and no
  handler runs.
\<close>

theorem unknown_tool_rejected:
  assumes "parse line = Inr (JObj fs)" and "invoke_request fs ps"
    and "lookup_last ps ''name'' = Some (JStr n)" and "lookup_handler n = None"
  shows "on_line parse now line s =
           send_error (lookup_last fs ''id'') (-32601) (not_found_message n) (receive (JObj fs) s)"
  using assms by (simp add: dispatch_defs invoke_request_def)

theorem unknown_tool_rejected_witness:
  "(\<lambda>l::string. Inr nope_request :: exn + json) ''l'' = Inr (JObj (obj_fields nope_request))
   \<and> invoke_request (obj_fields nope_request) [(''name'', JStr ''nope'')]
   \<and> lookup_last [(''name'', JStr ''nope'')] ''name'' = Some (JStr ''nope'')
   \<and> lookup_handler ''nope'' = None
   \<and> out (on_line (\<lambda>l. Inr nope_request) 0 ''l'' idle_server)
       = [error_response (Some (JNum 3)) (-32601) (''Tool '' @ apos @ ''nope'' @ apos @ '' not found'')]"
proof -
  have h: "lookup_handler ''nope'' = None"
    by (simp add: lookup_handler_def tool_handlers_def object_prototype_def)
  have r: "invoke_request (obj_fields nope_request) [(''name'', JStr ''nope'')]"
    by (simp add: invoke_request_def nope_request_def)
  show ?thesis
    using unknown_tool_rejected [of "\<lambda>l. Inr nope_request" "''l''" "obj_fields nope_request"
        "[(''name'', JStr ''nope'')]" "''nope''" 0 idle_server] h r
    by (simp add: server_simps idle_server_def nope_request_def not_found_message_def)
qed

text \<open>
  C10: a tool name that is a member \<open>toolHandlers\<close> inherits from
  \<open>Object.prototype\<close> is not rejected: \<open>constructor\<close> is called as a tool and the
  request's \<open>parameters\<close> object comes back as the result.
\<close>

theorem inherited_member_invoked:
  assumes "parse line = Inr (JObj fs)" and "invoke_request fs ps"
    and "lookup_last ps ''name'' = Some (JStr ''constructor'')"
    and "lookup_last ps ''parameters'' = Some (JObj q)"
  shows "on_line parse now line s =
           (receive (JObj fs) s)\<lparr>microtasks := microtasks s @ [(lookup_last fs ''id'', Inr (Some (JObj q)))]\<rparr>"
  using assms
  by (simp add: dispatch_defs invoke_request_def lookup_handler_def tool_handlers_def
      object_prototype_def invoke_def receive_def)

theorem inherited_member_invoked_witness:
  "(\<lambda>l::string. Inr constructor_request :: exn + json) ''l'' = Inr (JObj (obj_fields constructor_request))
   \<and> invoke_request (obj_fields constructor_request)
       [(''name'', JStr ''constructor''), (''parameters'', JObj [(''x'', JNum 1)])]
   \<and> microtasks (on_line (\<lambda>l. Inr constructor_request) 0 ''l'' idle_server)
       = [(Some (JNum 4), Inr (Some (JObj [(''x'', JNum 1)])))]"
proof -
  have r: "invoke_request (obj_fields constructor_request)
             [(''name'', JStr ''constructor''), (''parameters'', JObj [(''x'', JNum 1)])]"
    by (simp add: invoke_request_def constructor_request_def)
  show ?thesis
    using inherited_member_invoked [of "\<lambda>l. Inr constructor_request" "''l''" "obj_fields constructor_request"
        "[(''name'', JStr ''constructor''), (''parameters'', JObj [(''x'', JNum 1)])]" "[(''x'', JNum 1)]"
        0 idle_server] r
    by (simp add: idle_server_def constructor_request_def receive_def)
qed

subsection \<open>Notifications, the handshake, and exceptions in the handlers\<close>

text \<open>
  C9: a message without an \<open>id\<close> (a notification) whose method the dispatcher
  does not know is still answered: one error -32601 line is written, with no \<open>id\<close>
  member at all.
\<close>

theorem notification_answered:
  assumes "parse line = Inr (JObj fs)" and "lookup_last fs ''jsonrpc'' = Some (JStr ''2.0'')"
    and "lookup_last fs ''id'' = None" and "lookup_last fs ''method'' = Some (JStr m)"
    and "m \<notin> {''initialize'', ''tools/list'', ''tools/invoke'', ''notifications/initialized''}"
  shows "out (on_line parse now line s) =
           out s @ [JObj [(''jsonrpc'', JStr ''2.0''),
                          (''error'', JObj [(''code'', JNum (-32601)), (''message'', JStr ''Method not found'')])]]"
  using assms by (simp add: dispatch_defs server_simps error_response_def js_object_def)

theorem notification_answered_witness:
  "(\<lambda>l::string. Inr cancel_notification :: exn + json) ''l'' = Inr (JObj (obj_fields cancel_notification))
   \<and> ''notifications/cancelled'' \<notin> {''initialize'', ''tools/list'', ''tools/invoke'', ''notifications/initialized''}
   \<and> out (on_line (\<lambda>l. Inr cancel_notification) 0 ''l'' idle_server)
       = [JObj [(''jsonrpc'', JStr ''2.0''),
                (''error'', JObj [(''code'', JNum (-32601)), (''message'', JStr ''Method not found'')])]]"
  using notification_answered [of "\<lambda>l. Inr cancel_notification" "''l''" "obj_fields cancel_notification"
      "''notifications/cancelled''" 0 idle_server]
  by (simp add: cancel_notification_def idle_server_def)

text \<open>
  C15: \<open>initialize\<close> is answered at once with the handshake: the client's
  \<open>params.protocolVersion\<close> echoed (dropped when absent), empty tool capabilities,
  and the server's name and version.
\<close>

theorem initialize_answered:
  assumes "parse line = Inr (JObj fs)" and "lookup_last fs ''jsonrpc'' = Some (JStr ''2.0'')"
    and "lookup_last fs ''method'' = Some (JStr ''initialize'')"
    and "lookup_last fs ''params'' = Some (JObj ps)"
  shows "on_line parse now line s =
           send_response (lookup_last fs ''id'')
             (Some (initialize_result (lookup_last ps ''protocolVersion''))) (receive (JObj fs) s)"
  using assms by (simp add: dispatch_defs)

theorem initialize_answered_witness:
  "(\<lambda>l::string. Inr initialize_request :: exn + json) ''l'' = Inr (JObj (obj_fields initialize_request))
   \<and> out (on_line (\<lambda>l. Inr initialize_request) 0 ''l'' idle_server)
       = [JObj [(''jsonrpc'', JStr ''2.0''), (''id'', JNum 1),
                (''result'', JObj [(''protocolVersion'', JStr ''2.0''), (''capabilities'', JObj [(''tools'', JObj [])]),
                   (''serverInfo'', JObj [(''name'', JStr ''aws-mcp-server''), (''version'', JStr ''1.0.0'')])])]]"
  using initialize_answered [of "\<lambda>l. Inr initialize_request" "''l''" "obj_fields initialize_request"
      "[(''protocolVersion'', JStr ''2.0'')]" 0 idle_server]
  by (simp add: initialize_request_def idle_server_def server_simps response_def initialize_result_def
      js_object_def)

text \<open>
  C14: an exception inside the handlers of the callback, here an \<open>initialize\<close>
  without \<open>params\<close>, is reported as a parse error: code -32700 with a \<open>null\<close>
  id, although the line parsed and had an id.
\<close>

theorem initialize_without_params:
  assumes "parse line = Inr (JObj fs)" and "lookup_last fs ''jsonrpc'' = Some (JStr ''2.0'')"
    and "lookup_last fs ''method'' = Some (JStr ''initialize'')" and "lookup_last fs ''params'' = None"
  shows "out (on_line parse now line s) = out s @ [error_response (Some JNull) (-32700) ''Parse error'']"
  using assms by (simp add: dispatch_defs server_simps)

theorem initialize_without_params_witness:
  "(\<lambda>l::string. Inr bare_initialize :: exn + json) ''l'' = Inr (JObj (obj_fields bare_initialize))
   \<and> out (on_line (\<lambda>l. Inr bare_initialize) 0 ''l'' idle_server)
       = [error_response (Some JNull) (-32700) ''Parse error'']"
  using initialize_without_params [of "\<lambda>l. Inr bare_initialize" "''l''" "obj_fields bare_initialize" 0 idle_server]
  by (simp add: bare_initialize_def idle_server_def)

text \<open>\<open>ping\<close> runs no code before its promise settles, so the answer waits in the microtask queue.\<close>

lemma ping_invoked:
  assumes "parse line = Inr (JObj fs)" and "invoke_request fs ps"
    and "lookup_last ps ''name'' = Some (JStr ''ping'')"
  shows "on_line parse now line s =
           (receive (JObj fs) s)\<lparr>microtasks := microtasks s @ [(lookup_last fs ''id'', Inr (Some pong))]\<rparr>"
  using assms by (simp add: dispatch_defs invoke_request_def lookup_handler_def
      tool_handlers_def invoke_def ping_handler_def receive_def)

end
