(* ===== verification/Transport.thy ===== *)
theory Transport
  imports Dispatcher
begin

text \<open>
  The transport loop of \<open>src/mcp-server-aws.js\<close>: start-up (lines 7--51 and
  792--799) and the event loop that feeds \<open>readline\<close>'s lines to the callback.
  \<open>readline\<close> emits the \<open>'line'\<close> events of one chunk of input synchronously,
  so the synchronous parts of all lines of a chunk run first, in order; then the
  microtask queue drains, and every callback whose awaited promise was already
  settled writes its answer, first in first out.  An SDK request that completes is a
  later event of its own; its callback resumes and writes its answer then.  The
  environment chooses the events: a chunk of lines with the clock reading at which
  it arrives, or the completion of the \<open>k\<close>-th request in flight with an outcome.
\<close>

subsection \<open>Start-up\<close>

definition ready_notification :: json where
  "ready_notification =
     JObj [(''jsonrpc'', JStr ''2.0''), (''method'', JStr ''notifications/ready''), (''params'', JObj [])]"

definition startup :: server where
  "startup =
     \<lparr>config = \<lparr>cfg_region = Some default_region\<rparr>, out = [ready_notification],
      log = [LogInfo ''[aws] [info] Initializing server...'',
             LogInfo ''[aws] [info] Server started and connected successfully''],
      microtasks = [], inflight = []\<rparr>"

subsection \<open>Events\<close>

fun run_microtasks :: "(jsval \<times> (exn + jsval)) list \<Rightarrow> server \<Rightarrow> server" where
  "run_microtasks [] s = s"
| "run_microtasks ((rid, r) # q) s = run_microtasks q (settle rid r s)"

definition drain :: "server \<Rightarrow> server" where
  "drain s = run_microtasks (microtasks s) (s\<lparr>microtasks := []\<rparr>)"

definition on_chunk :: "(string \<Rightarrow> exn + json) \<Rightarrow> int \<Rightarrow> string list \<Rightarrow> server \<Rightarrow> server" where
  "on_chunk parse now lines s = drain (fold (on_line parse now) lines s)"

text \<open>The line that settling an invocation writes.\<close>

definition settled_line :: "jsval \<Rightarrow> exn + jsval \<Rightarrow> json" where
  "settled_line rid r =
     (case r of Inr v \<Rightarrow> response rid v
      | Inl e \<Rightarrow> error_response rid (-32000) (''Tool execution error: '' @ exn_message e))"

definition drop_at :: "nat \<Rightarrow> 'a list \<Rightarrow> 'a list" where
  "drop_at k xs = take k xs @ drop (Suc k) xs"

definition on_sdk_done :: "nat \<Rightarrow> sdk_outcome \<Rightarrow> server \<Rightarrow> server" where
  "on_sdk_done k res s =
     (if k < length (inflight s) then
        (case inflight s ! k of (rid, p) \<Rightarrow> settle rid (handler_done p res) (s\<lparr>inflight := drop_at k (inflight s)\<rparr>))
      else s)"

datatype event = Chunk int "string list" | SdkDone nat sdk_outcome

fun step :: "(string \<Rightarrow> exn + json) \<Rightarrow> server \<Rightarrow> event \<Rightarrow> server" where
  "step parse s (Chunk now lines) = on_chunk parse now lines s"
| "step parse s (SdkDone k res) = on_sdk_done k res s"

fun run :: "(string \<Rightarrow> exn + json) \<Rightarrow> server \<Rightarrow> event list \<Rightarrow> server" where
  "run parse s [] = s"
| "run parse s (e # es) = run parse (step parse s e) es"

subsection \<open>Which lines are answered\<close>

text \<open>
  A line is answered unless it is a JSON-RPC 2.0 message with method
  \<open>notifications/initialized\<close>.
\<close>

definition silent_request :: "json \<Rightarrow> bool" where
  "silent_request req \<longleftrightarrow>
     js_get (Some req) ''jsonrpc'' = Inr (Some (JStr ''2.0'')) \<and>
     js_get (Some req) ''method'' = Inr (Some (JStr ''notifications/initialized''))"

definition answered :: "(string \<Rightarrow> exn + json) \<Rightarrow> string \<Rightarrow> bool" where
  "answered parse l = (case parse l of Inl e \<Rightarrow> True | Inr req \<Rightarrow> \<not> silent_request req)"

fun answered_lines :: "(string \<Rightarrow> exn + json) \<Rightarrow> event list \<Rightarrow> nat" where
  "answered_lines parse [] = 0"
| "answered_lines parse (Chunk now ls # es) = length (filter (answered parse) ls) + answered_lines parse es"
| "answered_lines parse (SdkDone k res # es) = answered_lines parse es"

text \<open>
  An answer line is a JSON-RPC 2.0 object without a \<open>method\<close> member: a response
  or an error response, never a notification.
\<close>

fun answer_line :: "json \<Rightarrow> bool" where
  "answer_line (JObj fs) = (''method'' \<notin> set (map fst fs) \<and> lookup_last fs ''jsonrpc'' = Some (JStr ''2.0''))"
| "answer_line _ = False"

definition pending_count :: "server \<Rightarrow> nat" where
  "pending_count s = length (out s) + length (microtasks s) + length (inflight s)"

subsection \<open>Every answered line is answered once\<close>

text \<open>
  \<open>appends_answers s t\<close>: \<open>t\<close> has written what \<open>s\<close> had and then only answer
  lines.  \<open>answers_once act\<close>: the action adds exactly one line written or pending,
  and writes only answer lines.
\<close>

definition appends_answers :: "server \<Rightarrow> server \<Rightarrow> bool" where
  "appends_answers s t \<longleftrightarrow> (\<exists>xs. out t = out s @ xs \<and> list_all answer_line xs)"

definition answers_once :: "(server \<Rightarrow> server) \<Rightarrow> bool" where
  "answers_once act \<longleftrightarrow> (\<forall>s. pending_count (act s) = Suc (pending_count s) \<and> appends_answers s (act s))"

text \<open>
  \<open>queue_frame f\<close>: \<open>f\<close> neither reads nor removes the settled invocations already
  queued; it can only append to the queue.
\<close>

definition queue_frame :: "(server \<Rightarrow> server) \<Rightarrow> bool" where
  "queue_frame f \<longleftrightarrow>
     (\<forall>s q. f (s\<lparr>microtasks := q @ microtasks s\<rparr>) = (f s)\<lparr>microtasks := q @ microtasks (f s)\<rparr>)"

subsection \<open>Behaviour of single chunks\<close>

definition ping_request :: json where
  "ping_request = JObj [(''jsonrpc'', JStr ''2.0''), (''id'', JNum 2), (''method'', JStr ''tools/invoke''),
                        (''params'', JObj [(''name'', JStr ''ping'')])]"

text \<open>A request with an unknown method, for the witnesses.\<close>

definition bogus_request :: json where
  "bogus_request = JObj [(''jsonrpc'', JStr ''2.0''), (''id'', JNum 3), (''method'', JStr ''bogus'')]"

definition buckets_request :: json where
  "buckets_request = JObj [(''jsonrpc'', JStr ''2.0''), (''id'', JNum 9), (''method'', JStr ''tools/invoke''),
                           (''params'', JObj [(''name'', JStr ''aws.s3.listBuckets'')])]"

subsection \<open>\<open>ping\<close> has no side effect\<close>

definition anonymous_buckets_request :: json where
  "anonymous_buckets_request =
     JObj [(''jsonrpc'', JStr ''2.0''), (''method'', JStr ''tools/invoke''),
           (''params'', JObj [(''name'', JStr ''aws.s3.listBuckets''),
                             (''parameters'', JObj [(''region'', JStr ''eu-west-1'')])])]"

subsection \<open>Events\<close>

lemma run_microtasks_out:
  "out (run_microtasks q s) = out s @ map (\<lambda>(rid, r). settled_line rid r) q"
  by (induction q arbitrary: s) (auto simp: settled_line_def server_simps split: sum.split)

subsection \<open>Every answered line is answered once\<close>

lemma answer_line_response [simp]: "answer_line (response rid r)"
  by (cases rid; cases r) (simp_all add: response_def js_object_def)

lemma answer_line_error_response [simp]: "answer_line (error_response rid c m)"
  by (cases rid) (simp_all add: error_response_def js_object_def)

lemma answer_line_jsonrpc: "answer_line j \<Longrightarrow> js_get (Some j) ''jsonrpc'' = Inr (Some (JStr ''2.0''))"
  by (cases j) simp_all

lemma run_microtasks_keeps [server_simps]:
  "config (run_microtasks q s) = config s" "inflight (run_microtasks q s) = inflight s"
  "microtasks (run_microtasks q s) = microtasks s"
  by (induction q arbitrary: s) (auto simp: server_simps)

lemma answers_once_send_error: "answers_once (send_error rid c m)"
  by (simp add: answers_once_def appends_answers_def pending_count_def server_simps)

lemma answers_once_send_response: "answers_once (send_response rid r)"
  by (simp add: answers_once_def appends_answers_def pending_count_def server_simps)

lemma answers_once_settle: "answers_once (settle rid r)"
  by (simp add: answers_once_def appends_answers_def pending_count_def server_simps split: sum.split)

lemma answers_once_processing_error: "answers_once (processing_error e)"
  by (simp add: answers_once_def appends_answers_def pending_count_def server_simps)

lemma answers_once_invoke: "answers_once (invoke h p now rid)"
proof -
  have "pending_count (invoke h p now rid s) = Suc (pending_count s) \<and> appends_answers s (invoke h p now rid s)" for s
    by (auto simp: invoke_def pending_count_def appends_answers_def server_simps
        split: handler_ref.split prod.split promise.split sum.split)
  then show ?thesis by (simp add: answers_once_def)
qed

lemma invoke_action_answers_once:
  "invoke_action name p now rid = Inr act \<Longrightarrow> answers_once act"
  by (auto simp: invoke_action_def js_bind_def answers_once_send_error answers_once_invoke
      split: sum.splits if_splits option.splits)

lemma request_action_cases:
  assumes "request_action req now = Inr act"
  shows "(silent_request req \<and> act = (\<lambda>s. s)) \<or> (\<not> silent_request req \<and> answers_once act)"
  using assms
  by (auto simp: request_action_def js_bind_def silent_request_def answers_once_send_error
      answers_once_send_response dest: invoke_action_answers_once split: sum.splits if_splits)

lemma silent_request_action: "silent_request req \<Longrightarrow> request_action req now = Inr (\<lambda>s. s)"
  by (auto simp: request_action_def silent_request_def dest: js_get_other_key [where q = "''id''"])

lemma appends_answers_refl [simp]: "appends_answers s s"
  by (auto simp: appends_answers_def)

lemma appends_answers_trans: "appends_answers s t \<Longrightarrow> appends_answers t u \<Longrightarrow> appends_answers s u"
  by (auto simp: appends_answers_def)

lemma receive_counts [simp]:
  "pending_count (receive r s) = pending_count s" "appends_answers (receive r s) t = appends_answers s t"
  "appends_answers s (receive r s)"
  by (simp_all add: pending_count_def appends_answers_def server_simps)

lemma answers_onceD:
  "answers_once act \<Longrightarrow> pending_count (act s) = Suc (pending_count s) \<and> appends_answers s (act s)"
  by (simp add: answers_once_def)

lemma on_line_answers:
  "pending_count (on_line parse now l s) = pending_count s + (if answered parse l then 1 else 0)
   \<and> appends_answers s (on_line parse now l s)"
proof (cases "parse l")
  case (Inl e)
  then show ?thesis
    using answers_onceD [OF answers_once_processing_error, of e s] by (simp add: on_line_def answered_def)
next
  case (Inr req)
  show ?thesis
  proof (cases "request_action req now")
    case (Inl e)
    then have "\<not> silent_request req" using silent_request_action by force
    with Inl Inr show ?thesis
      using answers_onceD [OF answers_once_processing_error, of e "receive req s"]
      by (auto simp: on_line_def answered_def intro: appends_answers_trans)
  next
    case (Inr act)
    then consider "silent_request req" "act = (\<lambda>s. s)" | "\<not> silent_request req" "answers_once act"
      using request_action_cases by blast
    then show ?thesis
    proof cases
      case 1
      with Inr \<open>parse l = Inr req\<close> show ?thesis by (simp add: on_line_def answered_def)
    next
      case 2
      with Inr \<open>parse l = Inr req\<close> show ?thesis
        using answers_onceD [of act "receive req s"]
        by (auto simp: on_line_def answered_def intro: appends_answers_trans)
    qed
  qed
qed

lemma fold_on_line_answers:
  "pending_count (fold (on_line parse now) ls s) = pending_count s + length (filter (answered parse) ls)
   \<and> appends_answers s (fold (on_line parse now) ls s)"
proof (induction ls arbitrary: s)
  case Nil
  then show ?case by simp
next
  case (Cons l ls)
  from on_line_answers [of parse now l s] Cons.IH [of "on_line parse now l s"]
  show ?case by (auto intro: appends_answers_trans)
qed

lemma run_microtasks_answers:
  "pending_count (run_microtasks q s) = pending_count s + length q
   \<and> microtasks (run_microtasks q s) = microtasks s \<and> appends_answers s (run_microtasks q s)"
proof (induction q arbitrary: s)
  case Nil
  then show ?case by simp
next
  case (Cons x q)
  obtain rid r where x: "x = (rid, r)" by (cases x)
  from answers_onceD [OF answers_once_settle, of rid r s] Cons.IH [of "settle rid r s"] x
  show ?case by (auto simp: server_simps intro: appends_answers_trans)
qed

lemma drain_answers:
  "pending_count (drain s) = pending_count s \<and> microtasks (drain s) = [] \<and> appends_answers s (drain s)"
proof -
  have "pending_count (s\<lparr>microtasks := []\<rparr>) + length (microtasks s) = pending_count s"
    by (simp add: pending_count_def)
  with run_microtasks_answers [of "microtasks s" "s\<lparr>microtasks := []\<rparr>"] show ?thesis
    by (simp add: drain_def appends_answers_def)
qed

lemma on_sdk_done_answers:
  assumes "microtasks s = []"
  shows "pending_count (on_sdk_done k res s) = pending_count s \<and> microtasks (on_sdk_done k res s) = []
         \<and> appends_answers s (on_sdk_done k res s)"
proof (cases "k < length (inflight s)")
  case True
  obtain rid p where kth: "inflight s ! k = (rid, p)" by (cases "inflight s ! k")
  let ?s' = "s\<lparr>inflight := drop_at k (inflight s)\<rparr>"
  have "length (drop_at k (inflight s)) = length (inflight s) - 1"
    using True by (simp add: drop_at_def)
  then have "Suc (pending_count ?s') = pending_count s"
    using True by (simp add: pending_count_def)
  moreover have "appends_answers s ?s'" by (simp add: appends_answers_def)
  ultimately show ?thesis
    using True kth assms answers_onceD [OF answers_once_settle, of rid "handler_done p res" ?s']
    by (auto simp: on_sdk_done_def server_simps intro: appends_answers_trans)
next
  case False
  with assms show ?thesis by (simp add: on_sdk_done_def)
qed

lemma step_answers:
  assumes "microtasks s = []"
  shows "pending_count (step parse s e) = pending_count s + answered_lines parse [e]
         \<and> microtasks (step parse s e) = [] \<and> appends_answers s (step parse s e)"
proof (cases e)
  case (Chunk now ls)
  from fold_on_line_answers [of parse now ls s] drain_answers [of "fold (on_line parse now) ls s"]
  show ?thesis by (auto simp: Chunk on_chunk_def intro: appends_answers_trans)
next
  case (SdkDone k res)
  with on_sdk_done_answers [OF assms] show ?thesis by simp
qed

lemma run_answers:
  assumes "microtasks s = []"
  shows "pending_count (run parse s es) = pending_count s + answered_lines parse es
         \<and> microtasks (run parse s es) = [] \<and> appends_answers s (run parse s es)"
  using assms
proof (induction es arbitrary: s)
  case Nil
  then show ?case by simp
next
  case (Cons e es)
  have "answered_lines parse (e # es) = answered_lines parse [e] + answered_lines parse es"
    by (cases e) simp_all
  with step_answers [OF Cons.prems, of parse e] Cons.IH [of "step parse s e"]
  show ?case by (auto intro: appends_answers_trans)
qed

lemma startup_idle [simp]:
  "microtasks startup = []" "out startup = [ready_notification]" "inflight startup = []"
  by (simp_all add: startup_def)

lemma startup_pending: "pending_count startup = 1"
  by (simp add: pending_count_def)

text \<open>
  C7: no request is dropped or duplicated.  From start-up, after any sequence of
  events, the lines written plus the requests still waiting for the SDK number one
  (the ready notification) more than the input lines that call for an answer: every
  line but a \<open>notifications/initialized\<close> notification gets exactly one answer,
  written at once or when its SDK request completes, and none gets two.
\<close>

theorem run_answers_every_line:
  "length (out (run parse startup es)) + length (inflight (run parse startup es)) = Suc (answered_lines parse es)"
proof -
  from run_answers [of startup parse es]
  have "pending_count (run parse startup es) = Suc (answered_lines parse es)"
    and "microtasks (run parse startup es) = []"
    by (simp_all add: startup_pending)
  then show ?thesis by (simp add: pending_count_def)
qed

text \<open>
  C6: the first line the server writes is the \<open>notifications/ready\<close>
  notification, before any answer, and it is never written again: every later line
  is a response or an error response.
\<close>

theorem ready_first_and_once:
  "\<exists>xs. out (run parse startup es) = ready_notification # xs \<and> ready_notification \<notin> set xs"
proof -
  from run_answers [of startup parse es] obtain xs where
    "out (run parse startup es) = ready_notification # xs" and "list_all answer_line xs"
    by (auto simp: appends_answers_def)
  moreover have "\<not> answer_line ready_notification" by (simp add: ready_notification_def)
  ultimately show ?thesis by (auto simp: list_all_iff)
qed

subsection \<open>Behaviour of single chunks\<close>

text \<open>
  C4: a line that is not well-formed JSON is answered with exactly one error
  -32700 \<open>Parse error\<close> with a \<open>null\<close> id; nothing else of the state changes
  but the log, and the rest of the chunk is processed from there.
\<close>

theorem parse_failure_answered:
  assumes "parse l = Inl e"
  shows "on_chunk parse now (l # ls) s = on_chunk parse now ls (processing_error e s)
         \<and> out (processing_error e s) = out s @ [error_response (Some JNull) (-32700) ''Parse error'']
         \<and> config (processing_error e s) = config s \<and> inflight (processing_error e s) = inflight s
         \<and> microtasks (processing_error e s) = microtasks s"
  using assms by (simp add: on_chunk_def on_line_def server_simps)

theorem parse_failure_answered_witness:
  "(\<lambda>l::string. Inl (SyntaxError ''Unexpected end of JSON input'') :: exn + json) ''{'' = Inl (SyntaxError ''Unexpected end of JSON input'')
   \<and> out (on_chunk (\<lambda>l. Inl (SyntaxError ''Unexpected end of JSON input'')) 0 [''{''] idle_server)
       = [error_response (Some JNull) (-32700) ''Parse error'']"
  using parse_failure_answered [of "\<lambda>l. Inl (SyntaxError ''Unexpected end of JSON input'')" "''{''"
      "SyntaxError ''Unexpected end of JSON input''" 0 "[]" idle_server]
  by (simp add: on_chunk_def drain_def idle_server_def)

text \<open>
  C5: \<open>ping\<close>, whatever the state of the server, is answered with the same
  payload \<open>{"result": "pong"}\<close> and the request's id, and leaves the AWS
  configuration and everything pending unchanged.
\<close>

theorem ping_answered:
  assumes "parse l = Inr (JObj fs)" and "invoke_request fs ps"
    and "lookup_last ps ''name'' = Some (JStr ''ping'')" and "microtasks s = []"
  shows "on_chunk parse now [l] s = send_response (lookup_last fs ''id'') (Some pong) (receive (JObj fs) s)"
proof -
  have "(receive (JObj fs) s)\<lparr>microtasks := []\<rparr> = receive (JObj fs) s"
    using assms(4) by (cases s) (simp add: receive_def)
  with assms show ?thesis by (simp add: on_chunk_def ping_invoked drain_def settle_def)
qed

theorem ping_answered_witness:
  "(\<lambda>l::string. Inr ping_request :: exn + json) ''p'' = Inr (JObj (obj_fields ping_request))
   \<and> invoke_request (obj_fields ping_request) [(''name'', JStr ''ping'')]
   \<and> out (on_chunk (\<lambda>l. Inr ping_request) 0 [''p''] idle_server)
       = [JObj [(''jsonrpc'', JStr ''2.0''), (''id'', JNum 2), (''result'', JObj [(''result'', JStr ''pong'')])]]"
proof -
  have r: "invoke_request (obj_fields ping_request) [(''name'', JStr ''ping'')]"
    by (simp add: invoke_request_def ping_request_def)
  show ?thesis
    using ping_answered [of "\<lambda>l. Inr ping_request" "''p''" "obj_fields ping_request"
        "[(''name'', JStr ''ping'')]" idle_server 0] r
    by (simp add: ping_request_def idle_server_def server_simps response_def pong_def js_object_def)
qed

subsection \<open>Answers are written in completion order\<close>

lemma queue_frameD:
  "queue_frame f \<Longrightarrow> f (s\<lparr>microtasks := q @ microtasks s\<rparr>) = (f s)\<lparr>microtasks := q @ microtasks (f s)\<rparr>"
  by (simp add: queue_frame_def)

lemma queue_frame_send_error: "queue_frame (send_error rid c m)"
  by (simp add: queue_frame_def send_error_def Let_def)

lemma queue_frame_send_response: "queue_frame (send_response rid r)"
  by (simp add: queue_frame_def send_response_def Let_def)

lemma queue_frame_settle: "queue_frame (settle rid r)"
  by (simp add: queue_frame_def settle_def send_response_def send_error_def Let_def split: sum.split)

lemma queue_frame_processing_error: "queue_frame (processing_error e)"
  by (simp add: queue_frame_def processing_error_def send_error_def Let_def)

lemma queue_frame_receive: "queue_frame (receive req)"
  by (simp add: queue_frame_def receive_def)

lemma queue_frame_id: "queue_frame (\<lambda>s. s)"
  by (simp add: queue_frame_def)

lemma queue_frame_invoke: "queue_frame (invoke h p now rid)"
proof -
  have "invoke h p now rid (s\<lparr>microtasks := q @ microtasks s\<rparr>) =
          (invoke h p now rid s)\<lparr>microtasks := q @ microtasks (invoke h p now rid s)\<rparr>" for s q
  proof (cases h)
    case (Own hdl)
    obtain pr c where hs: "handler_start hdl p now (config s) = (pr, c)" by fastforce
    then show ?thesis by (cases pr) (simp_all add: Own invoke_def)
  next
    case (Inherited m)
    show ?thesis
    proof (cases "call_inherited m p")
      case (Inl e)
      then show ?thesis using queue_frameD [OF queue_frame_settle [of rid "Inl e"], where s = s and q = q]
        by (simp add: Inherited invoke_def)
    next
      case (Inr v)
      then show ?thesis by (simp add: Inherited invoke_def)
    qed
  qed
  then show ?thesis by (simp add: queue_frame_def)
qed

lemma invoke_action_queue_frame: "invoke_action name p now rid = Inr act \<Longrightarrow> queue_frame act"
  by (auto simp: invoke_action_def js_bind_def queue_frame_send_error queue_frame_invoke
      split: sum.splits if_splits option.splits)

lemma request_action_queue_frame: "request_action req now = Inr act \<Longrightarrow> queue_frame act"
  by (auto simp: request_action_def js_bind_def queue_frame_send_error queue_frame_send_response queue_frame_id
      dest: invoke_action_queue_frame split: sum.splits if_splits)

lemma queue_frame_on_line: "queue_frame (on_line parse now l)"
proof -
  have "on_line parse now l (s\<lparr>microtasks := q @ microtasks s\<rparr>) =
          (on_line parse now l s)\<lparr>microtasks := q @ microtasks (on_line parse now l s)\<rparr>" for s q
  proof (cases "parse l")
    case (Inl e)
    then show ?thesis using queue_frameD [OF queue_frame_processing_error [of e], where s = s and q = q] by (simp add: on_line_def)
  next
    case (Inr req)
    have rq: "receive req (s\<lparr>microtasks := q @ microtasks s\<rparr>) =
                (receive req s)\<lparr>microtasks := q @ microtasks (receive req s)\<rparr>"
      using queue_frameD [OF queue_frame_receive [of req]] .
    show ?thesis
    proof (cases "request_action req now")
      case (Inl e)
      then show ?thesis using Inr rq queue_frameD [OF queue_frame_processing_error [of e], where s = "receive req s" and q = q]
        by (simp add: on_line_def)
    next
      case (Inr act)
      then show ?thesis
        using \<open>parse l = Inr req\<close> rq queue_frameD [OF request_action_queue_frame [OF Inr], where s = "receive req s" and q = q]
        by (simp add: on_line_def)
    qed
  qed
  then show ?thesis by (simp add: queue_frame_def)
qed

lemma fold_queue_frame: "(\<And>x. queue_frame (f x)) \<Longrightarrow> queue_frame (fold f xs)"
proof (induction xs)
  case (Cons x xs)
  then show ?case by (simp add: queue_frame_def)
qed (simp add: queue_frame_def)

text \<open>
  C8: answers are written in completion order, not in request order.  A \<open>ping\<close>
  invocation's answer waits in the microtask queue: it is written after every line
  that the rest of its chunk writes synchronously, and before the answers of the
  invocations queued after it.
\<close>

theorem answers_out_of_order:
  assumes "parse l = Inr (JObj fs)" and "invoke_request fs ps"
    and "lookup_last ps ''name'' = Some (JStr ''ping'')" and "microtasks s = []"
  shows "out (on_chunk parse now (l # ls) s) =
           out (fold (on_line parse now) ls (receive (JObj fs) s)) @
           response (lookup_last fs ''id'') (Some pong) #
           map (\<lambda>(rid, r). settled_line rid r) (microtasks (fold (on_line parse now) ls (receive (JObj fs) s)))"
proof -
  let ?t = "receive (JObj fs) s"
  let ?x = "(lookup_last fs ''id'', Inr (Some pong) :: exn + jsval)"
  have mt: "microtasks ?t = []" using assms(4) by (simp add: receive_def)
  have "on_line parse now l s = ?t\<lparr>microtasks := [?x] @ microtasks ?t\<rparr>"
    using ping_invoked [where parse = parse and line = l, OF assms(1-3)] assms(4) mt by (simp add: receive_def)
  then have "fold (on_line parse now) (l # ls) s =
               (fold (on_line parse now) ls ?t)\<lparr>microtasks := [?x] @ microtasks (fold (on_line parse now) ls ?t)\<rparr>"
    using queue_frameD [OF fold_queue_frame [of "on_line parse now" ls, OF queue_frame_on_line], where s = ?t and q = "[?x]"]
    by simp
  then show ?thesis by (simp add: on_chunk_def drain_def run_microtasks_out settled_line_def server_simps)
qed

theorem answers_out_of_order_witness:
  "(\<lambda>l. if l = ''p'' then Inr ping_request else Inr bogus_request) ''p'' = Inr (JObj (obj_fields ping_request)) \<and>
   invoke_request (obj_fields ping_request) [(''name'', JStr ''ping'')] \<and>
   out (on_chunk (\<lambda>l. if l = ''p'' then Inr ping_request else Inr bogus_request) 0 [''p'', ''b''] idle_server)
     = [error_response (Some (JNum 3)) (-32601) ''Method not found'', response (Some (JNum 2)) (Some pong)]"
proof -
  let ?P = "\<lambda>l. if l = ''p'' then Inr ping_request else Inr bogus_request"
  have p: "?P ''p'' = Inr (JObj (obj_fields ping_request))" by (simp add: ping_request_def)
  have r: "invoke_request (obj_fields ping_request) [(''name'', JStr ''ping'')]"
    by (simp add: invoke_request_def ping_request_def)
  have "out (on_chunk ?P 0 [''p'', ''b''] idle_server)
     = [error_response (Some (JNum 3)) (-32601) ''Method not found'', response (Some (JNum 2)) (Some pong)]"
    using answers_out_of_order [where parse = ?P and l = "''p''" and s = idle_server and now = 0 and ls = "[''b'']", OF p r]
    by (simp add: idle_server_def dispatch_defs bogus_request_def ping_request_def server_simps receive_def)
  with p r show ?thesis by blast
qed

lemma drain_idle: "microtasks s = [] \<Longrightarrow> drain s = s"
  by (cases s) (simp add: drain_def)

text \<open>
  C16: when the SDK request of any tool fails, the callback waiting for it writes
  error -32000 with the request's id and the message
  \<open>Tool execution error: <Service> Error: <SDK message>\<close>, where the service is the
  one the handler's \<open>catch\<close> names (lines 551, 568, 600, 617, 634 and 681), and the
  request leaves the requests in flight.
\<close>

theorem sdk_failure_reported:
  assumes "k < length (inflight s)" and "inflight s ! k = (rid, Pending h params region req)"
    and "h \<noteq> HPing"
  shows "out (on_sdk_done k (Inl m) s) =
           out s @ [error_response rid (-32000) (''Tool execution error: '' @
             (case h of HEc2DescribeInstances \<Rightarrow> ''EC2'' | HS3ListBuckets \<Rightarrow> ''S3''
                | HS3ListObjects \<Rightarrow> ''S3'' | HLambdaListFunctions \<Rightarrow> ''Lambda''
                | HDynamoDbListTables \<Rightarrow> ''DynamoDB'' | HCloudWatchGetMetricStatistics \<Rightarrow> ''CloudWatch''
                | HPing \<Rightarrow> []) @ '' Error: '' @ m)]
         \<and> inflight (on_sdk_done k (Inl m) s) = drop_at k (inflight s)"
  using assms
  by (cases h) (simp_all add: on_sdk_done_def server_simps sdk_error_def ec2_describe_instances_done_def
      s3_list_buckets_done_def s3_list_objects_done_def lambda_list_functions_done_def
      dynamodb_list_tables_done_def cloudwatch_get_metric_statistics_done_def list_done_def)

theorem sdk_failure_reported_witness:
  "0 < length [(Some (JNum 9), Pending HLambdaListFunctions (JObj []) (JStr ''us-west-2'') LambdaListFunctions)] \<and>
   HLambdaListFunctions \<noteq> HPing \<and>
   out (on_sdk_done 0 (Inl ''Access Denied'')
          (idle_server\<lparr>inflight := [(Some (JNum 9), Pending HLambdaListFunctions (JObj []) (JStr ''us-west-2'') LambdaListFunctions)]\<rparr>))
     = [error_response (Some (JNum 9)) (-32000) ''Tool execution error: Lambda Error: Access Denied'']"
proof -
  let ?s = "idle_server\<lparr>inflight := [(Some (JNum 9), Pending HLambdaListFunctions (JObj []) (JStr ''us-west-2'') LambdaListFunctions)]\<rparr>"
  have "out (on_sdk_done 0 (Inl ''Access Denied'') ?s) =
          out ?s @ [error_response (Some (JNum 9)) (-32000) (''Tool execution error: '' @ ''Lambda'' @ '' Error: '' @ ''Access Denied'')]"
    using sdk_failure_reported [where s = ?s and k = 0 and m = "''Access Denied''"] by simp
  then show ?thesis by (simp add: idle_server_def)
qed

subsection \<open>Every line written is a JSON-RPC 2.0 message\<close>

text \<open>
  C24: every line the server writes, in every run, is an object whose
  \<open>jsonrpc\<close> member is \<open>"2.0"\<close>.
\<close>

theorem every_line_jsonrpc:
  "list_all (\<lambda>j. js_get (Some j) ''jsonrpc'' = Inr (Some (JStr ''2.0''))) (out (run parse startup es))"
proof -
  from run_answers [of startup parse es] obtain xs where
    "out (run parse startup es) = ready_notification # xs" and "list_all answer_line xs"
    by (auto simp: appends_answers_def)
  then show ?thesis by (simp add: ready_notification_def list_all_iff answer_line_jsonrpc)
qed

subsection \<open>\<open>ping\<close> has no side effect\<close>

text \<open>
  Invoking \<open>ping\<close> in any state writes the same answer, \<open>{result: "pong"}\<close>
  under the request's id, after the answers already owed, and changes neither the
  configuration nor the requests in flight.
\<close>

theorem ping_idempotent:
  assumes "parse l = Inr (JObj fs)" and "invoke_request fs ps"
    and "lookup_last ps ''name'' = Some (JStr ''ping'')"
  shows "out (on_chunk parse now [l] s) =
           out s @ map (\<lambda>(rid, r). settled_line rid r) (microtasks s) @ [response (lookup_last fs ''id'') (Some pong)]
         \<and> config (on_chunk parse now [l] s) = config s \<and> inflight (on_chunk parse now [l] s) = inflight s"
  using assms
  by (simp add: on_chunk_def ping_invoked drain_def run_microtasks_out run_microtasks_keeps
      settled_line_def receive_def)

theorem ping_idempotent_witness:
  "out (on_chunk (\<lambda>l. Inr ping_request) 0 [''p''] idle_server) = [response (Some (JNum 2)) (Some pong)]
   \<and> config (on_chunk (\<lambda>l. Inr ping_request) 0 [''p''] idle_server) = config idle_server
   \<and> inflight (on_chunk (\<lambda>l. Inr ping_request) 0 [''p''] idle_server) = []"
  using ping_idempotent [of "\<lambda>l. Inr ping_request" "''p''" "obj_fields ping_request" "[(''name'', JStr ''ping'')]" 0 idle_server]
  by (simp add: ping_request_def invoke_request_def idle_server_def)

subsection \<open>An invocation without id\<close>

text \<open>
  C23: a \<open>tools/invoke\<close> message without an id (a notification) still runs the
  handler: its region becomes the configured region, and when the SDK answers, a
  response without id is written.
\<close>

theorem invoke_without_id_runs_handler:
  assumes "parse l = Inr (JObj fs)" and "invoke_request fs ps" and "lookup_last fs ''id'' = None"
    and "lookup_last ps ''name'' = Some (JStr ''aws.s3.listBuckets'')"
    and "lookup_last ps ''parameters'' = Some (JObj [(''region'', JStr r)])" and "r \<noteq> []"
    and "microtasks s = []" and "inflight s = []"
  shows "config (run parse s [Chunk now [l], SdkDone 0 (Inr data)]) = \<lparr>cfg_region = Some (JStr r)\<rparr>
         \<and> out (run parse s [Chunk now [l], SdkDone 0 (Inr data)]) =
             out s @ [response None (Some (JObj [(''result'',
                        js_object [(''region'', Some (JStr r)), (''buckets'', lookup_last data ''Buckets'')])]))]"
proof -
  let ?tp = "JObj [(''region'', JStr r)]"
  have "on_line parse now l s =
          (receive (JObj fs) s)\<lparr>config := \<lparr>cfg_region = Some (JStr r)\<rparr>,
             inflight := [(None, Pending HS3ListBuckets ?tp (JStr r) S3ListBuckets)]\<rparr>"
    using assms
    by (simp add: dispatch_defs invoke_request_def lookup_handler_def tool_handlers_def invoke_def
        s3_list_buckets_def aws_call_def suspend_def receive_def handle_region_def js_and_get_def)
  then show ?thesis
    using assms
    by (simp add: on_chunk_def drain_idle on_sdk_done_def drop_at_def s3_list_buckets_done_def
        list_done_def answer_def server_simps receive_def)
qed

theorem invoke_without_id_runs_handler_witness:
  "config (run (\<lambda>l. Inr anonymous_buckets_request) idle_server [Chunk 0 [''x''], SdkDone 0 (Inr [(''Buckets'', JArr [])])])
     = \<lparr>cfg_region = Some (JStr ''eu-west-1'')\<rparr>
   \<and> out (run (\<lambda>l. Inr anonymous_buckets_request) idle_server [Chunk 0 [''x''], SdkDone 0 (Inr [(''Buckets'', JArr [])])])
     = [response None (Some (JObj [(''result'', JObj [(''region'', JStr ''eu-west-1''), (''buckets'', JArr [])])]))]"
  using invoke_without_id_runs_handler [of "\<lambda>l. Inr anonymous_buckets_request" "''x''"
      "obj_fields anonymous_buckets_request" "[(''name'', JStr ''aws.s3.listBuckets''),
         (''parameters'', JObj [(''region'', JStr ''eu-west-1'')])]" "''eu-west-1''" idle_server 0 "[(''Buckets'', JArr [])]"]
  by (simp add: anonymous_buckets_request_def invoke_request_def idle_server_def js_object_def)

subsection \<open>Every request is answered once its SDK requests complete\<close>

lemma run_append: "run parse s (xs @ ys) = run parse (run parse s xs) ys"
  by (induction xs arbitrary: s) simp_all

lemma answered_lines_completions: "answered_lines parse (es @ map (SdkDone k) rs) = answered_lines parse es"
proof (induction es rule: answered_lines.induct)
  case 1
  then show ?case by (induction rs) simp_all
qed simp_all

lemma completions_empty_inflight:
  "length rs = length (inflight s) \<Longrightarrow> inflight (run parse s (map (SdkDone 0) rs)) = []"
proof (induction rs arbitrary: s)
  case (Cons r rs)
  obtain rid p q where "inflight s = (rid, p) # q" using Cons.prems by (cases "inflight s") fastforce+
  with Cons.prems Cons.IH [of "on_sdk_done 0 r s"] show ?case
    by (simp add: on_sdk_done_def drop_at_def server_simps)
qed simp

lemmas buckets_run_simps = on_chunk_def on_line_def receive_def request_action_def buckets_request_def
  invoke_action_def lookup_handler_def invoke_def s3_list_buckets_def aws_call_def handle_region_def
  js_and_get_def suspend_def drain_def default_region_def tool_handlers_def

text \<open>
  C22: liveness.  After any sequence of events from start-up, once each SDK request
  still in flight completes (oldest first, with any outcome), nothing is waiting any
  more and the server has written one line per answered input line after the ready
  notification.
\<close>

theorem every_request_answered_eventually:
  assumes "length rs = length (inflight (run parse startup es))"
  shows "inflight (run parse startup (es @ map (SdkDone 0) rs)) = [] \<and>
         length (out (run parse startup (es @ map (SdkDone 0) rs))) = Suc (answered_lines parse es)"
proof -
  have none: "inflight (run parse startup (es @ map (SdkDone 0) rs)) = []"
    using completions_empty_inflight [OF assms] by (simp add: run_append)
  from run_answers [of startup parse "es @ map (SdkDone 0) rs"]
  have "pending_count (run parse startup (es @ map (SdkDone 0) rs)) = Suc (answered_lines parse es)"
    and "microtasks (run parse startup (es @ map (SdkDone 0) rs)) = []"
    by (simp_all add: startup_pending answered_lines_completions)
  with none show ?thesis by (simp add: pending_count_def)
qed

theorem every_request_answered_eventually_witness:
  "inflight (run (\<lambda>l. Inr buckets_request) startup ([Chunk 0 [[]]] @ map (SdkDone 0) [Inr []])) = [] \<and>
   length (out (run (\<lambda>l. Inr buckets_request) startup ([Chunk 0 [[]]] @ map (SdkDone 0) [Inr []]))) = 2"
proof -
  have h: "length [Inr [] :: sdk_outcome] = length (inflight (run (\<lambda>l. Inr buckets_request) startup [Chunk 0 [[]]]))"
    by (simp add: startup_def buckets_run_simps)
  have a: "answered_lines (\<lambda>l. Inr buckets_request) [Chunk 0 [[]]] = 1"
    by (simp add: answered_def silent_request_def buckets_request_def)
  show ?thesis using every_request_answered_eventually [OF h] a by simp
qed

end
