(* ===== verification/JsonRpcServer.thy ===== *)
theory JsonRpcServer
  imports Transport
begin

text \<open>
  The second server of the repository, \<open>mcp-server-jsonrpc.js\<close> (in
  \<open>src/unnamed/part_001\<close>, lines 47--165): a synchronous \<open>'line'\<close> callback that
  knows \<open>initialize\<close>, \<open>tools/list\<close> with the single tool \<open>ping\<close>, and the
  invocation of \<open>ping\<close>.  Its envelopes and its ready notification are those of the
  main server; its state is what it has written and logged.  The callback is not
  \<open>async\<close>, so every line is answered before the next is read.
\<close>

record jsonrpc_server =
  jr_out :: "json list"
  jr_log :: "log_entry list"

definition jr_send_response :: "jsval \<Rightarrow> jsval \<Rightarrow> jsonrpc_server \<Rightarrow> jsonrpc_server" where
  "jr_send_response rid r s =
     (let m = response rid r in s\<lparr>jr_log := jr_log s @ [LogSendingResponse m], jr_out := jr_out s @ [m]\<rparr>)"

definition jr_send_error :: "jsval \<Rightarrow> int \<Rightarrow> string \<Rightarrow> jsonrpc_server \<Rightarrow> jsonrpc_server" where
  "jr_send_error rid code msg s =
     (let m = error_response rid code msg in s\<lparr>jr_log := jr_log s @ [LogSendingError m], jr_out := jr_out s @ [m]\<rparr>)"

text \<open>Lines 64--74: the catalog, one tool.\<close>

definition jsonrpc_tools :: "tool list" where
  "jsonrpc_tools =
     [tool.make ''ping'' ''Responds with pong''
        (JObj [(''type'', JStr ''object''), (''properties'', JObj []), (''required'', JArr [])])]"

text \<open>Lines 104--117: the listing, with the same \<open>tools.map\<close> callback as the main server.\<close>

definition jsonrpc_tools_list_result :: "exn + json" where
  "jsonrpc_tools_list_result =
     (case js_map tool_entry jsonrpc_tools of Inl e \<Rightarrow> Inl e | Inr es \<Rightarrow> Inr (JObj [(''tools'', JArr es)]))"

text \<open>
  Lines 83--127.  \<open>request.params?.name\<close> is read only when the method is
  \<open>tools/invoke\<close> (the \<open>&&\<close> of line 121).
\<close>

definition jr_request_action :: "json \<Rightarrow> exn + (jsonrpc_server \<Rightarrow> jsonrpc_server)" where
  "jr_request_action request =
     js_bind (js_get (Some request) ''jsonrpc'') (\<lambda>v.
     js_bind (js_get (Some request) ''id'') (\<lambda>rid.
     if v \<noteq> Some (JStr ''2.0'') then Inr (jr_send_error rid (-32600) ''Invalid Request: Not JSON-RPC 2.0'')
     else js_bind (js_get (Some request) ''method'') (\<lambda>m.
       if m = Some (JStr ''initialize'') then
         js_bind (js_get (Some request) ''params'') (\<lambda>ps.
         js_bind (js_get ps ''protocolVersion'') (\<lambda>pv.
           Inr (jr_send_response rid (Some (initialize_result pv)))))
       else if m = Some (JStr ''tools/list'') then
         js_bind jsonrpc_tools_list_result (\<lambda>r. Inr (jr_send_response rid (Some r)))
       else if m = Some (JStr ''tools/invoke'') then
         js_bind (js_get (Some request) ''params'') (\<lambda>ps.
         js_bind (js_get_opt ps ''name'') (\<lambda>name.
           Inr (if name = Some (JStr ''ping'') then jr_send_response rid (Some pong)
                else jr_send_error rid (-32601) ''Method not found'')))
       else Inr (jr_send_error rid (-32601) ''Method not found''))))"

definition jr_processing_error :: "exn \<Rightarrow> jsonrpc_server \<Rightarrow> jsonrpc_server" where
  "jr_processing_error e s =
     jr_send_error (Some JNull) (-32700) ''Parse error''
       (s\<lparr>jr_log := jr_log s @ [LogProcessingError (exn_message e)]\<rparr>)"

definition jr_receive :: "json \<Rightarrow> jsonrpc_server \<Rightarrow> jsonrpc_server" where
  "jr_receive request s = s\<lparr>jr_log := jr_log s @ [LogReceived request]\<rparr>"

text \<open>Lines 77--132: the callback for one line.\<close>

definition jr_on_line :: "(string \<Rightarrow> exn + json) \<Rightarrow> string \<Rightarrow> jsonrpc_server \<Rightarrow> jsonrpc_server" where
  "jr_on_line parse line s =
     (case parse line of
        Inl e \<Rightarrow> jr_processing_error e s
      | Inr request \<Rightarrow>
          (case jr_request_action request of
             Inl e \<Rightarrow> jr_processing_error e (jr_receive request s)
           | Inr act \<Rightarrow> act (jr_receive request s)))"

text \<open>Lines 61 and 159--165: start-up, then the lines of the input in order.\<close>

definition jr_startup :: jsonrpc_server where
  "jr_startup = \<lparr>jr_out = [ready_notification], jr_log = [LogInfo ''Server starting...'', LogInfo ''Server ready'']\<rparr>"

definition jsonrpc_run :: "(string \<Rightarrow> exn + json) \<Rightarrow> string list \<Rightarrow> jsonrpc_server" where
  "jsonrpc_run parse lines = fold (jr_on_line parse) lines jr_startup"

subsection \<open>Effects\<close>

lemma jr_writers_effect [server_simps]:
  "jr_out (jr_send_response rid r s) = jr_out s @ [response rid r]"
  "jr_out (jr_send_error rid c msg s) = jr_out s @ [error_response rid c msg]"
  "jr_out (jr_receive req s) = jr_out s"
  "jr_out (jr_processing_error e s) = jr_out s @ [error_response (Some JNull) (-32700) ''Parse error'']"
  by (simp_all add: jr_send_response_def jr_send_error_def jr_receive_def jr_processing_error_def Let_def)

lemma jr_request_action_answers:
  "jr_request_action req = Inr act \<Longrightarrow> \<exists>x. answer_line x \<and> (\<forall>t. jr_out (act t) = jr_out t @ [x])"
  by (auto simp: jr_request_action_def js_bind_def server_simps split: sum.splits if_splits)

lemma jr_on_line_answers:
  "\<exists>x. answer_line x \<and> jr_out (jr_on_line parse l t) = jr_out t @ [x]"
  by (auto simp: jr_on_line_def server_simps dest: jr_request_action_answers split: sum.split)

lemma fold_jr_on_line_answers:
  "\<exists>xs. jr_out (fold (jr_on_line parse) ls t) = jr_out t @ xs \<and> length xs = length ls \<and> list_all answer_line xs"
proof (induction ls arbitrary: t)
  case (Cons l ls)
  obtain x where "answer_line x" and x: "jr_out (jr_on_line parse l t) = jr_out t @ [x]"
    using jr_on_line_answers by blast
  moreover obtain xs where "jr_out (fold (jr_on_line parse) ls (jr_on_line parse l t)) = jr_out (jr_on_line parse l t) @ xs"
    and "length xs = length ls" and "list_all answer_line xs"
    using Cons.IH by blast
  ultimately show ?case by (intro exI [of _ "x # xs"]) simp
qed simp

text \<open>
  C19: the ping-only server answers every input line, at once and in order: after
  the ready notification it has written one answer line per input line.
\<close>

theorem jsonrpc_answers_each_line:
  "\<exists>xs. jr_out (jsonrpc_run parse ls) = ready_notification # xs
        \<and> length xs = length ls \<and> list_all answer_line xs"
  using fold_jr_on_line_answers [of parse ls jr_startup]
  by (simp add: jsonrpc_run_def jr_startup_def)

end
