(* ===== verification/CatalogScript.thy ===== *)
theory CatalogScript
  imports Json
begin

text \<open>
  The catalog script at the end of \<open>src/unnamed/part_000\<close> (lines 110--126), the
  predecessor of the ping-only server: it prints one line, the catalog
  \<open>{tools: [...]}\<close>, and then keeps stdin open without reading it.  The descriptor's
  \<open>method\<close> is a function, which \<open>JSON.stringify\<close> omits from an object as it omits
  \<open>undefined\<close>; the model writes it as an undefined member.
\<close>

definition catalog_script_output :: json where
  "catalog_script_output =
     js_object [(''tools'', Some (JArr
       [js_object [(''name'', Some (JStr ''ping'')), (''description'', Some (JStr ''Responds with pong'')),
                   (''parameters'', Some (JObj [(''type'', JStr ''object''), (''properties'', JObj []),
                                               (''required'', JArr [])])),
                   (''method'', None)]]))]"

text \<open>Everything the script writes, whatever its input.\<close>

definition catalog_script_lines :: "json list" where
  "catalog_script_lines = [catalog_script_output]"

end
