(* ===== verification/LogFailure.thy ===== *)
theory LogFailure
  imports Transport
begin

text \<open>
  Writing the diagnostic log (\<open>log\<close>, lines 18--22 of \<open>src/mcp-server-aws.js\<close>)
  calls \<open>fs.appendFileSync\<close>, which throws when the file cannot be written.  The
  environment decides: \<open>None\<close> when the write succeeds, \<open>Some e\<close> when it throws
  \<open>e\<close>.  The model takes the log to be writable, or not, for the whole of a line's
  callback.  A step ends normally or abruptly, and in both cases the state it
  reached stays: what was written to stdout before a throw remains written.  A
  step's result is therefore the pair of an optional exception and the state, as
  abrupt completion is modelled in Bali.
\<close>

type_synonym completion = "exn option \<times> server"

text \<open>Run the rest of a callback after a step, unless the step threw.\<close>

definition io_then :: "completion \<Rightarrow> (server \<Rightarrow> completion) \<Rightarrow> completion" where
  "io_then c f = (case c of (None, s) \<Rightarrow> f s | (Some e, s) \<Rightarrow> (Some e, s))"

definition log_append :: "exn option \<Rightarrow> log_entry \<Rightarrow> server \<Rightarrow> completion" where
  "log_append fail m s = (case fail of None \<Rightarrow> (None, s\<lparr>log := log s @ [m]\<rparr>) | Some e \<Rightarrow> (Some e, s))"

text \<open>
  Lines 761--764: the \<open>catch\<close> block logs, then calls \<open>sendErrorResponse\<close>, which
  logs the message (line 788) before \<open>console.log\<close> writes it (line 789).
\<close>

definition processing_error_io :: "exn option \<Rightarrow> exn \<Rightarrow> server \<Rightarrow> completion" where
  "processing_error_io fail e s =
     io_then (log_append fail (LogProcessingError (exn_message e)) s) (\<lambda>s'.
       let m = error_response (Some JNull) (-32700) ''Parse error'' in
       io_then (log_append fail (LogSendingError m) s') (\<lambda>s''. (None, s''\<lparr>out := out s'' @ [m]\<rparr>)))"

text \<open>
  Lines 687--765 with a fallible log.  A result \<open>(Some e, s)\<close> is the rejection of
  the callback's promise, in state \<open>s\<close>.  Once the log of line 690 has succeeded,
  the log is writable for the rest of the line, so the body is
  \<open>request_action\<close>'s action.
\<close>

definition on_line_io :: "exn option \<Rightarrow> (string \<Rightarrow> exn + json) \<Rightarrow> int \<Rightarrow> string \<Rightarrow> server \<Rightarrow> completion" where
  "on_line_io fail parse now line s =
     (case parse line of
        Inl e \<Rightarrow> processing_error_io fail e s
      | Inr request \<Rightarrow>
          (case log_append fail (LogReceived request) s of
             (Some e, s') \<Rightarrow> processing_error_io fail e s'
           | (None, s') \<Rightarrow>
               (case request_action request now of
                  Inl e \<Rightarrow> processing_error_io fail e s'
                | Inr act \<Rightarrow> (None, act s'))))"

text \<open>
  Lines 24 and 792--799: the start-up logs are written at module level, outside any
  \<open>try\<close>, before the ready notification.
\<close>

definition startup_io :: "exn option \<Rightarrow> completion" where
  "startup_io fail =
     io_then (log_append fail (LogInfo ''[aws] [info] Initializing server...'')
                \<lparr>config = \<lparr>cfg_region = Some default_region\<rparr>, out = [], log = [], microtasks = [], inflight = []\<rparr>) (\<lambda>s.
     io_then (log_append fail (LogInfo ''[aws] [info] Server started and connected successfully'') s) (\<lambda>s'.
       (None, s'\<lparr>out := out s' @ [ready_notification]\<rparr>)))"

lemma io_then_normal [simp]: "io_then (None, s) f = f s"
  by (simp add: io_then_def)

lemma io_then_abrupt [simp]: "io_then (Some e, s) f = (Some e, s)"
  by (simp add: io_then_def)

lemma log_append_writable [simp]: "log_append None m s = (None, s\<lparr>log := log s @ [m]\<rparr>)"
  by (simp add: log_append_def)

lemma log_append_unwritable [simp]: "log_append (Some e) m s = (Some e, s)"
  by (simp add: log_append_def)

lemma processing_error_io_writable: "processing_error_io None e s = (None, processing_error e s)"
  by (simp add: processing_error_io_def processing_error_def send_error_def Let_def)

text \<open>
  With a writable log, the fallible callback and start-up are those of the main
  model, which is therefore the case of a writable log.
\<close>

lemma log_writable_refines:
  "on_line_io None parse now line s = (None, on_line parse now line s) \<and> startup_io None = (None, startup)"
  by (simp add: on_line_io_def on_line_def receive_def processing_error_io_writable
      startup_io_def startup_def split: sum.split)

text \<open>
  C29: when the log cannot be written, the server neither starts nor answers.
  Start-up throws before the ready notification is written.  Every line's
  callback, parsed or not, ends in a rejected promise and leaves the state exactly
  as it was: nothing written to stdout, no handler started, the region unchanged.
  This holds because every write to stdout is preceded by a log write
  (lines 690, 762, 774 and 788).
\<close>

theorem log_failure_silences:
  "on_line_io (Some e) parse now line s = (Some e, s) \<and>
   fst (startup_io (Some e)) = Some e \<and> out (snd (startup_io (Some e))) = []"
  by (simp add: on_line_io_def processing_error_io_def startup_io_def split: sum.split)

end
