(* ===== verification/Codec.thy ===== *)
theory Codec
  imports Json "HOL-Library.Code_Target_Nat"
begin

text \<open>
  The message codec: \<open>JSON.stringify\<close>, which prints every line the servers write
  (\<open>console.log(JSON.stringify(...))\<close>, lines 775, 789 and 795 of
  \<open>src/mcp-server-aws.js\<close>), and \<open>JSON.parse\<close>, which reads every input line
  (line 689).  Both are Node's; they are modelled on the value model of \<open>Json\<close>.
\<close>

subsection \<open>Printing\<close>

definition hex_char :: "nat \<Rightarrow> char" where
  "hex_char d = (if d < 10 then char_of (48 + d) else char_of (87 + d))"

text \<open>How \<open>JSON.stringify\<close> writes one character of a string.\<close>

definition escape_char :: "char \<Rightarrow> string" where
  "escape_char c =
     (if c = CHR 0x22 then [CHR 0x5C, CHR 0x22]
      else if c = CHR 0x5C then [CHR 0x5C, CHR 0x5C]
      else if c = CHR 0x08 then [CHR 0x5C, CHR ''b'']
      else if c = CHR 0x0C then [CHR 0x5C, CHR ''f'']
      else if c = CHR 0x0A then [CHR 0x5C, CHR ''n'']
      else if c = CHR 0x0D then [CHR 0x5C, CHR ''r'']
      else if c = CHR 0x09 then [CHR 0x5C, CHR ''t'']
      else if of_char c < (32::nat) then
        [CHR 0x5C, CHR ''u'', CHR ''0'', CHR ''0'', hex_char (of_char c div 16), hex_char (of_char c mod 16)]
      else [c])"

definition quote_string :: "string \<Rightarrow> string" where
  "quote_string s = CHR 0x22 # concat (map escape_char s) @ [CHR 0x22]"

text \<open>The members of an array or object, separated by commas.\<close>

fun commas :: "string list \<Rightarrow> string" where
  "commas [] = []"
| "commas [x] = x"
| "commas (x # xs) = x @ CHR '','' # commas xs"

fun json_text :: "json \<Rightarrow> string" where
  "json_text JNull = ''null''"
| "json_text (JBool b) = (if b then ''true'' else ''false'')"
| "json_text (JNum i) = int_decimal i"
| "json_text (JStr s) = quote_string s"
| "json_text (JArr xs) = CHR ''['' # commas (map json_text xs) @ '']''"
| "json_text (JObj fs) =
     CHR ''{'' # commas (map (\<lambda>(k, v). quote_string k @ CHR '':'' # json_text v) fs) @ ''}''"


subsection \<open>Parsing\<close>

text \<open>
  The outcome of parsing: a value and the rest of the input; a \<open>SyntaxError\<close>
  (\<open>Malformed\<close>); text that \<open>JSON.parse\<close> accepts but whose value the model does
  not represent (\<open>Unsupported\<close>: a number with a fraction or an exponent, an
  integer beyond \<open>2^53\<close>, which a double does not hold exactly, or a \<open>\u\<close> escape
  above \<open>0xFF\<close>); or the fuel ran out (\<open>OutOfFuel\<close>, which the fuel given by
  \<open>json_parse\<close> never does).
\<close>

datatype 'a parsed = Parsed 'a | Malformed | Unsupported | OutOfFuel

definition pbind :: "'a parsed \<Rightarrow> ('a \<Rightarrow> 'b parsed) \<Rightarrow> 'b parsed" where
  "pbind r f = (case r of Parsed x \<Rightarrow> f x | Malformed \<Rightarrow> Malformed | Unsupported \<Rightarrow> Unsupported
                         | OutOfFuel \<Rightarrow> OutOfFuel)"

definition json_ws :: "char \<Rightarrow> bool" where
  "json_ws c \<longleftrightarrow> c = CHR '' '' \<or> c = CHR 0x09 \<or> c = CHR 0x0A \<or> c = CHR 0x0D"

definition skip_ws :: "string \<Rightarrow> string" where
  "skip_ws s = dropWhile json_ws s"

definition json_digit :: "char \<Rightarrow> bool" where
  "json_digit c \<longleftrightarrow> (48::nat) \<le> of_char c \<and> of_char c \<le> (57::nat)"

text \<open>The character a one-letter escape stands for.\<close>

definition unescape :: "char \<Rightarrow> char option" where
  "unescape e =
     (if e = CHR 0x22 \<or> e = CHR 0x5C \<or> e = CHR ''/'' then Some e
      else if e = CHR ''b'' then Some (CHR 0x08) else if e = CHR ''f'' then Some (CHR 0x0C)
      else if e = CHR ''n'' then Some (CHR 0x0A) else if e = CHR ''r'' then Some (CHR 0x0D)
      else if e = CHR ''t'' then Some (CHR 0x09) else None)"

definition pcons :: "char \<Rightarrow> (string \<times> string) parsed \<Rightarrow> (string \<times> string) parsed" where
  "pcons c r = pbind r (\<lambda>(t, rest). Parsed (c # t, rest))"

text \<open>The code unit of a \<open>\uXXXX\<close> escape.\<close>

definition hex4 :: "char \<Rightarrow> char \<Rightarrow> char \<Rightarrow> char \<Rightarrow> nat option" where
  "hex4 a b c d =
     (case (digit_value 16 a, digit_value 16 b, digit_value 16 c, digit_value 16 d) of
        (Some x1, Some x2, Some x3, Some x4) \<Rightarrow> Some (((x1 * 16 + x2) * 16 + x3) * 16 + x4)
      | _ \<Rightarrow> None)"

text \<open>The body of a string literal, after its opening quote.\<close>

fun p_string :: "string \<Rightarrow> (string \<times> string) parsed" where
  "p_string [] = Malformed"
| "p_string (c # r) =
     (if c = CHR 0x22 then Parsed ([], r)
      else if c = CHR 0x5C then
        (case r of
           [] \<Rightarrow> Malformed
         | e # r' \<Rightarrow>
             (if e = CHR ''u'' then
                (case r' of
                   a # b # c' # d # r'' \<Rightarrow>
                     (case hex4 a b c' d of
                        Some u \<Rightarrow> if u < 256 then pcons (char_of u) (p_string r'') else Unsupported
                      | None \<Rightarrow> Malformed)
                 | _ \<Rightarrow> Malformed)
              else (case unescape e of Some e' \<Rightarrow> pcons e' (p_string r') | None \<Rightarrow> Malformed)))
      else if of_char c < (32::nat) then Malformed
      else pcons c (p_string r))"

text \<open>
  A number: an optional minus sign and an integer part without leading zeros.  A
  fraction or an exponent is outside the model.
\<close>

definition p_digits :: "bool \<Rightarrow> string \<Rightarrow> (json \<times> string) parsed" where
  "p_digits neg s =
     (let ds = takeWhile json_digit s; rest = dropWhile json_digit s;
          n = digits_value 10 (map (\<lambda>c. of_char c - 48) ds) in
      if ds = [] \<or> (hd ds = CHR ''0'' \<and> tl ds \<noteq> []) then Malformed
      else if rest \<noteq> [] \<and> (hd rest = CHR ''.'' \<or> hd rest = CHR ''e'' \<or> hd rest = CHR ''E'') then Unsupported
      else if 9007199254740992 < n then Unsupported
      else Parsed (JNum (if neg then - int n else int n), rest))"

definition p_number :: "string \<Rightarrow> (json \<times> string) parsed" where
  "p_number s = (case s of c # r \<Rightarrow> if c = CHR ''-'' then p_digits True r else p_digits False s | [] \<Rightarrow> Malformed)"

text \<open>
  \<open>JSON.parse\<close> creates an object's properties in order; a repeated key keeps its
  first position and takes the last value.
\<close>

definition obj_put :: "string \<Rightarrow> json \<Rightarrow> (string \<times> json) list \<Rightarrow> (string \<times> json) list" where
  "obj_put k v fs =
     (if k \<in> set (map fst fs) then map (\<lambda>(k', v'). if k' = k then (k', v) else (k', v')) fs else fs @ [(k, v)])"

text \<open>A value that is not an array or an object: a string, a number or a literal.\<close>

definition p_scalar :: "string \<Rightarrow> (json \<times> string) parsed" where
  "p_scalar s =
     (case s of
        [] \<Rightarrow> Malformed
      | c # r \<Rightarrow>
          if c = CHR 0x22 then pbind (p_string r) (\<lambda>(t, r'). Parsed (JStr t, r'))
          else if c = CHR ''-'' \<or> json_digit c then p_number s
          else if take 4 s = ''true'' then Parsed (JBool True, drop 4 s)
          else if take 5 s = ''false'' then Parsed (JBool False, drop 5 s)
          else if take 4 s = ''null'' then Parsed (JNull, drop 4 s)
          else Malformed)"

text \<open>
  A value (its text starting at the first character of \<open>s\<close>), the elements of an
  array after its first element begins, and the members of an object after its
  first member begins.  Every call spends one unit of fuel.
\<close>

fun p_value :: "nat \<Rightarrow> string \<Rightarrow> (json \<times> string) parsed"
and p_items :: "nat \<Rightarrow> json list \<Rightarrow> string \<Rightarrow> (json \<times> string) parsed"
and p_members :: "nat \<Rightarrow> (string \<times> json) list \<Rightarrow> string \<Rightarrow> (json \<times> string) parsed" where
  "p_value 0 s = OutOfFuel"
| "p_value (Suc n) s =
     (case s of
        [] \<Rightarrow> Malformed
      | c # r \<Rightarrow>
          if c = CHR ''['' then
            (case skip_ws r of
               [] \<Rightarrow> Malformed
             | d # r' \<Rightarrow> if d = CHR '']'' then Parsed (JArr [], r') else p_items n [] (d # r'))
          else if c = CHR ''{'' then
            (case skip_ws r of
               [] \<Rightarrow> Malformed
             | d # r' \<Rightarrow> if d = CHR ''}'' then Parsed (JObj [], r') else p_members n [] (d # r'))
          else p_scalar s)"
| "p_items 0 acc s = OutOfFuel"
| "p_items (Suc n) acc s =
     pbind (p_value n s) (\<lambda>(v, r).
       case skip_ws r of
         [] \<Rightarrow> Malformed
       | d # r' \<Rightarrow>
           if d = CHR '','' then p_items n (acc @ [v]) (skip_ws r')
           else if d = CHR '']'' then Parsed (JArr (acc @ [v]), r') else Malformed)"
| "p_members 0 acc s = OutOfFuel"
| "p_members (Suc n) acc s =
     (case s of
        [] \<Rightarrow> Malformed
      | c # r \<Rightarrow>
          if c \<noteq> CHR 0x22 then Malformed
          else pbind (p_string r) (\<lambda>(k, r1).
            case skip_ws r1 of
              [] \<Rightarrow> Malformed
            | d # r2 \<Rightarrow>
                if d \<noteq> CHR '':'' then Malformed
                else pbind (p_value n (skip_ws r2)) (\<lambda>(v, r3).
                  case skip_ws r3 of
                    [] \<Rightarrow> Malformed
                  | e # r4 \<Rightarrow>
                      if e = CHR '','' then p_members n (obj_put k v acc) (skip_ws r4)
                      else if e = CHR ''}'' then Parsed (JObj (obj_put k v acc), r4) else Malformed)))"

text \<open>
  \<open>JSON.parse(line)\<close>: a value surrounded by white space, with fuel for twice the
  length of the line.
\<close>

definition json_parse :: "string \<Rightarrow> json parsed" where
  "json_parse s =
     pbind (p_value (Suc (2 * length s)) (skip_ws s)) (\<lambda>(j, r). if skip_ws r = [] then Parsed j else Malformed)"


subsection \<open>Well-formed values\<close>

text \<open>
  A value \<open>JSON.parse\<close> returns unchanged from its printed text: object keys are
  distinct, and every number is an integer that a double holds exactly.
\<close>

fun wf_json :: "json \<Rightarrow> bool" where
  "wf_json (JNum i) = (\<bar>i\<bar> \<le> 9007199254740992)"
| "wf_json (JArr xs) = list_all wf_json xs"
| "wf_json (JObj fs) = (distinct (map fst fs) \<and> list_all (\<lambda>(k, v). wf_json v) fs)"
| "wf_json _ = True"

text \<open>What may follow a value in printed text: nothing, a comma, or a closing bracket.\<close>

definition delim :: "string \<Rightarrow> bool" where
  "delim r \<longleftrightarrow> r = [] \<or> hd r = CHR '','' \<or> hd r = CHR '']'' \<or> hd r = CHR ''}''"

subsection \<open>Facts about printing and parsing\<close>

lemma pbind_simps [simp]:
  "pbind (Parsed x) f = f x" "pbind Malformed f = Malformed" "pbind Unsupported f = Unsupported"
  "pbind OutOfFuel f = OutOfFuel"
  by (simp_all add: pbind_def)

lemma pbind_eq_Parsed: "pbind r f = Parsed y \<longleftrightarrow> (\<exists>x. r = Parsed x \<and> f x = Parsed y)"
  by (cases r) simp_all

lemma pbind_not_fuel: "pbind r f \<noteq> OutOfFuel \<Longrightarrow> r \<noteq> OutOfFuel"
  by auto

lemma hex_char_value: "d < 16 \<Longrightarrow> digit_value 16 (hex_char d) = Some d"
  by (auto simp: hex_char_def digit_value_def Let_def of_char_of)

lemma of_char_hex_char: "d < 16 \<Longrightarrow> (of_char (hex_char d) :: nat) = (if d < 10 then 48 + d else 87 + d)"
  by (simp add: hex_char_def of_char_of)

lemma char_eq_of_char: "(c = d) \<longleftrightarrow> (of_char c :: nat) = of_char d"
  by (metis char_of_char)

lemma hex_char_not_newline: "d < 16 \<Longrightarrow> hex_char d \<noteq> CHR 0x0A"
  by (simp add: char_eq_of_char of_char_hex_char)

lemma escape_char_no_newline: "CHR 0x0A \<notin> set (escape_char c)"
proof -
  have "of_char c < (32::nat) \<Longrightarrow> (of_char c :: nat) div 16 < 16" by simp
  moreover have "(of_char c :: nat) mod 16 < 16" by simp
  ultimately show ?thesis
    using hex_char_not_newline hex_char_not_newline [THEN not_sym] by (auto simp: escape_char_def)
qed

lemma p_string_unicode:
  assumes "of_char c < (32::nat)"
  shows "p_string (CHR 0x5C # CHR ''u'' # CHR ''0'' # CHR ''0'' # hex_char (of_char c div 16)
                   # hex_char (of_char c mod 16) # r) = pcons c (p_string r)"
proof -
  have "digit_value 16 (CHR ''0'') = Some 0" by (simp add: digit_value_def)
  moreover have "(of_char c :: nat) div 16 < 16" using assms by simp
  moreover have "(of_char c :: nat) div 16 * 16 + of_char c mod 16 = of_char c" by simp
  ultimately show ?thesis using assms by (simp add: hex4_def hex_char_value)
qed

lemma p_string_escape_char: "p_string (escape_char c @ r) = pcons c (p_string r)"
  by (auto simp: escape_char_def unescape_def p_string_unicode [simplified])

lemma p_string_quoted: "p_string (concat (map escape_char s) @ CHR 0x22 # rest) = Parsed (s, rest)"
  by (induction s) (simp_all add: p_string_escape_char pcons_def)


lemma skip_ws_Cons [simp]: "skip_ws (c # r) = (if json_ws c then skip_ws r else c # r)"
  by (simp add: skip_ws_def)

lemma skip_ws_Nil [simp]: "skip_ws [] = []"
  by (simp add: skip_ws_def)

lemma nat_decimal_json_digits: "c \<in> set (nat_decimal n) \<Longrightarrow> json_digit c"
  using nat_decimal_digit_chars [of c n] by (auto simp: json_digit_def of_char_digit)

lemma delim_not_digit: "delim r \<Longrightarrow> r \<noteq> [] \<Longrightarrow> \<not> json_digit (hd r) \<and> hd r \<noteq> CHR ''.'' \<and> hd r \<noteq> CHR ''e'' \<and> hd r \<noteq> CHR ''E''"
  by (auto simp: delim_def json_digit_def)

lemma nat_decimal_split:
  assumes "delim r"
  shows "takeWhile json_digit (nat_decimal n @ r) = nat_decimal n \<and> dropWhile json_digit (nat_decimal n @ r) = r"
proof -
  have "takeWhile json_digit r = [] \<and> dropWhile json_digit r = r"
    using delim_not_digit [OF assms] by (cases r) auto
  then show ?thesis
    by (simp add: takeWhile_append2 dropWhile_append2 nat_decimal_json_digits)
qed

lemma nat_decimal_value: "digits_value 10 (map (\<lambda>c. of_char c - 48) (nat_decimal n)) = n"
  using digits_value_decimal [of n] by (simp add: decimal_digits_def)

lemma nat_decimal_no_leading_zero: "\<not> (hd (nat_decimal n) = CHR ''0'' \<and> tl (nat_decimal n) \<noteq> [])"
  using nat_decimal_head [of n] nat_decimal_not_empty [of n] by (cases "nat_decimal n") auto

lemma p_digits_text:
  assumes "n \<le> 9007199254740992" and "delim r"
  shows "p_digits neg (nat_decimal n @ r) = Parsed (JNum (if neg then - int n else int n), r)"
proof -
  have "r \<noteq> [] \<Longrightarrow> hd r \<noteq> CHR ''.'' \<and> hd r \<noteq> CHR ''e'' \<and> hd r \<noteq> CHR ''E''"
    using delim_not_digit [OF assms(2)] by simp
  then show ?thesis
    using assms(1) nat_decimal_split [OF assms(2), of n] nat_decimal_value [of n]
      nat_decimal_no_leading_zero [of n] nat_decimal_not_empty [of n]
    by (simp add: p_digits_def Let_def) blast
qed

lemma nat_decimal_hd_not_minus: "\<exists>c cs. nat_decimal n = c # cs \<and> c \<noteq> CHR ''-''"
proof -
  obtain c cs where nd: "nat_decimal n = c # cs" using nat_decimal_not_empty by (cases "nat_decimal n") auto
  moreover have "json_digit c" using nat_decimal_json_digits [of c n] nd by simp
  ultimately show ?thesis by (auto simp: json_digit_def)
qed

lemma p_number_text:
  assumes "\<bar>i\<bar> \<le> 9007199254740992" and "delim r"
  shows "p_number (int_decimal i @ r) = Parsed (JNum i, r)"
proof -
  obtain c cs where nd: "nat_decimal (nat \<bar>i\<bar>) = c # cs" and "c \<noteq> CHR ''-''"
    using nat_decimal_hd_not_minus by blast
  moreover have "nat \<bar>i\<bar> \<le> 9007199254740992" using assms(1) by simp
  ultimately show ?thesis
    using p_digits_text [OF _ assms(2), of "nat \<bar>i\<bar>"]
    by (cases "i < 0") (auto simp: p_number_def int_decimal_def)
qed

lemma json_digit_special: "json_digit c \<Longrightarrow> \<not> json_ws c \<and> c \<noteq> CHR '']'' \<and> c \<noteq> CHR ''}''"
  by (auto simp: json_digit_def json_ws_def)

lemma json_text_start: "\<exists>c cs. json_text j = c # cs \<and> \<not> json_ws c \<and> c \<noteq> CHR '']'' \<and> c \<noteq> CHR ''}''"
proof (cases j)
  case (JNum i)
  obtain c cs where "nat_decimal (nat \<bar>i\<bar>) = c # cs" using nat_decimal_not_empty
    by (cases "nat_decimal (nat \<bar>i\<bar>)") auto
  moreover have "json_digit c" using calculation nat_decimal_json_digits [of c "nat \<bar>i\<bar>"] by simp
  ultimately show ?thesis using JNum json_digit_special [of c]
    by (cases "i < 0") (auto simp: int_decimal_def json_ws_def)
qed (auto simp: json_ws_def quote_string_def)

lemma skip_ws_text [simp]: "skip_ws (json_text j @ r) = json_text j @ r"
  using json_text_start [of j] by auto

lemma commas_Cons: "xs \<noteq> [] \<Longrightarrow> commas (x # xs) = x @ CHR '','' # commas xs"
  by (cases xs) simp_all

lemma json_ws_punct [simp]:
  "\<not> json_ws CHR '']''" "\<not> json_ws CHR ''}''" "\<not> json_ws CHR '',''" "\<not> json_ws CHR '':''" "\<not> json_ws CHR 0x22"
  by (simp_all add: json_ws_def)

lemma commas_Cons_if: "commas (x # xs) = x @ (if xs = [] then [] else CHR '','' # commas xs)"
  by (cases xs) simp_all

lemma skip_ws_commas_text [simp]:
  "skip_ws (commas (json_text x # map json_text xs) @ r) = commas (json_text x # map json_text xs) @ r"
  by (cases xs) (simp_all add: commas_Cons)

lemma skip_ws_commas_nonempty [simp]:
  "ys \<noteq> [] \<Longrightarrow> skip_ws (commas (map json_text ys) @ r) = commas (map json_text ys) @ r"
  by (cases ys) simp_all

lemma delim_simps [simp]: "delim []" "delim (CHR '','' # r)" "delim (CHR '']'' # r)" "delim (CHR ''}'' # r)"
  by (simp_all add: delim_def)

lemma p_items_text:
  assumes IH: "\<And>x n r. x \<in> set ys \<Longrightarrow> delim r \<Longrightarrow> p_value n (json_text x @ r) \<noteq> OutOfFuel \<Longrightarrow>
                 p_value n (json_text x @ r) = Parsed (x, r)"
    and "ys \<noteq> []"
    and "p_items m acc (commas (map json_text ys) @ CHR '']'' # rest) \<noteq> OutOfFuel"
  shows "p_items m acc (commas (map json_text ys) @ CHR '']'' # rest) = Parsed (JArr (acc @ ys), rest)"
  using assms
proof (induction ys arbitrary: m acc)
  case Nil
  then show ?case by simp
next
  case (Cons y ys)
  obtain m' where m: "m = Suc m'" using Cons.prems(3) by (cases m) auto
  show ?case
  proof (cases "ys = []")
    case True
    have "p_value m' (json_text y @ CHR '']'' # rest) \<noteq> OutOfFuel"
      using Cons.prems(3) True m by (auto simp: pbind_def)
    then have "p_value m' (json_text y @ CHR '']'' # rest) = Parsed (y, CHR '']'' # rest)"
      using Cons.prems(1) by simp
    then show ?thesis using True m by simp
  next
    case False
    let ?t = "commas (map json_text ys) @ CHR '']'' # rest"
    have eq: "commas (map json_text (y # ys)) @ CHR '']'' # rest = json_text y @ CHR '','' # ?t"
      using False by (simp add: commas_Cons)
    have "p_value m' (json_text y @ CHR '','' # ?t) \<noteq> OutOfFuel"
      using Cons.prems(3) m eq by (auto simp: pbind_def)
    then have v: "p_value m' (json_text y @ CHR '','' # ?t) = Parsed (y, CHR '','' # ?t)"
      using Cons.prems(1) by simp
    have "p_items m' (acc @ [y]) ?t \<noteq> OutOfFuel"
      using Cons.prems(3) m eq v False by simp
    then have "p_items m' (acc @ [y]) ?t = Parsed (JArr (acc @ [y] @ ys), rest)"
      using Cons.IH [of m' "acc @ [y]"] Cons.prems(1) False by simp
    then show ?thesis using m eq v False by simp
  qed
qed


lemma obj_put_new: "k \<notin> set (map fst fs) \<Longrightarrow> obj_put k v fs = fs @ [(k, v)]"
  by (simp add: obj_put_def)

lemma quote_string_append: "quote_string k @ r = CHR 0x22 # concat (map escape_char k) @ CHR 0x22 # r"
  by (simp add: quote_string_def)

lemma p_member_text:
  assumes "p_value m (json_text v @ r) = Parsed (v, r)" and "r = e # r'" and "\<not> json_ws e"
  shows "p_members (Suc m) acc (quote_string k @ CHR '':'' # json_text v @ r) =
           (if e = CHR '','' then p_members m (obj_put k v acc) (skip_ws r')
            else if e = CHR ''}'' then Parsed (JObj (obj_put k v acc), r') else Malformed)"
  using assms by (simp add: quote_string_append p_string_quoted)

lemma p_member_fuel:
  assumes "p_members (Suc m) acc (quote_string k @ CHR '':'' # json_text v @ r) \<noteq> OutOfFuel"
  shows "p_value m (json_text v @ r) \<noteq> OutOfFuel"
  using assms by (auto simp: quote_string_append p_string_quoted pbind_def split: parsed.splits)

lemma p_members_text:
  assumes IH: "\<And>k v n r. (k, v) \<in> set fs \<Longrightarrow> delim r \<Longrightarrow> p_value n (json_text v @ r) \<noteq> OutOfFuel \<Longrightarrow>
                 p_value n (json_text v @ r) = Parsed (v, r)"
    and "fs \<noteq> []" and "distinct (map fst acc @ map fst fs)"
    and "p_members m acc (commas (map (\<lambda>(k, v). quote_string k @ CHR '':'' # json_text v) fs) @ CHR ''}'' # rest)
           \<noteq> OutOfFuel"
  shows "p_members m acc (commas (map (\<lambda>(k, v). quote_string k @ CHR '':'' # json_text v) fs) @ CHR ''}'' # rest)
           = Parsed (JObj (acc @ fs), rest)"
  using assms
proof (induction fs arbitrary: m acc)
  case Nil
  then show ?case by simp
next
  case (Cons f fs)
  obtain k v where f: "f = (k, v)" by (cases f)
  obtain m' where m: "m = Suc m'" using Cons.prems(4) by (cases m) auto
  have new: "k \<notin> set (map fst acc)" using Cons.prems(3) f by simp
  show ?case
  proof (cases "fs = []")
    case True
    have "p_value m' (json_text v @ CHR ''}'' # rest) \<noteq> OutOfFuel"
      using p_member_fuel Cons.prems(4) True m f by simp
    then have "p_value m' (json_text v @ CHR ''}'' # rest) = Parsed (v, CHR ''}'' # rest)"
      using Cons.prems(1) [of k v "CHR ''}'' # rest" m'] f by simp
    then show ?thesis using True m f new p_member_text by (simp add: obj_put_new)
  next
    case False
    let ?t = "commas (map (\<lambda>(k, v). quote_string k @ CHR '':'' # json_text v) fs) @ CHR ''}'' # rest"
    have eq: "commas (map (\<lambda>(k, v). quote_string k @ CHR '':'' # json_text v) (f # fs)) @ CHR ''}'' # rest
                = quote_string k @ CHR '':'' # json_text v @ CHR '','' # ?t"
      using False f by (simp add: commas_Cons)
    have "p_value m' (json_text v @ CHR '','' # ?t) \<noteq> OutOfFuel"
      using p_member_fuel Cons.prems(4) m eq by simp
    then have v: "p_value m' (json_text v @ CHR '','' # ?t) = Parsed (v, CHR '','' # ?t)"
      using Cons.prems(1) [of k v "CHR '','' # ?t" m'] f by simp
    have sk: "skip_ws ?t = ?t"
      using False by (cases fs) (auto simp: quote_string_def commas_Cons_if)
    have fuel: "p_members m' (acc @ [(k, v)]) ?t \<noteq> OutOfFuel"
      using Cons.prems(4) m eq p_member_text [OF v] sk new by (simp add: obj_put_new)
    have IH': "\<And>k' v' r n. (k', v') \<in> set fs \<Longrightarrow> delim r \<Longrightarrow> p_value n (json_text v' @ r) \<noteq> OutOfFuel \<Longrightarrow>
                 p_value n (json_text v' @ r) = Parsed (v', r)"
      using Cons.prems(1) by (metis list.set_intros(2))
    have dist: "distinct (map fst (acc @ [(k, v)]) @ map fst fs)" using Cons.prems(3) f by auto
    have "p_members m' (acc @ [(k, v)]) ?t = Parsed (JObj ((acc @ [(k, v)]) @ fs), rest)"
      by (rule Cons.IH [OF IH' False dist fuel])
    then show ?thesis using m eq p_member_text [OF v] sk new f by (simp add: obj_put_new)
  qed
qed


lemma int_decimal_start: "\<exists>c cs. int_decimal i = c # cs \<and> (c = CHR ''-'' \<or> json_digit c)"
proof -
  obtain c cs where "nat_decimal (nat \<bar>i\<bar>) = c # cs" using nat_decimal_not_empty
    by (cases "nat_decimal (nat \<bar>i\<bar>)") auto
  moreover have "json_digit c" using calculation nat_decimal_json_digits [of c "nat \<bar>i\<bar>"] by simp
  ultimately show ?thesis by (cases "i < 0") (auto simp: int_decimal_def)
qed

lemma json_digit_not_open: "json_digit c \<Longrightarrow> c \<noteq> CHR ''['' \<and> c \<noteq> CHR ''{'' \<and> c \<noteq> CHR 0x22"
  by (auto simp: json_digit_def)

lemma p_value_text:
  "wf_json j \<Longrightarrow> delim rest \<Longrightarrow> p_value n (json_text j @ rest) \<noteq> OutOfFuel \<Longrightarrow>
   p_value n (json_text j @ rest) = Parsed (j, rest)"
proof (induction j arbitrary: n rest rule: json_text.induct)
  case 1
  then show ?case by (cases n) (simp_all add: p_scalar_def json_digit_def)
next
  case (2 b)
  then show ?case by (cases n; cases b) (simp_all add: p_scalar_def json_digit_def)
next
  case (3 i)
  obtain m where m: "n = Suc m" using "3.prems"(3) by (cases n) auto
  obtain c cs where i: "int_decimal i = c # cs" and c: "c = CHR ''-'' \<or> json_digit c"
    using int_decimal_start by blast
  have "p_number (int_decimal i @ rest) = Parsed (JNum i, rest)"
    using "3.prems"(1,2) by (simp add: p_number_text)
  then show ?case using m i c json_digit_not_open [of c] by (auto simp: p_scalar_def)
next
  case (4 s)
  then show ?case by (cases n) (simp_all add: p_scalar_def quote_string_def p_string_quoted)
next
  case (5 xs)
  obtain m where m: "n = Suc m" using "5.prems"(3) by (cases n) auto
  show ?case
  proof (cases "xs = []")
    case True
    then show ?thesis using m by simp
  next
    case False
    obtain y ys where xs: "xs = y # ys" using False by (cases xs) auto
    obtain c cs where y: "json_text y = c # cs" and c: "\<not> json_ws c" "c \<noteq> CHR '']''"
      using json_text_start [of y] by blast
    let ?s = "commas (map json_text xs) @ CHR '']'' # rest"
    have s: "?s = c # (cs @ (if ys = [] then [] else CHR '','' # commas (map json_text ys)) @ CHR '']'' # rest)"
      using xs y by (simp add: commas_Cons_if)
    have "p_value n (CHR ''['' # ?s) = p_items m [] ?s"
      unfolding s using m c by simp
    moreover have "json_text (JArr xs) @ rest = CHR ''['' # ?s" by simp
    ultimately have val: "p_value n (json_text (JArr xs) @ rest) = p_items m [] ?s" by simp
    have "p_items m [] ?s = Parsed (JArr ([] @ xs), rest)"
    proof (rule p_items_text)
      fix x n' r assume "x \<in> set xs" "delim r" "p_value n' (json_text x @ r) \<noteq> OutOfFuel"
      then show "p_value n' (json_text x @ r) = Parsed (x, r)"
        using "5.IH" "5.prems"(1) by (simp add: list_all_iff)
    qed (use False "5.prems"(3) val in simp_all)
    then show ?thesis using val by simp
  qed
next
  case (6 fs)
  obtain m where m: "n = Suc m" using "6.prems"(3) by (cases n) auto
  show ?case
  proof (cases "fs = []")
    case True
    then show ?thesis using m by simp
  next
    case False
    obtain k v gs where fs: "fs = (k, v) # gs" using False by (cases fs) auto
    let ?s = "commas (map (\<lambda>(k, v). quote_string k @ CHR '':'' # json_text v) fs) @ CHR ''}'' # rest"
    have s: "\<exists>cs. ?s = CHR 0x22 # cs"
      using fs by (simp add: commas_Cons_if quote_string_def)
    then obtain cs where scs: "?s = CHR 0x22 # cs" by blast
    have "p_value n (CHR ''{'' # ?s) = p_members m [] ?s"
      unfolding scs using m by simp
    moreover have "json_text (JObj fs) @ rest = CHR ''{'' # ?s" by simp
    ultimately have val: "p_value n (json_text (JObj fs) @ rest) = p_members m [] ?s" by simp
    have "p_members m [] ?s = Parsed (JObj ([] @ fs), rest)"
    proof (rule p_members_text)
      fix k' v' n' r assume "(k', v') \<in> set fs" "delim r" "p_value n' (json_text v' @ r) \<noteq> OutOfFuel"
      then show "p_value n' (json_text v' @ r) = Parsed (v', r)"
        using "6.IH" "6.prems"(1) by (fastforce simp: list_all_iff)
    qed (use False "6.prems" val in simp_all)
    then show ?thesis using val by simp
  qed
qed

lemma length_skip_ws: "length (skip_ws s) \<le> length s"
  by (simp add: skip_ws_def length_dropWhile_le)

lemma pcons_Parsed: "pcons c r = Parsed (t, rest) \<longleftrightarrow> (\<exists>t'. r = Parsed (t', rest) \<and> t = c # t')"
  by (cases r) (auto simp: pcons_def)

lemma p_string_shorter: "p_string s = Parsed (t, r) \<Longrightarrow> length r < length s"
proof (induction s arbitrary: t r rule: p_string.induct)
  case 1
  then show ?case by simp
next
  case (2 c r0)
  then show ?case
    by (fastforce simp: pcons_Parsed Let_def split: if_splits list.splits option.splits prod.splits)
qed

lemma p_number_shorter: "p_number s = Parsed (v, r) \<Longrightarrow> length r < length s"
proof -
  have digits: "p_digits neg s' = Parsed (v, r) \<Longrightarrow> length r < length s'" for neg s'
  proof -
    assume a: "p_digits neg s' = Parsed (v, r)"
    then have "takeWhile json_digit s' \<noteq> []" and "r = dropWhile json_digit s'"
      by (auto simp: p_digits_def Let_def split: if_splits)
    then show ?thesis
      by (metis length_append less_add_same_cancel2 length_greater_0_conv takeWhile_dropWhile_id)
  qed
  show "p_number s = Parsed (v, r) \<Longrightarrow> length r < length s"
    by (auto simp: p_number_def dest!: digits split: list.splits if_splits)
qed



lemma p_scalar_shorter: "p_scalar s = Parsed (v, r) \<Longrightarrow> length r < length s"
  using p_string_shorter p_number_shorter
  by (fastforce simp: p_scalar_def pbind_eq_Parsed split: list.splits if_splits)

lemma p_shorter_fuel:
  "(\<forall>s v r. p_value n s = Parsed (v, r) \<longrightarrow> length r < length s) \<and>
   (\<forall>acc s v r. p_items n acc s = Parsed (v, r) \<longrightarrow> length r < length s) \<and>
   (\<forall>fs s v r. p_members n fs s = Parsed (v, r) \<longrightarrow> length r < length s)"
proof (induction n)
  case 0
  then show ?case by simp
next
  case (Suc n)
  then have V: "\<And>s v r. p_value n s = Parsed (v, r) \<Longrightarrow> length r < length s"
    and I: "\<And>acc s v r. p_items n acc s = Parsed (v, r) \<Longrightarrow> length r < length s"
    and M: "\<And>fs s v r. p_members n fs s = Parsed (v, r) \<Longrightarrow> length r < length s"
    by blast+
  have "p_value (Suc n) s = Parsed (v, r) \<Longrightarrow> length r < length s" for s v r
  proof -
    assume a: "p_value (Suc n) s = Parsed (v, r)"
    then obtain c r0 where s: "s = c # r0" by (cases s) auto
    have sk: "length (skip_ws r0) < length s" using length_skip_ws [of r0] s by simp
    show ?thesis
    proof (cases "c = CHR ''['' \<or> c = CHR ''{''")
      case True
      then obtain d r' where d: "skip_ws r0 = d # r'" using a s by (cases "skip_ws r0") auto
      then show ?thesis using a s True sk I [of "[]" "d # r'" v r] M [of "[]" "d # r'" v r]
        by (auto split: if_splits)
    next
      case False
      then show ?thesis using a s p_scalar_shorter [of s v r] by simp
    qed
  qed
  moreover have "p_items (Suc n) acc s = Parsed (v, r) \<Longrightarrow> length r < length s" for acc s v r
  proof -
    assume a: "p_items (Suc n) acc s = Parsed (v, r)"
    then obtain v0 r0 where pv: "p_value n s = Parsed (v0, r0)"
      and b: "(case skip_ws r0 of [] \<Rightarrow> Malformed
               | d # r' \<Rightarrow> if d = CHR '','' then p_items n (acc @ [v0]) (skip_ws r')
                          else if d = CHR '']'' then Parsed (JArr (acc @ [v0]), r') else Malformed) = Parsed (v, r)"
      by (auto simp: pbind_eq_Parsed)
    obtain d r' where d: "skip_ws r0 = d # r'" using b by (cases "skip_ws r0") auto
    have "length (d # r') < length s" using V [OF pv] length_skip_ws [of r0] d by simp
    then show ?thesis using b d I [of "acc @ [v0]" "skip_ws r'" v r] length_skip_ws [of r']
      by (auto split: if_splits)
  qed
  moreover have "p_members (Suc n) fs s = Parsed (v, r) \<Longrightarrow> length r < length s" for fs s v r
  proof -
    assume a: "p_members (Suc n) fs s = Parsed (v, r)"
    then obtain r0 where s: "s = CHR 0x22 # r0" by (cases s) (auto split: if_splits)
    with a obtain k r1 where k: "p_string r0 = Parsed (k, r1)"
      and a1: "(case skip_ws r1 of [] \<Rightarrow> Malformed
               | d # r2 \<Rightarrow> if d \<noteq> CHR '':'' then Malformed
                  else pbind (p_value n (skip_ws r2)) (\<lambda>(v, r3).
                    case skip_ws r3 of [] \<Rightarrow> Malformed
                    | e # r4 \<Rightarrow> if e = CHR '','' then p_members n (obj_put k v fs) (skip_ws r4)
                               else if e = CHR ''}'' then Parsed (JObj (obj_put k v fs), r4) else Malformed))
             = Parsed (v, r)"
      by (auto simp: pbind_eq_Parsed)
    obtain d r2 where d: "skip_ws r1 = d # r2" using a1 by (cases "skip_ws r1") auto
    with a1 obtain v0 r3 where pv: "p_value n (skip_ws r2) = Parsed (v0, r3)"
      and a2: "(case skip_ws r3 of [] \<Rightarrow> Malformed
                | e # r4 \<Rightarrow> if e = CHR '','' then p_members n (obj_put k v0 fs) (skip_ws r4)
                           else if e = CHR ''}'' then Parsed (JObj (obj_put k v0 fs), r4) else Malformed)
             = Parsed (v, r)"
      by (auto simp: pbind_eq_Parsed split: if_splits)
    obtain e r4 where e: "skip_ws r3 = e # r4" using a2 by (cases "skip_ws r3") auto
    have "length (e # r4) < length s"
      using V [OF pv] p_string_shorter [OF k] length_skip_ws [of r1] length_skip_ws [of r2]
        length_skip_ws [of r3] d e s by simp
    then show ?thesis using a2 e M [of "obj_put k v0 fs" "skip_ws r4" v r] length_skip_ws [of r4]
      by (auto split: if_splits)
  qed
  ultimately show ?case by blast
qed

lemma pbind_not_fuelI: "r \<noteq> OutOfFuel \<Longrightarrow> (\<And>x. r = Parsed x \<Longrightarrow> f x \<noteq> OutOfFuel) \<Longrightarrow> pbind r f \<noteq> OutOfFuel"
  by (cases r) simp_all

lemma pcons_fuel: "pcons c r = OutOfFuel \<longleftrightarrow> r = OutOfFuel"
  by (cases r) (auto simp: pcons_def)

lemma p_string_not_fuel: "p_string s \<noteq> OutOfFuel"
proof
  show "p_string s = OutOfFuel \<Longrightarrow> False"
    apply (induction s rule: p_string.induct)
     apply (auto simp: pcons_fuel split: if_splits list.splits option.splits)
    by metis
qed


lemma p_number_not_fuel: "p_number s \<noteq> OutOfFuel"
  by (simp add: p_number_def p_digits_def Let_def split: list.split)

lemma p_scalar_not_fuel: "p_scalar s \<noteq> OutOfFuel"
proof
  assume "p_scalar s = OutOfFuel"
  then show False
    using p_string_not_fuel p_number_not_fuel
    by (auto simp: p_scalar_def pbind_def split: list.splits if_splits parsed.splits)
qed


lemma p_fuel_enough:
  "(\<forall>s. 2 * length s < n \<longrightarrow> p_value n s \<noteq> OutOfFuel) \<and>
   (\<forall>acc s. Suc (2 * length s) < n \<longrightarrow> p_items n acc s \<noteq> OutOfFuel) \<and>
   (\<forall>fs s. Suc (2 * length s) < n \<longrightarrow> p_members n fs s \<noteq> OutOfFuel)"
proof (induction n)
  case 0
  then show ?case by simp
next
  case (Suc n)
  then have V: "\<And>s. 2 * length s < n \<Longrightarrow> p_value n s \<noteq> OutOfFuel"
    and I: "\<And>acc s. Suc (2 * length s) < n \<Longrightarrow> p_items n acc s \<noteq> OutOfFuel"
    and M: "\<And>fs s. Suc (2 * length s) < n \<Longrightarrow> p_members n fs s \<noteq> OutOfFuel"
    by blast+
  have shorter: "\<And>s v r. p_value n s = Parsed (v, r) \<Longrightarrow> length r < length s"
    using p_shorter_fuel by blast
  have val_ok: "p_value (Suc n) s \<noteq> OutOfFuel" if len: "2 * length s < Suc n" for s
  proof (cases s)
    case Nil
    then show ?thesis by simp
  next
    case (Cons c r0)
    show ?thesis
    proof (cases "c = CHR ''['' \<or> c = CHR ''{''")
      case False
      then show ?thesis using Cons p_scalar_not_fuel [of s] by auto
    next
      case True
      show ?thesis
      proof (cases "skip_ws r0")
        case Nil
        then show ?thesis using Cons True by auto
      next
        case (Cons d r')
        have "Suc (2 * length (d # r')) < n"
          using len length_skip_ws [of r0] Cons \<open>s = c # r0\<close> by simp
        then show ?thesis using \<open>s = c # r0\<close> Cons True I [of "d # r'" "[]"] M [of "d # r'" "[]"] by auto
      qed
    qed
  qed
  have items_ok: "p_items (Suc n) acc s \<noteq> OutOfFuel" if len: "Suc (2 * length s) < Suc n" for acc s
  proof (cases "p_value n s")
    case (Parsed x)
    obtain v0 r0 where x: "x = (v0, r0)" by (cases x)
    have r0: "length r0 < length s" using shorter Parsed x by simp
    show ?thesis
    proof (cases "skip_ws r0")
      case Nil
      then show ?thesis using Parsed x by simp
    next
      case (Cons d r')
      have "Suc (2 * length (skip_ws r')) < n"
        using len r0 length_skip_ws [of r0] length_skip_ws [of r'] Cons by simp
      then show ?thesis using Parsed x Cons I [of "skip_ws r'" "acc @ [v0]"] by simp
    qed
  next
    case OutOfFuel
    then show ?thesis using V len by simp
  qed simp_all
  have members_ok: "p_members (Suc n) fs s \<noteq> OutOfFuel" if len: "Suc (2 * length s) < Suc n" for fs s
  proof (cases "s \<noteq> [] \<and> hd s = CHR 0x22")
    case False
    then show ?thesis by (cases s) auto
  next
    case True
    then obtain r0 where s: "s = CHR 0x22 # r0" by (cases s) auto
    show ?thesis
    proof (cases "p_string r0")
      case (Parsed y)
      obtain k r1 where y: "y = (k, r1)" by (cases y)
      have r1: "length r1 < length r0" using p_string_shorter Parsed y by simp
      show ?thesis
      proof (cases "skip_ws r1")
        case Nil
        then show ?thesis using s Parsed y by simp
      next
        case (Cons d r2)
        have l2: "2 * length (skip_ws r2) < n"
          using len s r1 length_skip_ws [of r1] length_skip_ws [of r2] Cons by simp
        show ?thesis
        proof (cases "p_value n (skip_ws r2)")
          case (Parsed z)
          obtain v0 r3 where z: "z = (v0, r3)" by (cases z)
          have r3: "length r3 < length (skip_ws r2)" using shorter Parsed z by simp
          show ?thesis
          proof (cases "skip_ws r3")
            case Nil
            then show ?thesis using s \<open>p_string r0 = Parsed y\<close> y \<open>skip_ws r1 = d # r2\<close> Parsed z by simp
          next
            case (Cons e r4)
            have "Suc (2 * length (skip_ws r4)) < n"
              using l2 r3 length_skip_ws [of r3] length_skip_ws [of r4] Cons by simp
            then show ?thesis
              using s \<open>p_string r0 = Parsed y\<close> y \<open>skip_ws r1 = d # r2\<close> Parsed z Cons
                M [of "skip_ws r4" "obj_put k v0 fs"] by simp
          qed
        next
          case OutOfFuel
          then show ?thesis using V l2 by simp
        qed (use s \<open>p_string r0 = Parsed y\<close> y Cons in simp_all)
      qed
    qed (use s p_string_not_fuel in simp_all)
  qed
  show ?case using val_ok items_ok members_ok by blast
qed


lemma set_commas: "c \<in> set (commas xs) \<Longrightarrow> c = CHR '','' \<or> (\<exists>x\<in>set xs. c \<in> set x)"
  by (induction xs rule: commas.induct) auto

lemma int_decimal_no_newline: "CHR 0x0A \<notin> set (int_decimal i)"
proof -
  have "c \<in> set (nat_decimal n) \<Longrightarrow> c \<noteq> CHR 0x0A" for c n
    using nat_decimal_json_digits [of c n] by (auto simp: json_digit_def)
  then show ?thesis by (auto simp: int_decimal_def)
qed

lemma quote_string_no_newline: "CHR 0x0A \<notin> set (quote_string s)"
  using escape_char_no_newline by (auto simp: quote_string_def)

subsection \<open>The values the parser builds\<close>

lemma p_digits_wf: "p_digits neg s = Parsed (v, r) \<Longrightarrow> wf_json v"
  by (auto simp: p_digits_def Let_def split: if_splits)

lemma p_scalar_wf: "p_scalar s = Parsed (v, r) \<Longrightarrow> wf_json v"
  by (auto simp: p_scalar_def p_number_def pbind_eq_Parsed dest: p_digits_wf split: list.splits if_splits)

lemma map_fst_obj_put:
  "map fst (obj_put k v fs) = (if k \<in> set (map fst fs) then map fst fs else map fst fs @ [k])"
proof -
  have "map fst (map (\<lambda>(k', v'). if k' = k then (k', v) else (k', v')) fs) = map fst fs"
    by (induction fs) auto
  then show ?thesis by (simp add: obj_put_def)
qed

lemma obj_put_distinct: "distinct (map fst fs) \<Longrightarrow> distinct (map fst (obj_put k v fs))"
  by (simp add: map_fst_obj_put)

lemma obj_put_wf:
  "list_all (\<lambda>(k, v). wf_json v) fs \<Longrightarrow> wf_json v \<Longrightarrow> list_all (\<lambda>(k, v). wf_json v) (obj_put k v fs)"
  by (auto simp: obj_put_def list_all_iff split: if_splits)


lemma p_items_Suc_Parsed:
  "p_items (Suc n) acc s = Parsed (v, r) \<Longrightarrow>
     (\<exists>v0 r0 d r'. p_value n s = Parsed (v0, r0) \<and> skip_ws r0 = d # r' \<and>
        (d = CHR '','' \<and> p_items n (acc @ [v0]) (skip_ws r') = Parsed (v, r)
         \<or> d = CHR '']'' \<and> v = JArr (acc @ [v0]) \<and> r = r'))"
  by (auto simp: pbind_def split: parsed.split_asm prod.split_asm list.split_asm if_split_asm)

lemma p_members_Suc_Parsed:
  "p_members (Suc n) acc s = Parsed (v, r) \<Longrightarrow>
     (\<exists>r0 k r1 r2 v0 r3 e r4. s = CHR 0x22 # r0 \<and> p_string r0 = Parsed (k, r1) \<and>
        skip_ws r1 = CHR '':'' # r2 \<and> p_value n (skip_ws r2) = Parsed (v0, r3) \<and>
        skip_ws r3 = e # r4 \<and>
        (e = CHR '','' \<and> p_members n (obj_put k v0 acc) (skip_ws r4) = Parsed (v, r)
         \<or> e = CHR ''}'' \<and> v = JObj (obj_put k v0 acc) \<and> r = r4))"
  by (auto simp: pbind_def split: parsed.split_asm prod.split_asm list.split_asm if_split_asm)

lemma p_wf:
  "p_value n s = Parsed (v, r) \<Longrightarrow> wf_json v"
  "p_items n acc s = Parsed (v, r) \<Longrightarrow> list_all wf_json acc \<Longrightarrow> wf_json v"
  "p_members n fs s = Parsed (v, r) \<Longrightarrow> wf_json (JObj fs) \<Longrightarrow> wf_json v"
proof (induction n s and n acc s and n fs s arbitrary: v r and v r and v r rule: p_value_p_items_p_members.induct)
  case (2 n s)
  then show ?case
    by (auto split: list.splits if_splits dest: p_scalar_wf)
next
  case (4 n acc s)
  then obtain v0 r0 d r' where pv: "p_value n s = Parsed (v0, r0)" and d: "skip_ws r0 = d # r'"
    and rest: "d = CHR '','' \<and> p_items n (acc @ [v0]) (skip_ws r') = Parsed (v, r)
               \<or> d = CHR '']'' \<and> v = JArr (acc @ [v0]) \<and> r = r'"
    by (blast dest: p_items_Suc_Parsed)
  have "list_all wf_json (acc @ [v0])" using "4.IH"(1) [OF pv] "4.prems"(2) by simp
  then show ?case using rest "4.IH"(2) [of r0 d r' v0] d by auto
next
  case (6 n fs s)
  obtain r0 k r1 r2 v0 r3 e r4 where s: "s = CHR 0x22 # r0" and k: "p_string r0 = Parsed (k, r1)"
    and c: "skip_ws r1 = CHR '':'' # r2" and pv: "p_value n (skip_ws r2) = Parsed (v0, r3)"
    and e: "skip_ws r3 = e # r4"
    and rest: "e = CHR '','' \<and> p_members n (obj_put k v0 fs) (skip_ws r4) = Parsed (v, r)
               \<or> e = CHR ''}'' \<and> v = JObj (obj_put k v0 fs) \<and> r = r4"
    using p_members_Suc_Parsed [OF "6.prems"(1)] by blast
  have "wf_json v0" using "6.IH"(1) [OF s _ c] pv by simp
  then have "wf_json (JObj (obj_put k v0 fs))" using "6.prems"(2) by (simp add: obj_put_distinct obj_put_wf)
  then show ?case using rest "6.IH"(2) [OF s _ c _ e] by auto
qed simp_all

lemma map_of_obj_put: "map_of (obj_put k v fs) = (map_of fs)(k \<mapsto> v)"
proof -
  have upd: "map_of (map (\<lambda>(k', v'). if k' = k then (k', v) else (k', v')) fs) x =
               (if x = k then map_option (\<lambda>_. v) (map_of fs x) else map_of fs x)" for x
    by (induction fs) auto
  show ?thesis
  proof (cases "k \<in> set (map fst fs)")
    case True
    then obtain w where "map_of fs k = Some w" by (cases "map_of fs k") (auto simp: map_of_eq_None_iff)
    then show ?thesis using True by (simp add: obj_put_def fun_eq_iff upd)
  next
    case False
    then have "map_of fs k = None" by (simp add: map_of_eq_None_iff)
    then show ?thesis using False by (simp add: obj_put_def fun_eq_iff map_add_def split: option.split)
  qed
qed

lemma map_of_foldl_obj_put:
  "map_of (foldl (\<lambda>fs (k, v). obj_put k v fs) fs kvs) = map_of fs ++ lookup_last kvs"
proof (induction kvs arbitrary: fs)
  case (Cons kv kvs)
  then show ?case
    by (cases kv) (simp add: map_of_obj_put fun_eq_iff map_add_def split: option.split)
qed (simp add: fun_eq_iff map_add_def)

lemma foldl_obj_put_distinct:
  "distinct (map fst fs) \<Longrightarrow> distinct (map fst (foldl (\<lambda>fs (k, v). obj_put k v fs) fs kvs))"
  by (induction kvs arbitrary: fs) (auto simp: obj_put_distinct)

subsection \<open>The codec's properties\<close>

text \<open>
  Printing and parsing are inverse on well-formed values: \<open>JSON.parse\<close>
  reads back exactly the value that \<open>JSON.stringify\<close> printed.
\<close>

lemma codec_roundtrip: "wf_json j \<Longrightarrow> json_parse (json_text j) = Parsed j"
proof -
  assume wf: "wf_json j"
  let ?n = "Suc (2 * length (json_text j))"
  have sk: "skip_ws (json_text j) = json_text j" using skip_ws_text [of j "[]"] by simp
  have "2 * length (json_text j @ []) < ?n" by simp
  then have fuel: "p_value ?n (json_text j @ []) \<noteq> OutOfFuel" using p_fuel_enough by blast
  have "p_value ?n (json_text j @ []) = Parsed (j, [])" by (rule p_value_text [OF wf delim_simps(1) fuel])
  then have "p_value ?n (json_text j) = Parsed (j, [])" by simp
  then show ?thesis by (simp only: json_parse_def sk pbind_simps) simp
qed

lemma codec_roundtrip_witness:
  "wf_json (JObj [(''id'', JNum (-7)), (''s'', JStr [CHR 0x22, CHR 0x0A]), (''a'', JArr [JBool True, JNull])])
   \<and> json_parse (json_text (JObj [(''id'', JNum (-7)), (''s'', JStr [CHR 0x22, CHR 0x0A]),
                                 (''a'', JArr [JBool True, JNull])]))
       = Parsed (JObj [(''id'', JNum (-7)), (''s'', JStr [CHR 0x22, CHR 0x0A]), (''a'', JArr [JBool True, JNull])])"
proof -
  have wf: "wf_json (JObj [(''id'', JNum (-7)), (''s'', JStr [CHR 0x22, CHR 0x0A]), (''a'', JArr [JBool True, JNull])])"
    by simp
  show ?thesis by (intro conjI wf codec_roundtrip [OF wf])
qed

text \<open>
  Parsing always ends: the fuel that \<open>json_parse\<close> gives (twice the length of
  the line, plus one) is never exhausted, so every line is parsed, rejected as
  malformed, or found to be outside the value model.
\<close>

lemma json_parse_total: "json_parse s \<noteq> OutOfFuel"
proof -
  have "2 * length (skip_ws s) < Suc (2 * length s)" using length_skip_ws [of s] by simp
  then have "p_value (Suc (2 * length s)) (skip_ws s) \<noteq> OutOfFuel" using p_fuel_enough by blast
  then show ?thesis
    unfolding json_parse_def by (rule pbind_not_fuelI) (auto split: prod.splits)
qed

text \<open>
  The text \<open>JSON.stringify\<close> prints for any value contains no line feed, so
  \<open>console.log\<close> writes every message as exactly one line.
\<close>

lemma one_line_per_message: "CHR 0x0A \<notin> set (json_text j)"
proof (induction j rule: json_text.induct)
  case (5 xs)
  then show ?case using set_commas [of "CHR 0x0A" "map json_text xs"] by auto
next
  case (6 fs)
  then show ?case
    using set_commas [of "CHR 0x0A" "map (\<lambda>(k, v). quote_string k @ CHR '':'' # json_text v) fs"]
      quote_string_no_newline by fastforce
qed (simp_all add: int_decimal_no_newline quote_string_no_newline)

text \<open>
  Every value \<open>JSON.parse\<close> returns is well formed: its objects have distinct
  keys, and its numbers are integers a double holds exactly.  With the round trip, parsing,
  printing and parsing again gives the same value.
\<close>

lemma json_parse_wf: "json_parse s = Parsed j \<Longrightarrow> wf_json j"
  by (auto simp: json_parse_def pbind_eq_Parsed simp del: p_value.simps(2) split: if_splits dest: p_wf(1))

lemma json_parse_wf_witness:
  \<open>json_parse ''{"a":1,"a":-2}'' = Parsed (JObj [(''a'', JNum (-2))]) \<and> wf_json (JObj [(''a'', JNum (-2))])\<close>
proof -
  have h: \<open>json_parse ''{"a":1,"a":-2}'' = Parsed (JObj [(''a'', JNum (-2))])\<close> by code_simp
  show ?thesis using h json_parse_wf [OF h] by simp
qed

text \<open>
  An object that \<open>JSON.parse\<close> builds member by member (\<open>obj_put\<close>) reads, key by
  key, as its members as written with the last duplicate winning
  (\<open>lookup_last\<close>, the property read of \<open>Json\<close>).  So the theorems stated with
  \<open>lookup_last\<close> over the raw members hold for the objects the parser returns.
\<close>

lemma obj_put_last_wins:
  "lookup_last (foldl (\<lambda>fs (k, v). obj_put k v fs) [] kvs) = lookup_last kvs"
proof
  fix k
  show "lookup_last (foldl (\<lambda>fs (k, v). obj_put k v fs) [] kvs) k = lookup_last kvs k"
    using lookup_last_distinct [OF foldl_obj_put_distinct [of "[]" kvs]] map_of_foldl_obj_put [of "[]" kvs]
    by simp
qed

end
