(* ===== verification/Wire.thy ===== *)
theory Wire
  imports Transport Codec
begin

text \<open>
  The server on the wire: text in, text out.  \<open>readline\<close> reads lines from stdin
  (lines 8--12 of \<open>src/mcp-server-aws.js\<close>), each line goes through
  \<open>JSON.parse\<close> (line 689), and every message is written by
  \<open>console.log(JSON.stringify(...))\<close>, its text and a line feed.
\<close>

definition print_line :: "json \<Rightarrow> string" where
  "print_line j = json_text j @ [CHR 0x0A]"

text \<open>
  \<open>JSON.parse(line)\<close> as the callback sees it: the value, or the \<open>SyntaxError\<close> it
  throws.  A line outside the value model (\<open>Unsupported\<close>) is also mapped to an
  exception here; the theorems below are about lines that \<open>json_parse\<close> decides.
\<close>

definition parse_line :: "string \<Rightarrow> exn + json" where
  "parse_line l = (case json_parse l of Parsed j \<Rightarrow> Inr j | _ \<Rightarrow> Inl (SyntaxError ''Unexpected token in JSON''))"

text \<open>What the process writes on stdout when it starts and then reads one chunk of lines.\<close>

definition serve :: "string list \<Rightarrow> string" where
  "serve lines = concat (map print_line (out (run parse_line startup [Chunk 0 lines])))"

text \<open>The lines of the spec's end-to-end examples.\<close>

definition initialize_line :: string where
  \<open>initialize_line = ''{"jsonrpc":"2.0","id":1,"method":"initialize","params":{"protocolVersion":"2.0"}}''\<close>


definition ping_line :: string where
  \<open>ping_line = ''{"jsonrpc":"2.0","id":2,"method":"tools/invoke","params":{"name":"ping"}}''\<close>

definition nope_line :: string where
  \<open>nope_line = ''{"jsonrpc":"2.0","id":3,"method":"tools/invoke","params":{"name":"nope"}}''\<close>

text \<open>
  The end-to-end examples of the spec, on the wire.  For the chunk of the
  \<open>initialize\<close>, \<open>ping\<close> and unknown-tool requests followed by a line that is
  not JSON, the process writes the ready notification, the handshake answer with
  the client's protocol version, the -32601 error for \<open>nope\<close>, the -32700 error,
  and last the \<open>pong\<close> answer, each as one line.
\<close>

lemma spec_examples_on_the_wire:
  \<open>serve [initialize_line, ping_line, nope_line, ''{''] =
     ''{"jsonrpc":"2.0","method":"notifications/ready","params":{}}'' @ [CHR 0x0A] @
     ''{"jsonrpc":"2.0","id":1,"result":{"protocolVersion":"2.0","capabilities":{"tools":{}},''
       @ ''"serverInfo":{"name":"aws-mcp-server","version":"1.0.0"}}}'' @ [CHR 0x0A] @
     ''{"jsonrpc":"2.0","id":3,"error":{"code":-32601,"message":"Tool '' @ apos @ ''nope'' @ apos
       @ '' not found"}}'' @ [CHR 0x0A] @
     ''{"jsonrpc":"2.0","id":null,"error":{"code":-32700,"message":"Parse error"}}'' @ [CHR 0x0A] @
     ''{"jsonrpc":"2.0","id":2,"result":{"result":"pong"}}'' @ [CHR 0x0A]\<close>
  by code_simp


text \<open>
  C30: a line that is not JSON is answered, after the ready notification, with
  exactly the text of the -32700 error with id \<open>null\<close>.
\<close>

theorem malformed_line_on_the_wire:
  assumes "json_parse l = Malformed"
  shows \<open>serve [l] =
     ''{"jsonrpc":"2.0","method":"notifications/ready","params":{}}'' @ [CHR 0x0A] @
     ''{"jsonrpc":"2.0","id":null,"error":{"code":-32700,"message":"Parse error"}}'' @ [CHR 0x0A]\<close>
proof -
  have "parse_line l = Inl (SyntaxError ''Unexpected token in JSON'')"
    using assms by (simp add: parse_line_def)
  then have "out (run parse_line startup [Chunk 0 [l]]) =
               [ready_notification, error_response (Some JNull) (-32700) ''Parse error'']"
    by (simp add: on_chunk_def on_line_def drain_def server_simps startup_def)
  then have "serve [l] = concat (map print_line
               [ready_notification, error_response (Some JNull) (-32700) ''Parse error''])"
    by (simp only: serve_def)
  also have \<open>\<dots> = ''{"jsonrpc":"2.0","method":"notifications/ready","params":{}}'' @ [CHR 0x0A] @
     ''{"jsonrpc":"2.0","id":null,"error":{"code":-32700,"message":"Parse error"}}'' @ [CHR 0x0A]\<close>
    by code_simp
  finally show ?thesis .
qed

theorem malformed_line_on_the_wire_witness:
  \<open>json_parse ''{'' = Malformed \<and>
   serve [''{''] =
     ''{"jsonrpc":"2.0","method":"notifications/ready","params":{}}'' @ [CHR 0x0A] @
     ''{"jsonrpc":"2.0","id":null,"error":{"code":-32700,"message":"Parse error"}}'' @ [CHR 0x0A]\<close>
proof -
  have m: "json_parse ''{'' = Malformed" by code_simp
  show ?thesis using malformed_line_on_the_wire [OF m] m by simp
qed

end
