(* ===== verification/Credentials.thy ===== *)
theory Credentials
  imports Transport
begin

text \<open>
  Start-up with the AWS SDK's configuration (lines 7--51 and 792--799 of
  \<open>src/mcp-server-aws.js\<close>).  Setting up credentials may throw (lines 27--34): then
  the \<open>catch\<close> logs the error and \<open>AWS.config.update({region: 'us-west-2'})\<close> is skipped,
  so \<open>AWS.config.region\<close> keeps what the SDK read from the environment when it was
  loaded (\<open>AWS_REGION\<close>; \<open>None\<close> when unset).  The module-level clients of lines
  36--51 are never used: every handler builds its own client with its region.
\<close>

definition aws_setup :: "exn option \<Rightarrow> server \<Rightarrow> server" where
  "aws_setup fail s =
     (case fail of
        None \<Rightarrow> s\<lparr>config := (config s)\<lparr>cfg_region := Some default_region\<rparr>\<rparr>
      | Some e \<Rightarrow> s\<lparr>log := log s @ [LogInfo (''[aws] [error] Error initializing AWS credentials: '' @ exn_message e)]\<rparr>)"

definition boot :: "jsval \<Rightarrow> exn option \<Rightarrow> server" where
  "boot env fail =
     (let s = aws_setup fail
                \<lparr>config = \<lparr>cfg_region = env\<rparr>, out = [], log = [LogInfo ''[aws] [info] Initializing server...''],
                 microtasks = [], inflight = []\<rparr>
      in s\<lparr>log := log s @ [LogInfo ''[aws] [info] Server started and connected successfully''],
           out := out s @ [ready_notification]\<rparr>)"

text \<open>\<open>AWS.config.region || 'us-west-2'\<close>: the region \<open>handleRegion\<close> uses when the parameters name none (line 503).\<close>

definition effective_region :: "aws_config \<Rightarrow> json" where
  "effective_region c = js_or (cfg_region c) default_region"

text \<open>
  What a server state shows to the outside and to every later step: the lines written,
  the pending invocations, and the effective region; not the log.
\<close>

definition same_view :: "server \<Rightarrow> server \<Rightarrow> bool" where
  "same_view s t \<longleftrightarrow>
     out s = out t \<and> microtasks s = microtasks t \<and> inflight s = inflight t
     \<and> effective_region (config s) = effective_region (config t)"

definition keeps_view :: "(server \<Rightarrow> server) \<Rightarrow> bool" where
  "keeps_view f \<longleftrightarrow> (\<forall>s t. same_view s t \<longrightarrow> same_view (f s) (f t))"

lemma boot_succeeds: "boot env None = startup"
  by (simp add: boot_def aws_setup_def startup_def)

lemma aws_call_view:
  "effective_region c = effective_region d \<Longrightarrow>
   fst (aws_call h b p c) = fst (aws_call h b p d) \<and>
   effective_region (snd (aws_call h b p c)) = effective_region (snd (aws_call h b p d))"
  by (auto simp: aws_call_def handle_region_def effective_region_def split: sum.split)

lemma handler_start_view:
  assumes "effective_region c = effective_region d"
  shows "fst (handler_start h p now c) = fst (handler_start h p now d) \<and>
         effective_region (snd (handler_start h p now c)) = effective_region (snd (handler_start h p now d))"
proof (cases "h = HPing")
  case True
  with assms show ?thesis by simp
next
  case False
  then obtain b where "\<And>c. handler_start h p now c = aws_call h b p c"
    by (cases h) (simp_all only: handler_start.simps ec2_describe_instances_def s3_list_buckets_def
        s3_list_objects_def lambda_list_functions_def dynamodb_list_tables_def
        cloudwatch_get_metric_statistics_def, blast+)
  with aws_call_view [OF assms] show ?thesis by simp
qed

lemma keeps_viewD: "keeps_view f \<Longrightarrow> same_view s t \<Longrightarrow> same_view (f s) (f t)"
  by (simp add: keeps_view_def)

lemma keeps_view_send_error: "keeps_view (send_error rid c m)"
  by (simp add: keeps_view_def same_view_def server_simps)

lemma keeps_view_send_response: "keeps_view (send_response rid r)"
  by (simp add: keeps_view_def same_view_def server_simps)

lemma keeps_view_settle: "keeps_view (settle rid r)"
  by (simp add: keeps_view_def same_view_def server_simps split: sum.split)

lemma keeps_view_processing_error: "keeps_view (processing_error e)"
  by (simp add: keeps_view_def same_view_def server_simps)

lemma keeps_view_receive: "keeps_view (receive req)"
  by (simp add: keeps_view_def same_view_def receive_def)

lemma keeps_view_invoke: "keeps_view (invoke h p now rid)"
proof -
  have "same_view (invoke h p now rid s) (invoke h p now rid t)" if st: "same_view s t" for s t
  proof (cases h)
    case (Own hdl)
    obtain pr c where hs: "handler_start hdl p now (config s) = (pr, c)" by fastforce
    obtain pr' c' where ht: "handler_start hdl p now (config t) = (pr', c')" by fastforce
    have "effective_region (config s) = effective_region (config t)" using st by (simp add: same_view_def)
    from handler_start_view [OF this, of hdl p now] hs ht
    have "pr' = pr" "effective_region c = effective_region c'" by simp_all
    with st hs ht show ?thesis
      by (cases pr) (simp_all add: Own invoke_def same_view_def)
  next
    case (Inherited m)
    show ?thesis
    proof (cases "call_inherited m p")
      case (Inl e)
      then show ?thesis using keeps_viewD [OF keeps_view_settle st] by (simp add: Inherited invoke_def)
    next
      case (Inr v)
      then show ?thesis using st by (simp add: Inherited invoke_def same_view_def)
    qed
  qed
  then show ?thesis by (simp add: keeps_view_def)
qed

lemma invoke_action_keeps_view: "invoke_action name p now rid = Inr act \<Longrightarrow> keeps_view act"
  by (auto simp: invoke_action_def js_bind_def keeps_view_send_error keeps_view_invoke
      split: sum.splits if_splits option.splits)

lemma keeps_view_id: "keeps_view (\<lambda>s. s)"
  by (simp add: keeps_view_def)

lemma request_action_keeps_view: "request_action req now = Inr act \<Longrightarrow> keeps_view act"
  by (auto simp: request_action_def js_bind_def keeps_view_send_error keeps_view_send_response keeps_view_id
      dest: invoke_action_keeps_view split: sum.splits if_splits)

lemma keeps_view_on_line: "keeps_view (on_line parse now l)"
proof -
  have "same_view (on_line parse now l s) (on_line parse now l t)" if st: "same_view s t" for s t
  proof (cases "parse l")
    case (Inl e)
    then show ?thesis using keeps_viewD [OF keeps_view_processing_error st] by (simp add: on_line_def)
  next
    case (Inr req)
    have rt: "same_view (receive req s) (receive req t)" using keeps_viewD [OF keeps_view_receive st] .
    show ?thesis
    proof (cases "request_action req now")
      case (Inl e)
      then show ?thesis using Inr keeps_viewD [OF keeps_view_processing_error rt] by (simp add: on_line_def)
    next
      case (Inr act)
      then show ?thesis using \<open>parse l = Inr req\<close> keeps_viewD [OF request_action_keeps_view [OF Inr] rt]
        by (simp add: on_line_def)
    qed
  qed
  then show ?thesis by (simp add: keeps_view_def)
qed

lemma keeps_view_fold: "(\<And>x. keeps_view (f x)) \<Longrightarrow> keeps_view (fold f xs)"
  by (induction xs) (auto simp: keeps_view_def)

lemma keeps_view_comp: "keeps_view f \<Longrightarrow> keeps_view g \<Longrightarrow> keeps_view (g \<circ> f)"
  by (simp add: keeps_view_def)

lemma keeps_view_run_microtasks: "keeps_view (run_microtasks q)"
proof (induction q)
  case (Cons x q)
  obtain rid r where "x = (rid, r)" by fastforce
  with keeps_view_comp [OF keeps_view_settle [of rid r] Cons.IH] show ?case by (simp add: comp_def)
qed (simp add: keeps_view_def)

lemma keeps_view_drain: "keeps_view drain"
proof -
  have "same_view (drain s) (drain t)" if st: "same_view s t" for s t
  proof -
    have "same_view (s\<lparr>microtasks := []\<rparr>) (t\<lparr>microtasks := []\<rparr>)" "microtasks s = microtasks t"
      using st by (simp_all add: same_view_def)
    then show ?thesis using keeps_viewD [OF keeps_view_run_microtasks] by (simp add: drain_def)
  qed
  then show ?thesis by (simp add: keeps_view_def)
qed

lemma keeps_view_on_sdk_done: "keeps_view (on_sdk_done k res)"
proof -
  have "same_view (on_sdk_done k res s) (on_sdk_done k res t)" if st: "same_view s t" for s t
  proof -
    have i: "inflight s = inflight t" using st by (simp add: same_view_def)
    have "same_view (s\<lparr>inflight := drop_at k (inflight s)\<rparr>) (t\<lparr>inflight := drop_at k (inflight t)\<rparr>)"
      using st by (simp add: same_view_def)
    then show ?thesis using i keeps_viewD [OF keeps_view_settle] st
      by (simp add: on_sdk_done_def split: prod.split)
  qed
  then show ?thesis by (simp add: keeps_view_def)
qed

lemma keeps_view_step: "keeps_view (\<lambda>s. step parse s e)"
proof (cases e)
  case (Chunk now ls)
  have "keeps_view (drain \<circ> fold (on_line parse now) ls)"
    using keeps_view_comp [OF keeps_view_fold [of "on_line parse now", OF keeps_view_on_line] keeps_view_drain] .
  then show ?thesis by (simp add: Chunk on_chunk_def comp_def)
next
  case (SdkDone k res)
  then show ?thesis using keeps_view_on_sdk_done by simp
qed

lemma run_same_view: "same_view s t \<Longrightarrow> same_view (run parse s es) (run parse t es)"
  by (induction es arbitrary: s t) (auto dest: keeps_viewD [OF keeps_view_step])

text \<open>
  C25: when setting up the credentials throws and the environment names no region,
  the server writes exactly the lines it writes after a normal start-up, for every
  sequence of input chunks and SDK completions: the failure shows only in the log.
\<close>

theorem credentials_failure_invisible:
  "out (run parse (boot None (Some e)) es) = out (run parse startup es)"
proof -
  have "same_view (boot None (Some e)) startup"
    by (simp add: same_view_def boot_def aws_setup_def startup_def effective_region_def default_region_def)
  from run_same_view [OF this] show ?thesis by (simp add: same_view_def)
qed

text \<open>
  When the environment names a region (\<open>AWS_REGION\<close>), a failed set-up leaves it in
  place of the default \<open>us-west-2\<close>: a call naming no region goes elsewhere.
\<close>

lemma credentials_failure_env_region:
  "inflight (run (\<lambda>l. Inr buckets_request) (boot (Some (JStr ''eu-west-1'')) (Some e)) [Chunk 0 [[]]])
     = [(Some (JNum 9), Pending HS3ListBuckets (JObj []) (JStr ''eu-west-1'') S3ListBuckets)] \<and>
   inflight (run (\<lambda>l. Inr buckets_request) startup [Chunk 0 [[]]])
     = [(Some (JNum 9), Pending HS3ListBuckets (JObj []) (JStr ''us-west-2'') S3ListBuckets)]"
  by (simp add: boot_def aws_setup_def startup_def buckets_run_simps)

end
