(* ===== verification/Spec2Isabelle.thy ===== *)
theory Spec2Isabelle
  imports JsonRpcServer CatalogScript LogFailure Wire Credentials
begin

text \<open>
  \<^bold>\<open>A verification development of the AWS MCP server.\<close>

  The repository holds a line-delimited JSON-RPC 2.0 server over stdin and stdout,
  \<open>src/mcp-server-aws.js\<close>, and in \<open>src/unnamed/part_001\<close> a second, ping-only server,
  \<open>mcp-server-jsonrpc.js\<close>.  In the main server, \<open>readline\<close> feeds each input
  line to an \<open>async\<close> callback (lines 687--765).  The callback parses the line,
  checks the envelope and classifies the method.  It answers \<open>initialize\<close> and
  \<open>tools/list\<close> at once.  For \<open>tools/invoke\<close> it looks the name up in
  \<open>toolHandlers\<close>, awaits the handler (which awaits an AWS SDK request), and writes
  the handler's result or error.  Handlers read and write the process-wide
  \<open>AWS.config.region\<close>.

  \<^bold>\<open>Theories, bottom up.\<close>
  \<^item> \<open>Prelude\<close>: the collections \<open>js_simps\<close> and \<open>server_simps\<close>; \<open>lookup_last\<close>,
    the property read of an object built by \<open>JSON.parse\<close> (the last duplicate key
    wins); generic list and multiset facts.
  \<^item> \<open>Json\<close>: JavaScript values as the datatype \<open>json\<close>, with \<open>jsval = json option\<close>
    (\<open>None\<close> is \<open>undefined\<close>).  Exceptions are the datatype \<open>exn\<close>, and a computation
    that may throw returns \<open>exn + 'a\<close>.  It also holds the parts of JavaScript the
    source relies on: property reads with V8's TypeError texts, optional chaining,
    truthiness and \<open>||\<close>, ToString of values, and \<open>parseInt\<close> (\<open>js_parse_int\<close>).
    Lemma: \<open>parseInt\<close> reads back the decimal text of every natural number (used
    for the relative times of \<open>Handlers\<close>).
  \<^item> \<open>Registry\<close>: the catalog \<open>tools\<close> (lines 53--495) as 22 \<open>tool\<close> records in
    source order, grouped by service (\<open>ec2_tools\<close> ... \<open>utility_tools\<close>), and the
    \<open>tools.map\<close> callback of \<open>tools/list\<close> (\<open>tool_entry\<close>, \<open>tools_list_result\<close>).
    The handler table \<open>toolHandlers\<close> is \<open>tool_handlers\<close>.  \<open>lookup_handler\<close>
    models \<open>toolHandlers[name]\<close>: own keys first, then the members of
    \<open>Object.prototype\<close>.  Lemmas: the catalog is well formed (distinct names; every
    schema an object schema whose required names are declared); \<open>tools/list\<close>
    republishes every descriptor's name, description, \<open>properties\<close> and
    \<open>required\<close> unchanged, in catalog order; fifteen advertised tools have no handler.
  \<^item> \<open>Handlers\<close>: \<open>handleRegion\<close>, \<open>parseRelativeTime\<close> and the seven handlers
    (lines 497--684).  An \<open>async\<close> handler is split at its \<open>await\<close>.
    \<open>handler_start\<close> runs it up to the SDK request and returns a \<open>promise\<close>: either
    already settled (a thrown guard, or \<open>ping\<close>), or awaiting a \<open>pending\<close> SDK request.
    \<open>handler_done\<close> is the continuation on the SDK's outcome.  The SDK's outcome is
    chosen by the environment: an error message, or the response's fields.
    Lemmas: the region is sticky; guards fail before any request; the
    requests and answers of listObjects and of CloudWatch with its defaults; the
    EC2 instance count and its failure on a reservation without instances;
    \<open>parseRelativeTime\<close> on every \<open>-<n><unit>\<close> text, and on texts without the
    minus sign.
  \<^item> \<open>Dispatcher\<close>: the state \<open>server\<close> holds \<open>AWS.config\<close>, the lines written to
    stdout, the log, the queue of settled invocations, and the invocations waiting
    for the SDK.  \<open>on_line\<close> is the synchronous part of the \<open>'line'\<close> callback:
    \<open>request_action\<close> is its body, a state transformer or the exception that leaves
    the \<open>try\<close>.  \<open>send_response\<close> and \<open>send_error\<close> are the writers, and \<open>settle\<close>
    writes an invocation's outcome (lines 744--748).  Lemmas: the answer to each
    kind of request.
  \<^item> \<open>Transport\<close>: start-up (\<open>startup\<close>, the \<open>notifications/ready\<close> line) and the
    event loop.  An \<open>event\<close> is a chunk of input lines with the clock reading at
    which it arrives, or the completion of an SDK request.  \<open>on_chunk\<close> runs the
    synchronous parts of the chunk's callbacks in order, then drains the microtask
    queue (\<open>drain\<close>).  \<open>on_sdk_done\<close> resumes the callback of the completed request;
    \<open>run\<close> folds a list of events.  Lemmas: by induction over events, every
    answered line is answered exactly once or is still waiting for the SDK, and
    every line written is a JSON-RPC 2.0 message; the ready notification is first
    and unique; answers are written in completion order (\<open>queue_frame\<close>: a
    callback only appends to the microtask queue, so a \<open>ping\<close> answer follows every
    synchronous answer of the rest of its chunk); an SDK failure of any handler is
    reported with the service its \<open>catch\<close> names; \<open>ping\<close> has no side effect; an
    invocation without id still runs its handler.  Liveness: once every
    SDK request in flight completes, nothing waits and every answered line has its
    answer (\<open>every_request_answered_eventually\<close>).
  \<^item> \<open>JsonRpcServer\<close>: the ping-only server (\<open>part_001\<close> lines 47--165): a
    synchronous callback \<open>jr_on_line\<close>, whose state is what it has written and
    logged.  Lemma: one answer per line, in order.
  \<^item> \<open>LogFailure\<close>: the log write as a fallible step, chosen by the environment,
    and the callback and start-up through it.  A step completes normally or
    abruptly (\<open>completion = exn option \<times> server\<close>, as abrupt completion in Bali),
    and the state reached before a throw is kept, so output written before a throw
    stays written.  Lemmas: with a writable log this is the model above; with an
    unwritable log a line's callback leaves the state exactly as it was, and start-up
    throws before the ready notification, because every write to stdout comes after
    a log write.
  \<^item> \<open>Credentials\<close>: the credentials set-up of lines 27--34 as an environment
    choice (\<open>aws_setup\<close>): it succeeds and sets the default region, or throws, is
    logged, and leaves \<open>AWS.config.region\<close> at what the SDK read from the
    environment.  \<open>boot\<close> is start-up through it.  A simulation in the style of
    a noninterference proof: \<open>same_view\<close> relates states with the same lines
    written, the same pending invocations and the same effective region
    (\<open>AWS.config.region || 'us-west-2'\<close>), and every operation keeps it
    (\<open>keeps_view\<close>).  Lemma: with no region in the environment a failed set-up is
    invisible on stdout; with one, calls naming no region go there instead of
    \<open>us-west-2\<close>.
  \<^item> \<open>CatalogScript\<close>: the script at the end of \<open>part_000\<close> (lines 110--126), which
    prints the catalog once and reads no input.
  \<^item> \<open>Codec\<close>: \<open>JSON.stringify\<close> as \<open>json_text\<close> (string escapes as
    \<open>escape_char\<close>; members joined by \<open>commas\<close>), and \<open>JSON.parse\<close> as the
    recursive-descent parser \<open>p_value\<close>/\<open>p_items\<close>/\<open>p_members\<close> with its
    lexers \<open>p_string\<close>, \<open>p_number\<close> and \<open>skip_ws\<close>.  It returns a \<open>parsed\<close>
    value: a value with the rest of the input, \<open>Malformed\<close> (the SyntaxError),
    \<open>Unsupported\<close> (valid JSON outside the value model) or \<open>OutOfFuel\<close>.
    \<open>json_parse\<close> runs it with fuel \<open>Suc (2 * length s)\<close>.  Lemmas: every value
    that keeps its keys distinct and its numbers within \<open>2^53\<close> (\<open>wf_json\<close>) is
    read back from its text, also when the text is followed by more input after a
    delimiter (\<open>p_value_text\<close>).  Every call of the parser consumes input before it
    recurses, so the fuel is enough and \<open>json_parse\<close> never runs out of it
    (\<open>p_fuel_enough\<close>, \<open>json_parse_total\<close>).  A printed message holds no line
    feed, so each message is one line.  Conversely, every value the parser returns
    is \<open>wf_json\<close> (\<open>p_wf\<close>, by computation induction over the three parsing
    functions).  An object it builds with \<open>obj_put\<close> reads like its raw members
    under \<open>lookup_last\<close>, so the other theories, which read objects with
    \<open>lookup_last\<close>, apply to the parsed objects.  These lemmas are facts about the
    model of Node's library that justify its use in \<open>Wire\<close>, not properties of the
    repository's code.
  \<^item> \<open>Wire\<close>: the composition on text.  An input line goes through \<open>json_parse\<close>
    (\<open>parse_line\<close>), the event loop of \<open>Transport\<close> runs, and each message is
    printed with its line feed (\<open>print_line\<close>).  \<open>serve\<close> is the text on stdout
    for a chunk of input lines.  Lemmas: every line \<open>json_parse\<close> rejects as
    malformed is answered with exactly the text of the parse error -32700, and the
    spec's end-to-end examples give the text the spec shows.  \<open>parse_line\<close> also
    maps \<open>Unsupported\<close> lines (valid JSON outside the value model, such as an id
    \<open>1.5\<close>) to the parse error, where Node would parse them; the theorems on the
    wire are stated for malformed lines only.
  \<^item> This theory compares the two servers.  On chunks of lines both understand,
    the main server writes the same multiset of lines as the ping-only server
    (\<open>servers_agree_up_to_order\<close>); on \<open>notifications/initialized\<close> they differ.
    Unlike the ping-only server, the catalog script writes no JSON-RPC message.

  \<^bold>\<open>Choices of the model.\<close>
  \<^item> In \<open>Dispatcher\<close> and \<open>Transport\<close>, \<open>JSON.parse\<close> is a parameter
    \<open>parse :: string \<Rightarrow> exn + json\<close> of every theorem, so the theorems hold for every
    parser.  An output line there is the JSON value \<open>JSON.stringify\<close> prints, with
    \<open>undefined\<close> members dropped (\<open>js_object\<close>).  \<open>Wire\<close> instantiates the
    parameter with \<open>Codec\<close>'s parser and prints the values as text.
  \<^item> The codec covers the values of the model.  Characters are Isabelle's 8-bit
    \<open>char\<close>.  A unicode escape above \<open>0xFF\<close>, a number with a fraction or an
    exponent, and an integer beyond \<open>2^53\<close> are \<open>Unsupported\<close>.  JavaScript lists
    integer-like keys of an object first; the model keeps them in insertion order.
    \<open>Codec\<close> imports \<open>Code_Target_Nat\<close>, so that \<open>code_simp\<close> evaluates the
    parser's arithmetic on binary numerals.
  \<^item> Numbers are integers (\<open>JNum int\<close>): every number the server computes is an
    integer (codes, counts, times in milliseconds), and dates are clipped at
    \<open>8.64e15\<close> as \<open>new Date\<close> clips them.
  \<^item> A chunk has one clock reading; \<open>Date.now()\<close> does not advance within the
    synchronous part of a chunk.
  \<^item> The only fuel is the parser's, and it is proved enough.  Every other
    operation is total, and the loop is the fold of a finite list of events.
  \<^item> Logging is an append of a \<open>log_entry\<close>; timestamps and text formatting are
    not modelled.  A failing write is modelled in \<open>LogFailure\<close> for a log that is
    unwritable for a whole line; Node's reaction to the rejected promise (the
    process exits since Node 15) is not.
  \<^item> Not modelled:
    \<^item> the parts of \<open>JSON.parse\<close> and \<open>JSON.stringify\<close> outside the value
      model: fractional numbers, characters beyond 8 bits, and \<open>toJSON\<close> methods;
    \<^item> the module-level clients (lines 36--51): no handler uses them, each builds its
      own client with its region, so constructing them has no effect to model;
    \<^item> the credentials themselves: the SDK's outcomes are chosen by the environment,
      whatever credentials it finds;
    \<^item> the READMEs.
\<close>

section \<open>The two servers compared\<close>

text \<open>
  A line both servers understand.  The comparison counts the lines each server has
  written plus the answers the main server owes for settled invocations still in its
  microtask queue.
\<close>

definition shared_request :: "json \<Rightarrow> bool" where
  "shared_request req \<longleftrightarrow>
     (case (js_get (Some req) ''jsonrpc'', js_get (Some req) ''method'') of
        (Inr v, Inr m) \<Rightarrow>
          v \<noteq> Some (JStr ''2.0'') \<or> m = Some (JStr ''initialize'')
          \<or> (m \<noteq> Some (JStr ''tools/list'') \<and> m \<noteq> Some (JStr ''tools/invoke'')
              \<and> m \<noteq> Some (JStr ''notifications/initialized''))
          \<or> (m = Some (JStr ''tools/invoke'')
              \<and> js_bind (js_get (Some req) ''params'') (\<lambda>ps. js_get_opt ps ''name'') = Inr (Some (JStr ''ping'')))
      | _ \<Rightarrow> True)"

definition shared_line :: "(string \<Rightarrow> exn + json) \<Rightarrow> string \<Rightarrow> bool" where
  "shared_line parse l = (case parse l of Inl e \<Rightarrow> True | Inr req \<Rightarrow> shared_request req)"

definition owed :: "server \<Rightarrow> json multiset" where
  "owed s = mset (out s) + mset (map (\<lambda>(rid, r). settled_line rid r) (microtasks s))"

definition initialized_notification :: json where
  "initialized_notification = JObj [(''jsonrpc'', JStr ''2.0''), (''method'', JStr ''notifications/initialized'')]"

definition two_lines :: "string \<Rightarrow> exn + json" where
  "two_lines l = (if l = ''a'' then Inr ping_request else Inr bogus_request)"

definition same_answer :: "(server \<Rightarrow> server) \<Rightarrow> (jsonrpc_server \<Rightarrow> jsonrpc_server) \<Rightarrow> json \<Rightarrow> bool" where
  "same_answer act act' x \<longleftrightarrow>
     (\<forall>s. out (act s) = out s @ [x] \<and> microtasks (act s) = microtasks s) \<and> (\<forall>t. jr_out (act' t) = jr_out t @ [x])"

definition ping_answer :: "(server \<Rightarrow> server) \<Rightarrow> (jsonrpc_server \<Rightarrow> jsonrpc_server) \<Rightarrow> jsval \<Rightarrow> bool" where
  "ping_answer act act' rid \<longleftrightarrow>
     (\<forall>s. out (act s) = out s \<and> microtasks (act s) = microtasks s @ [(rid, Inr (Some pong))])
     \<and> (\<forall>t. jr_out (act' t) = jr_out t @ [response rid (Some pong)])"

lemma shared_request_outcome:
  assumes sh: "shared_request req"
  shows "(\<exists>e e'. request_action req now = Inl e \<and> jr_request_action req = Inl e')
       \<or> (\<exists>act act' x. request_action req now = Inr act \<and> jr_request_action req = Inr act' \<and> same_answer act act' x)
       \<or> (\<exists>act act' rid. request_action req now = Inr act \<and> jr_request_action req = Inr act' \<and> ping_answer act act' rid)"
  (is "?fail \<or> ?same \<or> ?ping")
proof (cases "js_get (Some req) ''jsonrpc''")
  case (Inl e)
  then have ?fail by (simp add: request_action_def jr_request_action_def)
  then show ?thesis ..
next
  case (Inr v)
  then obtain rid where rid: "js_get (Some req) ''id'' = Inr rid" using js_get_other_key by blast
  obtain m where m: "js_get (Some req) ''method'' = Inr m" using Inr js_get_other_key by blast
  obtain ps where ps: "js_get (Some req) ''params'' = Inr ps" using Inr js_get_other_key by blast
  show ?thesis
  proof (cases "v = Some (JStr ''2.0'')")
    case False
    then have ?same using Inr rid
      by (auto simp: request_action_def jr_request_action_def same_answer_def server_simps)
    then show ?thesis by blast
  next
    case True
    note req = Inr rid m ps True
    consider "m = Some (JStr ''initialize'')"
      | "m = Some (JStr ''tools/invoke'')" "js_get_opt ps ''name'' = Inr (Some (JStr ''ping''))"
      | "m \<noteq> Some (JStr ''initialize'')" "m \<noteq> Some (JStr ''tools/list'')" "m \<noteq> Some (JStr ''tools/invoke'')"
          "m \<noteq> Some (JStr ''notifications/initialized'')"
      using sh req by (auto simp: shared_request_def)
    then show ?thesis
    proof cases
      case 1
      then show ?thesis using req
        by (cases "js_get ps ''protocolVersion''")
          (auto simp: request_action_def jr_request_action_def same_answer_def server_simps)
    next
      case 2
      obtain tp where "js_get_opt ps ''parameters'' = Inr tp" using 2 js_get_opt_other_key by blast
      then have ?ping using 2 req
        by (simp add: request_action_def jr_request_action_def invoke_action_def lookup_handler_ping
            invoke_ping_effect ping_answer_def server_simps)
      then show ?thesis by blast
    next
      case 3
      then have ?same using req
        by (simp add: request_action_def jr_request_action_def same_answer_def server_simps)
      then show ?thesis by blast
    qed
  qed
qed

lemma owed_step:
  assumes "shared_line parse l"
  shows "owed (on_line parse now l s) + mset (jr_out t) = mset (jr_out (jr_on_line parse l t)) + owed s"
proof (cases "parse l")
  case (Inl e)
  then show ?thesis by (simp add: on_line_def jr_on_line_def owed_def server_simps)
next
  case (Inr req)
  then have "shared_request req" using assms by (simp add: shared_line_def)
  then consider (fail) e e' where "request_action req now = Inl e" "jr_request_action req = Inl e'"
    | (same) act act' x where "request_action req now = Inr act" "jr_request_action req = Inr act'"
        "same_answer act act' x"
    | (ping) act act' rid where "request_action req now = Inr act" "jr_request_action req = Inr act'"
        "ping_answer act act' rid"
    using shared_request_outcome [of req now] by blast
  then show ?thesis
  proof cases
    case fail
    then show ?thesis using Inr by (simp add: on_line_def jr_on_line_def owed_def server_simps)
  next
    case same
    then show ?thesis using Inr by (simp add: on_line_def jr_on_line_def owed_def same_answer_def server_simps)
  next
    case ping
    then show ?thesis using Inr
      by (simp add: on_line_def jr_on_line_def owed_def ping_answer_def settled_line_def server_simps)
  qed
qed

lemma owed_fold:
  "\<forall>l\<in>set ls. shared_line parse l \<Longrightarrow>
   owed (fold (on_line parse now) ls s) + mset (jr_out t) = mset (jr_out (fold (jr_on_line parse) ls t)) + owed s"
proof (induction ls arbitrary: s t)
  case (Cons l ls)
  then have "owed (fold (on_line parse now) ls (on_line parse now l s)) + mset (jr_out (jr_on_line parse l t))
             = mset (jr_out (fold (jr_on_line parse) ls (jr_on_line parse l t))) + owed (on_line parse now l s)"
    by simp
  moreover have "owed (on_line parse now l s) + mset (jr_out t) = mset (jr_out (jr_on_line parse l t)) + owed s"
    using Cons.prems by (simp add: owed_step)
  ultimately show ?case unfolding fold_Cons comp_apply by (rule mset_balance_trans)
qed simp

lemma out_drain: "mset (out (drain s)) = owed s"
  by (simp add: drain_def run_microtasks_out owed_def)

text \<open>
  C20: the two servers of the repository agree up to the order of the answers on
  every chunk of lines that both understand (parse failures, envelopes that are not
  JSON-RPC 2.0, \<open>initialize\<close>, the invocation of \<open>ping\<close>, and methods neither
  knows): the main server writes the same answer lines as the ping-only server,
  counted with multiplicity.  The order differs: the main server answers
  \<open>ping\<close> only once the chunk's synchronous work is done.
\<close>

theorem servers_agree_up_to_order:
  assumes "\<forall>l\<in>set ls. shared_line parse l"
  shows "mset (out (run parse startup [Chunk now ls])) = mset (jr_out (jsonrpc_run parse ls))"
proof -
  have "owed (fold (on_line parse now) ls startup) + mset (jr_out jr_startup)
        = mset (jr_out (fold (jr_on_line parse) ls jr_startup)) + owed startup"
    using owed_fold [OF assms] .
  moreover have "owed startup = mset (jr_out jr_startup)"
    by (simp add: owed_def startup_def jr_startup_def)
  ultimately show ?thesis
    by (simp add: on_chunk_def out_drain jsonrpc_run_def)
qed

text \<open>
  C21: the two servers disagree on \<open>notifications/initialized\<close>: the main server
  writes nothing for it, the ping-only server answers it with error -32601.
\<close>

theorem initialized_notification_divergence:
  assumes "parse l = Inr (JObj fs)" and "lookup_last fs ''jsonrpc'' = Some (JStr ''2.0'')"
    and "lookup_last fs ''method'' = Some (JStr ''notifications/initialized'')"
  shows "out (on_line parse now l s) = out s \<and> microtasks (on_line parse now l s) = microtasks s
         \<and> jr_out (jr_on_line parse l t) = jr_out t @ [error_response (lookup_last fs ''id'') (-32601) ''Method not found'']"
  using assms
  by (simp add: on_line_def jr_on_line_def request_action_def jr_request_action_def server_simps)

theorem initialized_notification_divergence_witness:
  "out (on_line (\<lambda>l. Inr initialized_notification) 0 ''n'' idle_server) = []
   \<and> jr_out (jr_on_line (\<lambda>l. Inr initialized_notification) ''n'' jr_startup)
       = [ready_notification, error_response None (-32601) ''Method not found'']"
  using initialized_notification_divergence [of "\<lambda>l. Inr initialized_notification" "''n''"
      "[(''jsonrpc'', JStr ''2.0''), (''method'', JStr ''notifications/initialized'')]" 0 idle_server jr_startup]
  by (simp add: initialized_notification_def idle_server_def jr_startup_def)

theorem servers_agree_up_to_order_witness:
  "shared_line two_lines ''a'' \<and> shared_line two_lines ''b''
   \<and> mset (out (run two_lines startup [Chunk 0 [''a'', ''b'']])) = mset (jr_out (jsonrpc_run two_lines [''a'', ''b'']))
   \<and> out (run two_lines startup [Chunk 0 [''a'', ''b'']]) \<noteq> jr_out (jsonrpc_run two_lines [''a'', ''b''])"
proof -
  have sh: "\<forall>l\<in>set [''a'', ''b'']. shared_line two_lines l"
    by (simp add: shared_line_def shared_request_def two_lines_def ping_request_def bogus_request_def)
  have "out (run two_lines startup [Chunk 0 [''a'', ''b'']]) \<noteq> jr_out (jsonrpc_run two_lines [''a'', ''b''])"
    by (simp add: two_lines_def ping_request_def bogus_request_def startup_def jr_startup_def jsonrpc_run_def
        on_chunk_def drain_def run_microtasks_out settled_line_def dispatch_defs jr_on_line_def
        jr_request_action_def lookup_handler_ping invoke_ping_effect server_simps
        error_response_def response_def js_object_def)
  then show ?thesis using sh servers_agree_up_to_order [OF sh] by simp
qed


section \<open>The servers and the catalog script\<close>

text \<open>
  The ping-only server, written to replace the catalog script, writes only
  JSON-RPC 2.0 messages, whatever its input; the script's only line has no
  \<open>jsonrpc\<close> member, and its descriptor has lost its \<open>method\<close>.
\<close>

theorem catalog_script_not_jsonrpc:
  "list_all (\<lambda>j. js_get (Some j) ''jsonrpc'' = Inr None \<and> js_get (Some j) ''method'' = Inr None) catalog_script_lines
   \<and> list_all (\<lambda>j. js_get (Some j) ''jsonrpc'' = Inr (Some (JStr ''2.0''))) (jr_out (jsonrpc_run parse ls))"
proof -
  obtain xs where "jr_out (fold (jr_on_line parse) ls jr_startup) = jr_out jr_startup @ xs"
    and "list_all answer_line xs"
    using fold_jr_on_line_answers [of parse ls jr_startup] by blast
  then have "list_all (\<lambda>j. js_get (Some j) ''jsonrpc'' = Inr (Some (JStr ''2.0''))) (jr_out (jsonrpc_run parse ls))"
    by (simp add: jsonrpc_run_def jr_startup_def ready_notification_def list_all_iff answer_line_jsonrpc)
  moreover have "list_all (\<lambda>j. js_get (Some j) ''jsonrpc'' = Inr None \<and> js_get (Some j) ''method'' = Inr None)
                   catalog_script_lines"
    by (simp add: catalog_script_lines_def catalog_script_output_def js_object_def)
  ultimately show ?thesis by simp
qed

end
